theory Spec2Isabelle
  imports Complex_Main "HOL-Library.Word"
begin

section \<open>PuLID for FLUX: the request handler of app.py\<close>

text \<open>
  The application is one module, \<^verbatim>\<open>app.py\<close>: a process-wide \<^verbatim>\<open>FluxGenerator\<close>
  built at import time and the request handler \<^verbatim>\<open>generate_image\<close>.  Everything numerical
  (noise, schedule, text encoders, denoiser network, autoencoder, identity encoder) lives in
  the packages \<^verbatim>\<open>flux\<close> and \<^verbatim>\<open>pulid\<close>.  Networks and samplers are opaque functions
  collected in the record \<open>env\<close>; the control flow around them is embedded as written.

  Conventions: Python floats and the elements of a tensor are real numbers (finite, no NaN),
  Python integers are \<open>int\<close>, a tensor is a device, a shape and its elements in row-major
  order.  Where \<^verbatim>\<open>app.py\<close> itself computes on the elements of a tensor (line 148) each
  operation is followed by the rounding of the tensor's precision, \<open>round_float\<close> of the
  environment; inside the collaborators precisions (\<^verbatim>\<open>bfloat16\<close>, \<^verbatim>\<open>.float()\<close>, autocast)
  do not appear.  Console output and wall-clock
  timing (\<^verbatim>\<open>print\<close>, \<^verbatim>\<open>time.perf_counter\<close>) are not modelled, except that formatting the
  seed for the message of line 74 can raise.  A collaborator is a total
  function here; the exceptions raised by \<^verbatim>\<open>app.py\<close>'s own expressions are values of type
  \<open>error\<close>.  A request that ends with an exception still leaves behind the writes and
  events that came before it.
\<close>

subsection \<open>Values\<close>

datatype torch_device = CPU | CUDA

datatype error = ValueError | IndexError | TypeError | EinopsError | ModelEvaluationFailure

record tensor =
  tdevice :: torch_device
  tshape :: "nat list"
  elems :: "real list"

text \<open>A raster image (a numpy array of bytes on the way in, a PIL image on the way out).\<close>

record image =
  rows :: nat
  cols :: nat
  pixels :: "8 word list"

subsection \<open>The seed: \<^verbatim>\<open>int(seed)\<close> and \<^verbatim>\<open>str(opts.seed)\<close>\<close>

text \<open>
  The seed arrives from a text box or from the example table, so it is a Python string or a
  Python integer.  \<^verbatim>\<open>int\<close> is the identity on an integer.  On a string it skips white space
  at both ends, reads an optional sign and then decimal digits, where single underscores
  may separate digits, and raises ValueError on anything else.  A character is a code point
  below 256; of these, \<^verbatim>\<open>int\<close> takes as white space the characters 9 to 13 and 32 and, in a
  string that is not pure ASCII, the two spaces 133 and 160 (the separators 28 to 31, which
  \<^verbatim>\<open>str.strip\<close> removes, are not skipped).  The only decimal digits below 256 are 0 to 9.
\<close>

datatype seed_value = SeedInt int | SeedStr string

definition is_space :: "char \<Rightarrow> bool" where
  "is_space c = (let k = (of_char c :: nat) in (9 \<le> k \<and> k \<le> 13) \<or> k = 32 \<or> k = 133 \<or> k = 160)"

definition strip :: "string \<Rightarrow> string" where
  "strip s = rev (dropWhile is_space (rev (dropWhile is_space s)))"

definition digit_val :: "char \<Rightarrow> nat option" where
  "digit_val c = (let k = (of_char c :: nat) in if 48 \<le> k \<and> k \<le> 57 then Some (k - 48) else None)"

fun parse_digits :: "nat \<Rightarrow> string \<Rightarrow> nat option" where
  "parse_digits acc [] = Some acc"
| "parse_digits acc (c # cs) =
     (if c = CHR ''_'' then
        (case cs of
           [] \<Rightarrow> None
         | d # ds \<Rightarrow> (case digit_val d of None \<Rightarrow> None | Some v \<Rightarrow> parse_digits (acc * 10 + v) ds))
      else (case digit_val c of None \<Rightarrow> None | Some v \<Rightarrow> parse_digits (acc * 10 + v) cs))"

definition parse_number :: "string \<Rightarrow> nat option" where
  "parse_number s =
     (case s of
        [] \<Rightarrow> None
      | c # cs \<Rightarrow> (case digit_val c of None \<Rightarrow> None | Some v \<Rightarrow> parse_digits v cs))"

text \<open>
  The interpreter limits conversions between integers and decimal text: with the limit
  \<open>dmax\<close> (\<^verbatim>\<open>sys.int_max_str_digits\<close>, 4300 unless configured, 0 for no limit and on
  interpreters that have none; the interpreter accepts no other limit below 640), a
  conversion of more than \<open>dmax\<close> digits raises ValueError; numbers of up to 640 digits are
  never refused.  Underscores and the sign do not count.
\<close>

definition too_many_digits :: "nat \<Rightarrow> nat \<Rightarrow> bool" where
  "too_many_digits dmax k = (640 < k \<and> 0 < dmax \<and> dmax < k)"

fun py_int :: "nat \<Rightarrow> seed_value \<Rightarrow> error + int" where
  "py_int dmax (SeedInt n) = Inr n"
| "py_int dmax (SeedStr s) =
     (let t = strip s;
          neg = (case t of [] \<Rightarrow> False | c # _ \<Rightarrow> c = CHR ''-'');
          body = (case t of [] \<Rightarrow> [] | c # cs \<Rightarrow> if c = CHR ''-'' \<or> c = CHR ''+'' then cs else t)
      in case parse_number body of
           None \<Rightarrow> Inl ValueError
         | Some n \<Rightarrow>
             if too_many_digits dmax (length (filter (\<lambda>c. c \<noteq> CHR ''_'') body))
             then Inl ValueError
             else Inr (if neg then - int n else int n))"

fun digits :: "nat \<Rightarrow> string" where
  "digits n = (if n < 10 then [char_of (48 + n)] else digits (n div 10) @ [char_of (48 + n mod 10)])"

declare digits.simps [simp del]

definition decimal :: "int \<Rightarrow> string" where
  "decimal i = (if i < 0 then CHR ''-'' # digits (nat (- i)) else digits (nat i))"

text \<open>\<^verbatim>\<open>str\<close> of an integer, also inside an f-string: its decimal text, unless it has too
  many digits.\<close>

definition py_str_int :: "nat \<Rightarrow> int \<Rightarrow> error + string" where
  "py_str_int dmax i =
     (if too_many_digits dmax (length (digits (nat \<bar>i\<bar>))) then Inl ValueError else Inr (decimal i))"

text \<open>\<^verbatim>\<open>str\<close> of an optional integer: \<^verbatim>\<open>str(None)\<close> is the text None.\<close>

fun py_str :: "nat \<Rightarrow> int option \<Rightarrow> error + string" where
  "py_str dmax None = Inr ''None''"
| "py_str dmax (Some i) = py_str_int dmax i"

subsection \<open>Bringing the decoded tensor into image format (lines 144 to 148)\<close>

definition clamp :: "real \<Rightarrow> real \<Rightarrow> tensor \<Rightarrow> tensor" where
  "clamp lo hi x = x\<lparr>elems := map (\<lambda>v. min (max v lo) hi) (elems x)\<rparr>"

text \<open>\<^verbatim>\<open>x[0]\<close>: the first entry along the leading axis.\<close>

definition index0 :: "tensor \<Rightarrow> error + tensor" where
  "index0 x =
     (case tshape x of
        [] \<Rightarrow> Inl IndexError
      | b # rest \<Rightarrow>
          if b = 0 then Inl IndexError
          else Inr (x\<lparr>tshape := rest, elems := take (prod_list rest) (elems x)\<rparr>))"

text \<open>\<^verbatim>\<open>rearrange(x, "c h w -> h w c")\<close>: needs exactly three axes.\<close>

definition rearrange_chw_hwc :: "tensor \<Rightarrow> error + tensor" where
  "rearrange_chw_hwc x =
     (case tshape x of
        [c, h, w] \<Rightarrow>
          Inr (x\<lparr>tshape := [h, w, c],
                 elems := concat (map (\<lambda>i. concat (map (\<lambda>j. map (\<lambda>k. elems x ! (k * h * w + i * w + j))
                            [0..<c]) [0..<w])) [0..<h])\<rparr>)
      | _ \<Rightarrow> Inl EinopsError)"

text \<open>\<^verbatim>\<open>.byte()\<close>: truncation towards zero, then the low eight bits.\<close>

definition trunc :: "real \<Rightarrow> int" where
  "trunc r = (if 0 \<le> r then \<lfloor>r\<rfloor> else \<lceil>r\<rceil>)"

definition byte :: "real \<Rightarrow> 8 word" where
  "byte r = word_of_int (trunc r)"

text \<open>
  \<^verbatim>\<open>127.5 * (x + 1.0)\<close> on a tensor: the sum and the product are each rounded to the
  precision of the tensor.  \<open>rnd\<close> is that rounding (for \<^verbatim>\<open>bfloat16\<close>, the rounding of the
  32-bit result to 8 significant bits).
\<close>

definition rescale :: "(real \<Rightarrow> real) \<Rightarrow> real \<Rightarrow> real" where
  "rescale rnd v = rnd (127.5 * rnd (v + 1.0))"

text \<open>What is used of a rounding: it is monotone and leaves 0, 2 and 255 as they are
  (they are representable in every floating-point format in use).\<close>

definition rounding :: "(real \<Rightarrow> real) \<Rightarrow> bool" where
  "rounding rnd = ((\<forall>x y. x \<le> y \<longrightarrow> rnd x \<le> rnd y) \<and> rnd 0 = 0 \<and> rnd 2 = 2 \<and> rnd 255 = 255)"

definition affine :: "(real \<Rightarrow> real) \<Rightarrow> tensor \<Rightarrow> tensor" where
  "affine rnd x = x\<lparr>elems := map (rescale rnd) (elems x)\<rparr>"

definition cpu :: "tensor \<Rightarrow> tensor" where
  "cpu x = x\<lparr>tdevice := CPU\<rparr>"

text \<open>
  \<^verbatim>\<open>Image.fromarray\<close> on an array of bytes.  The mode comes from the axes after the first
  two: none is a grey image, 2, 3 or 4 channels are grey with alpha, RGB or RGBA; any other
  number of channels, or more than three axes, raises TypeError.  The image is as wide as
  the second axis and as high as the first.
\<close>

definition fromarray :: "nat list \<Rightarrow> 8 word list \<Rightarrow> error + image" where
  "fromarray shp bs =
     (case shp of
        [] \<Rightarrow> Inl IndexError
      | [n] \<Rightarrow> Inr \<lparr>rows = n, cols = 1, pixels = bs\<rparr>
      | [h, w] \<Rightarrow> Inr \<lparr>rows = h, cols = w, pixels = bs\<rparr>
      | [h, w, c] \<Rightarrow>
          if c = 2 \<or> c = 3 \<or> c = 4 then Inr \<lparr>rows = h, cols = w, pixels = bs\<rparr>
          else Inl TypeError
      | _ \<Rightarrow> Inl TypeError)"

text \<open>
  Lines 144 to 148: \<^verbatim>\<open>x.clamp(-1, 1)\<close>, \<^verbatim>\<open>rearrange(x[0], "c h w -> h w c")\<close> and
  \<^verbatim>\<open>Image.fromarray((127.5 * (x + 1.0)).cpu().byte().numpy())\<close>.
\<close>

definition to_pil :: "(real \<Rightarrow> real) \<Rightarrow> tensor \<Rightarrow> error + image" where
  "to_pil rnd x =
     (let x1 = clamp (- 1) 1 x
      in case index0 x1 of
           Inl e \<Rightarrow> Inl e
         | Inr x0 \<Rightarrow>
             (case rearrange_chw_hwc x0 of
                Inl e \<Rightarrow> Inl e
              | Inr x2 \<Rightarrow>
                  (let y = cpu (affine rnd x2)
                   in fromarray (tshape y) (map byte (elems y)))))"

text \<open>A tensor holds as many elements as its shape says.\<close>

definition numel_ok :: "tensor \<Rightarrow> bool" where
  "numel_ok x = (length (elems x) = prod_list (tshape x))"

subsection \<open>Model handles and the process-wide generator\<close>

text \<open>
  A handle is the loaded checkpoint and the device it lives on.  The T5 embedder carries
  its token budget, the autoencoder the placement of its decoder (which is relocated on its
  own), the identity pipeline its list of debug images.
\<close>

record module_handle =
  checkpoint :: string
  placement :: torch_device

record embedder = module_handle +
  max_length :: int

record autoencoder = module_handle +
  decoder_placement :: torch_device

record pulid_pipeline = module_handle +
  debug_img_list :: "image list"

record flux_generator =
  device :: torch_device
  offload :: bool
  model_name :: string
  model :: module_handle
  ae :: autoencoder
  t5 :: embedder
  clip :: module_handle
  pulid_model :: pulid_pipeline

text \<open>
  \<^verbatim>\<open>SamplingOptions\<close> of \<^verbatim>\<open>flux.cli\<close>, as line 63 constructs it.  The request's
  parameters (record \<open>request\<close> below) repeat these names, so the fields of this record are
  written with their qualified names.
\<close>

record sampling_options =
  prompt :: string
  width :: int
  height :: int
  num_steps :: int
  guidance :: real
  seed :: "int option"

text \<open>
  Modelled from the spec: the dictionary returned by \<^verbatim>\<open>flux.sampling.prepare\<close>, which is not
  in \<^verbatim>\<open>app.py\<close>.  Section 3 lists the text embedding, the text position ids and the pooled
  vector; \<^verbatim>\<open>denoise(model, **inp, ...)\<close> also takes the packed latent and its position ids
  from it.  The key \<^verbatim>\<open>txt\<close> is the field \<open>txt_emb\<close>.
\<close>

record conditioning =
  img :: tensor
  img_ids :: tensor
  txt_emb :: tensor
  txt_ids :: tensor
  vec :: tensor

text \<open>The keyword arguments of the call of \<^verbatim>\<open>denoise\<close> (lines 116 to 123); \<open>id_emb\<close> is
  the keyword \<^verbatim>\<open>id\<close>.\<close>

record denoise_args =
  inp :: conditioning
  timesteps :: "real list"
  guidance :: real
  id_emb :: "tensor option"
  id_weight :: real
  start_step :: int
  uncond_id :: "tensor option"
  true_cfg :: real
  timestep_to_start_cfg :: int
  neg_txt :: "tensor option"
  neg_txt_ids :: "tensor option"
  neg_vec :: "tensor option"

text \<open>One evaluation of the denoiser network: latent, conditioning, time, guidance scale and,
  when identity conditioning applies, the identity embedding with its weight.\<close>

record model_call =
  m_img :: tensor
  m_img_ids :: tensor
  m_txt :: tensor
  m_txt_ids :: tensor
  m_vec :: tensor
  m_timestep :: real
  m_guidance :: real
  m_id :: "(tensor \<times> real) option"

datatype handle_name = T5 | CLIP | MODEL | AE | AE_DECODER | PULID

text \<open>What a run does to the outside, in order: loads, writes to handles, relocations and
  the calls of the collaborators with the handles they read.\<close>

datatype event =
    Load handle_name torch_device
  | SetMaxLength int
  | DrawSeed
  | Resize image nat
  | GetIdEmbedding image bool
  | GetNoise int int int torch_device "int option"
  | GetSchedule int nat bool
  | MoveTo handle_name torch_device
  | EmptyCache
  | Prepare embedder module_handle tensor string
  | Denoise module_handle denoise_args
  | Unpack
  | Decode autoencoder

text \<open>The opaque collaborators: samplers, encoders and networks of \<^verbatim>\<open>flux\<close> and \<^verbatim>\<open>pulid\<close>;
  and two facts of the platform: the rounding of the decoded tensor's precision and the
  interpreter's limit on integer text.\<close>

record env =
  get_noise :: "int \<Rightarrow> int \<Rightarrow> int \<Rightarrow> torch_device \<Rightarrow> int option \<Rightarrow> tensor"
  get_schedule :: "int \<Rightarrow> nat \<Rightarrow> bool \<Rightarrow> real list"
  prepare :: "embedder \<Rightarrow> module_handle \<Rightarrow> tensor \<Rightarrow> string \<Rightarrow> conditioning"
  flux_forward :: "module_handle \<Rightarrow> model_call \<Rightarrow> tensor"
  unpack :: "tensor \<Rightarrow> int \<Rightarrow> int \<Rightarrow> tensor"
  decode :: "autoencoder \<Rightarrow> tensor \<Rightarrow> tensor"
  id_encoder :: "pulid_pipeline \<Rightarrow> image \<Rightarrow> tensor"
  uncond_id_encoder :: "pulid_pipeline \<Rightarrow> image \<Rightarrow> tensor"
  debug_images :: "pulid_pipeline \<Rightarrow> image \<Rightarrow> image list"
  interpolate :: "image \<Rightarrow> nat \<Rightarrow> nat \<Rightarrow> 8 word list"
  round_float :: "real \<Rightarrow> real"
  int_max_str_digits :: nat

subsection \<open>Start-up (lines 16 to 39)\<close>

text \<open>
  Modelled from the spec: the loaders \<^verbatim>\<open>load_t5\<close>, \<^verbatim>\<open>load_clip\<close>, \<^verbatim>\<open>load_flow_model\<close>
  and \<^verbatim>\<open>load_ae\<close> of \<^verbatim>\<open>flux.util\<close> are not in \<^verbatim>\<open>app.py\<close>.  Section 4.6: each loads its
  handle onto the configured device.
\<close>

definition load_t5 :: "torch_device \<Rightarrow> int \<Rightarrow> embedder" where
  "load_t5 dev n = \<lparr>checkpoint = ''t5'', placement = dev, max_length = n\<rparr>"

text \<open>Modelled from the spec: \<^verbatim>\<open>flux.util.load_clip\<close> (see \<open>load_t5\<close>).\<close>

definition load_clip :: "torch_device \<Rightarrow> module_handle" where
  "load_clip dev = \<lparr>checkpoint = ''clip'', placement = dev\<rparr>"

text \<open>Modelled from the spec: \<^verbatim>\<open>flux.util.load_flow_model\<close> (see \<open>load_t5\<close>).\<close>

definition load_flow_model :: "string \<Rightarrow> torch_device \<Rightarrow> module_handle" where
  "load_flow_model name dev = \<lparr>checkpoint = name, placement = dev\<rparr>"

text \<open>Modelled from the spec: \<^verbatim>\<open>flux.util.load_ae\<close> (see \<open>load_t5\<close>).\<close>

definition load_ae :: "string \<Rightarrow> torch_device \<Rightarrow> autoencoder" where
  "load_ae name dev = \<lparr>checkpoint = name, placement = dev, decoder_placement = dev\<rparr>"

text \<open>
  Modelled from the spec: the constructor of \<^verbatim>\<open>pulid.pipeline_flux.PuLIDPipeline\<close> followed by
  \<^verbatim>\<open>load_pretrain\<close>, not in \<^verbatim>\<open>app.py\<close>.  Section 6: the debug images may be empty; they are
  at start-up.
\<close>

definition PuLIDPipeline :: "module_handle \<Rightarrow> torch_device \<Rightarrow> pulid_pipeline" where
  "PuLIDPipeline dit dev = \<lparr>checkpoint = ''pulid'', placement = dev, debug_img_list = []\<rparr>"

text \<open>\<^verbatim>\<open>get_models\<close> (lines 16 to 22).  \<^verbatim>\<open>model.eval()\<close> switches the denoiser to
  inference mode once, at load time; the mode is not a field of the handle here.\<close>

definition get_models ::
  "string \<Rightarrow> torch_device \<Rightarrow> bool \<Rightarrow> (module_handle \<times> autoencoder \<times> embedder \<times> module_handle) \<times> event list" where
  "get_models name dev offl =
     (let t5' = load_t5 dev 128;
          clip' = load_clip dev;
          model' = load_flow_model name (if offl then CPU else dev);
          ae' = load_ae name (if offl then CPU else dev)
      in ((model', ae', t5', clip'),
          [Load T5 dev, Load CLIP dev,
           Load MODEL (if offl then CPU else dev), Load AE (if offl then CPU else dev)]))"

text \<open>\<^verbatim>\<open>FluxGenerator.__init__\<close>, run once by line 39: the device is cuda, the offload flag
  is False.\<close>

definition FluxGenerator_init :: "flux_generator \<times> event list" where
  "FluxGenerator_init =
     (let dev = CUDA;
          offl = False;
          name = ''flux-dev''
      in case get_models name dev offl of
           ((model', ae', t5', clip'), tr) \<Rightarrow>
             (\<lparr>device = dev, offload = offl, model_name = name,
               model = model', ae = ae', t5 = t5', clip = clip',
               pulid_model = PuLIDPipeline model' CUDA\<rparr>,
              tr @ [Load PULID CUDA]))"

subsection \<open>The identity extractor\<close>

text \<open>
  Modelled from the spec: \<^verbatim>\<open>pulid.utils.resize_numpy_image_long\<close> is not in \<^verbatim>\<open>app.py\<close>.
  Section 4.3: the reference image is resized to a bounded long-edge dimension.  An image
  whose long edge is within the bound stays as it is; otherwise both edges are scaled by the
  bound over the long edge, rounded down, and the pixels are interpolated.
\<close>

definition resize_numpy_image_long :: "env \<Rightarrow> image \<Rightarrow> nat \<Rightarrow> image" where
  "resize_numpy_image_long env im n =
     (let h = rows im; w = cols im
      in if max h w \<le> n then im
         else (let h' = h * n div max h w; w' = w * n div max h w
               in \<lparr>rows = h', cols = w', pixels = interpolate env im h' w'\<rparr>))"

text \<open>
  Modelled from the spec: \<^verbatim>\<open>PuLIDPipeline.get_id_embedding\<close> is not in \<^verbatim>\<open>app.py\<close>.
  Section 4.3: it returns a conditional identity embedding and, only if \<^verbatim>\<open>cal_uncond\<close> is
  true, an unconditional counterpart; otherwise the second value is absent.  Section 6: the
  extractor produces the debug images of the response, which \<^verbatim>\<open>app.py\<close> reads from the
  pipeline's \<^verbatim>\<open>debug_img_list\<close>.
\<close>

definition get_id_embedding ::
  "env \<Rightarrow> pulid_pipeline \<Rightarrow> image \<Rightarrow> bool \<Rightarrow> (tensor \<times> tensor option) \<times> pulid_pipeline" where
  "get_id_embedding env p im cal_uncond =
     ((id_encoder env p im, if cal_uncond then Some (uncond_id_encoder env p im) else None),
      p\<lparr>debug_img_list := debug_images env p im\<rparr>)"

subsection \<open>The denoising loop\<close>

definition tzip :: "(real \<Rightarrow> real \<Rightarrow> real) \<Rightarrow> tensor \<Rightarrow> tensor \<Rightarrow> error + tensor" where
  "tzip f a b =
     (if tshape a = tshape b \<and> length (elems a) = length (elems b)
      then Inr (a\<lparr>elems := map2 f (elems a) (elems b)\<rparr>)
      else Inl ModelEvaluationFailure)"

text \<open>Line 77, and the same test inside the loop: true guidance is active when the scale
  is further than 0.01 from 1.\<close>

definition cfg_active :: "real \<Rightarrow> bool" where
  "cfg_active c = (\<bar>c - 1.0\<bar> > 0.01)"

text \<open>
  Modelled from the spec: \<^verbatim>\<open>flux.sampling.denoise\<close> is not in \<^verbatim>\<open>app.py\<close>.  Section 4.4,
  step 2: from step index \<^verbatim>\<open>start_step\<close> on, and only if an identity embedding is present,
  the denoiser receives the embedding with its weight; otherwise identity conditioning is
  absent from the call.
\<close>

definition identity_at :: "denoise_args \<Rightarrow> nat \<Rightarrow> tensor option \<Rightarrow> (tensor \<times> real) option" where
  "identity_at a i e =
     (case e of
        None \<Rightarrow> None
      | Some v \<Rightarrow> if start_step a \<le> int i then Some (v, id_weight a) else None)"

text \<open>
  Modelled from the spec: one transition of the loop of \<^verbatim>\<open>flux.sampling.denoise\<close>
  (section 4.4, steps 1 to 4).  The denoiser is evaluated on the current latent and the text
  conditioning.  If true guidance is active and the step index has reached
  \<^verbatim>\<open>timestep_to_start_cfg\<close>, a second evaluation uses the negative conditioning and the
  unconditional identity embedding, and the two are combined as
  \<open>negative + true_cfg * (positive - negative)\<close>; a missing negative conditioning makes that
  evaluation fail.  The latent then advances by the step size times the estimate.
\<close>

definition denoise_step ::
  "env \<Rightarrow> module_handle \<Rightarrow> denoise_args \<Rightarrow> nat \<Rightarrow> real \<Rightarrow> real \<Rightarrow> tensor \<Rightarrow> error + tensor" where
  "denoise_step env m a i t_curr t_prev x =
     (let pos = flux_forward env m
                  \<lparr>m_img = x, m_img_ids = img_ids (inp a), m_txt = txt_emb (inp a),
                   m_txt_ids = txt_ids (inp a), m_vec = vec (inp a), m_timestep = t_curr,
                   m_guidance = guidance a, m_id = identity_at a i (id_emb a)\<rparr>;
          pred =
            (if cfg_active (true_cfg a) \<and> timestep_to_start_cfg a \<le> int i then
               (case (neg_txt a, neg_txt_ids a, neg_vec a) of
                  (Some nt, Some ni, Some nv) \<Rightarrow>
                    (let neg = flux_forward env m
                                 \<lparr>m_img = x, m_img_ids = img_ids (inp a), m_txt = nt,
                                  m_txt_ids = ni, m_vec = nv, m_timestep = t_curr,
                                  m_guidance = guidance a, m_id = identity_at a i (uncond_id a)\<rparr>
                     in tzip (\<lambda>n p. n + true_cfg a * (p - n)) neg pos)
                | _ \<Rightarrow> Inl ModelEvaluationFailure)
             else Inr pos)
      in case pred of
           Inl e \<Rightarrow> Inl e
         | Inr p \<Rightarrow> tzip (\<lambda>u v. u + (t_prev - t_curr) * v) x p)"

text \<open>Modelled from the spec: the loop of \<^verbatim>\<open>flux.sampling.denoise\<close> (section 4.4): one
  transition per pair of consecutive timesteps, in schedule order; a failure aborts.\<close>

fun denoise_loop ::
  "env \<Rightarrow> module_handle \<Rightarrow> denoise_args \<Rightarrow> nat \<Rightarrow> real list \<Rightarrow> tensor \<Rightarrow> error + tensor" where
  "denoise_loop env m a i (t_curr # t_prev # ts) x =
     (case denoise_step env m a i t_curr t_prev x of
        Inl e \<Rightarrow> Inl e
      | Inr x' \<Rightarrow> denoise_loop env m a (Suc i) (t_prev # ts) x')"
| "denoise_loop env m a i ts x = Inr x"

text \<open>Modelled from the spec: \<^verbatim>\<open>flux.sampling.denoise\<close> (section 4.4), started on the
  packed latent of the positive conditioning.\<close>

definition denoise :: "env \<Rightarrow> module_handle \<Rightarrow> denoise_args \<Rightarrow> error + tensor" where
  "denoise env m a = denoise_loop env m a 0 (timesteps a) (img (inp a))"

text \<open>
  The positive-only loop, for comparison: the loop above with the guidance branch taken
  out, so that every step uses the positive estimate directly.
\<close>

definition positive_step ::
  "env \<Rightarrow> module_handle \<Rightarrow> denoise_args \<Rightarrow> nat \<Rightarrow> real \<Rightarrow> real \<Rightarrow> tensor \<Rightarrow> error + tensor" where
  "positive_step env m a i t_curr t_prev x =
     (let pos = flux_forward env m
                  \<lparr>m_img = x, m_img_ids = img_ids (inp a), m_txt = txt_emb (inp a),
                   m_txt_ids = txt_ids (inp a), m_vec = vec (inp a), m_timestep = t_curr,
                   m_guidance = guidance a, m_id = identity_at a i (id_emb a)\<rparr>
      in tzip (\<lambda>u v. u + (t_prev - t_curr) * v) x pos)"

fun positive_loop ::
  "env \<Rightarrow> module_handle \<Rightarrow> denoise_args \<Rightarrow> nat \<Rightarrow> real list \<Rightarrow> tensor \<Rightarrow> error + tensor" where
  "positive_loop env m a i (t_curr # t_prev # ts) x =
     (case positive_step env m a i t_curr t_prev x of
        Inl e \<Rightarrow> Inl e
      | Inr x' \<Rightarrow> positive_loop env m a (Suc i) (t_prev # ts) x')"
| "positive_loop env m a i ts x = Inr x"

definition positive_only :: "env \<Rightarrow> module_handle \<Rightarrow> denoise_args \<Rightarrow> error + tensor" where
  "positive_only env m a = positive_loop env m a 0 (timesteps a) (img (inp a))"

subsection \<open>The request handler \<^verbatim>\<open>generate_image\<close> (lines 41 to 149)\<close>

record request =
  width :: int
  height :: int
  num_steps :: int
  start_step :: int
  guidance :: real
  seed :: seed_value
  prompt :: string
  id_image :: "image option"
  id_weight :: real
  neg_prompt :: string
  true_cfg :: real
  timestep_to_start_cfg :: int
  max_sequence_length :: int

text \<open>What a request leaves behind: what it returns or the exception that ended it, the
  generator afterwards and the events in order.\<close>

record outcome =
  result :: "error + (image \<times> string \<times> image list)"
  final :: flux_generator
  trace :: "event list"

type_synonym world = "flux_generator \<times> event list"

definition emit :: "event \<Rightarrow> world \<Rightarrow> world" where
  "emit e w = (fst w, snd w @ [e])"

text \<open>\<^verbatim>\<open>.to(device)\<close> and \<^verbatim>\<open>.cpu()\<close> on a handle of the generator.\<close>

fun relocate :: "handle_name \<Rightarrow> torch_device \<Rightarrow> flux_generator \<Rightarrow> flux_generator" where
  "relocate T5 d g = g\<lparr>t5 := (t5 g)\<lparr>placement := d\<rparr>\<rparr>"
| "relocate CLIP d g = g\<lparr>clip := (clip g)\<lparr>placement := d\<rparr>\<rparr>"
| "relocate MODEL d g = g\<lparr>model := (model g)\<lparr>placement := d\<rparr>\<rparr>"
| "relocate AE_DECODER d g = g\<lparr>ae := (ae g)\<lparr>decoder_placement := d\<rparr>\<rparr>"
| "relocate AE d g = g\<lparr>ae := (ae g)\<lparr>placement := d, decoder_placement := d\<rparr>\<rparr>"
| "relocate PULID d g = g\<lparr>pulid_model := (pulid_model g)\<lparr>placement := d\<rparr>\<rparr>"

definition move_to :: "handle_name \<Rightarrow> torch_device \<Rightarrow> world \<Rightarrow> world" where
  "move_to h d w = (relocate h d (fst w), snd w @ [MoveTo h d])"

definition abort :: "error \<Rightarrow> world \<Rightarrow> outcome" where
  "abort e w = \<lparr>result = Inl e, final = fst w, trace = snd w\<rparr>"

text \<open>Lines 79 to 84.\<close>

definition identity_stage ::
  "env \<Rightarrow> request \<Rightarrow> bool \<Rightarrow> world \<Rightarrow> tensor option \<times> tensor option \<times> world" where
  "identity_stage env req use_true_cfg w =
     (case id_image req of
        Some im \<Rightarrow>
          (let im' = resize_numpy_image_long env im 1024;
               w1 = emit (Resize im 1024) w;
               r = get_id_embedding env (pulid_model (fst w1)) im' use_true_cfg;
               w2 = emit (GetIdEmbedding im' use_true_cfg) ((fst w1)\<lparr>pulid_model := snd r\<rparr>, snd w1)
           in (Some (fst (fst r)), snd (fst r), w2))
      | None \<Rightarrow> (None, None, w))"

text \<open>Line 100: \<^verbatim>\<open>x.shape[-1] * x.shape[-2] // 4\<close>.\<close>

definition image_seq_len :: "tensor \<Rightarrow> error + nat" where
  "image_seq_len x =
     (let s = tshape x; n = length s
      in if n < 2 then Inl IndexError else Inr (s ! (n - 1) * s ! (n - 2) div 4))"

text \<open>Lines 104 to 107: the text encoders go to the device if offloading, then the prompt
  and, under true guidance, the negative prompt are encoded.\<close>

definition prepare_stage ::
  "env \<Rightarrow> request \<Rightarrow> sampling_options \<Rightarrow> bool \<Rightarrow> tensor \<Rightarrow> world
     \<Rightarrow> conditioning \<times> conditioning option \<times> world" where
  "prepare_stage env req opts use_true_cfg x w =
     (let w1 = (if offload (fst w)
                then move_to CLIP (device (fst w)) (move_to T5 (device (fst w)) w) else w);
          inp' = prepare env (t5 (fst w1)) (clip (fst w1)) x (sampling_options.prompt opts);
          w2 = emit (Prepare (t5 (fst w1)) (clip (fst w1)) x (sampling_options.prompt opts)) w1
      in if use_true_cfg
         then (inp', Some (prepare env (t5 (fst w2)) (clip (fst w2)) x (neg_prompt req)),
               emit (Prepare (t5 (fst w2)) (clip (fst w2)) x (neg_prompt req)) w2)
         else (inp', None, w2))"

text \<open>Lines 109 to 113.\<close>

definition before_denoise :: "world \<Rightarrow> world" where
  "before_denoise w =
     (if offload (fst w)
      then move_to MODEL (device (fst w)) (emit EmptyCache (move_to CLIP CPU (move_to T5 CPU w)))
      else w)"

text \<open>Lines 125 to 129; \<open>x\<close> is the denoised latent.\<close>

definition before_decode :: "tensor \<Rightarrow> world \<Rightarrow> world" where
  "before_decode x w =
     (if offload (fst w)
      then move_to AE_DECODER (tdevice x) (emit EmptyCache (move_to MODEL CPU w))
      else w)"

text \<open>Lines 136 to 138.\<close>

definition after_decode :: "world \<Rightarrow> world" where
  "after_decode w =
     (if offload (fst w) then emit EmptyCache (move_to AE_DECODER CPU w) else w)"

text \<open>Lines 125 to 149: relocation, unpacking, decoding, relocation, conversion to an
  image, and the triple handed back with the text of the seed (\<^verbatim>\<open>str(opts.seed)\<close>).\<close>

definition decode_stage :: "env \<Rightarrow> sampling_options \<Rightarrow> tensor \<Rightarrow> world \<Rightarrow> outcome" where
  "decode_stage env opts x1 w =
     (let w1 = before_decode x1 w;
          x2 = unpack env x1 (sampling_options.height opts) (sampling_options.width opts);
          w2 = emit Unpack w1;
          x3 = decode env (ae (fst w2)) x2;
          w3 = after_decode (emit (Decode (ae (fst w2))) w2)
      in case to_pil (round_float env) x3 of
           Inl e \<Rightarrow> abort e w3
         | Inr im \<Rightarrow>
             (case py_str (int_max_str_digits env) (sampling_options.seed opts) of
                Inl e \<Rightarrow> abort e w3
              | Inr s \<Rightarrow>
                  \<lparr>result = Inr (im, s, debug_img_list (pulid_model (fst w3))),
                   final = fst w3, trace = snd w3\<rparr>))"

text \<open>The keyword arguments of lines 116 to 123.\<close>

definition denoise_call ::
  "request \<Rightarrow> sampling_options \<Rightarrow> bool \<Rightarrow> tensor option \<Rightarrow> tensor option \<Rightarrow> real list
     \<Rightarrow> conditioning \<Rightarrow> conditioning option \<Rightarrow> denoise_args" where
  "denoise_call req opts use_true_cfg id_embeddings uncond_id_embeddings ts inp' inp_neg =
     \<lparr>inp = inp', timesteps = ts,
      denoise_args.guidance = sampling_options.guidance opts,
      id_emb = id_embeddings, denoise_args.id_weight = id_weight req,
      denoise_args.start_step = start_step req,
      uncond_id = uncond_id_embeddings,
      denoise_args.true_cfg = true_cfg req,
      denoise_args.timestep_to_start_cfg = timestep_to_start_cfg req,
      neg_txt = (if use_true_cfg then map_option txt_emb inp_neg else None),
      neg_txt_ids = (if use_true_cfg then map_option txt_ids inp_neg else None),
      neg_vec = (if use_true_cfg then map_option vec inp_neg else None)\<rparr>"

text \<open>Lines 109 to 123, then the rest.\<close>

definition denoise_stage ::
  "env \<Rightarrow> sampling_options \<Rightarrow> denoise_args \<Rightarrow> world \<Rightarrow> outcome" where
  "denoise_stage env opts args w =
     (let w1 = before_denoise w;
          w2 = emit (Denoise (model (fst w1)) args) w1
      in case denoise env (model (fst w1)) args of
           Inl e \<Rightarrow> abort e w2
         | Inr x1 \<Rightarrow> decode_stage env opts x1 w2)"

text \<open>Lines 88 to 107, then the rest.\<close>

definition sample_stage ::
  "env \<Rightarrow> request \<Rightarrow> sampling_options \<Rightarrow> bool \<Rightarrow> tensor option \<Rightarrow> tensor option \<Rightarrow> world
     \<Rightarrow> outcome" where
  "sample_stage env req opts use_true_cfg id_embeddings uncond_id_embeddings w =
     (let x = get_noise env 1 (sampling_options.height opts) (sampling_options.width opts)
                (device (fst w)) (sampling_options.seed opts);
          w1 = emit (GetNoise 1 (sampling_options.height opts) (sampling_options.width opts)
                       (device (fst w)) (sampling_options.seed opts)) w
      in case image_seq_len x of
           Inl e \<Rightarrow> abort e w1
         | Inr n \<Rightarrow>
             (let ts = get_schedule env (sampling_options.num_steps opts) n True;
                  w2 = emit (GetSchedule (sampling_options.num_steps opts) n True) w1;
                  p = prepare_stage env req opts use_true_cfg x w2
              in denoise_stage env opts
                   (denoise_call req opts use_true_cfg id_embeddings uncond_id_embeddings ts
                      (fst p) (fst (snd p)))
                   (snd (snd p))))"

text \<open>Lines 59 to 70: the converted seed, with the sentinel -1 turned into None, goes
  into the options.\<close>

definition make_options :: "request \<Rightarrow> int \<Rightarrow> sampling_options" where
  "make_options req seed1 =
     (let seed2 = (if seed1 = - 1 then None else Some seed1)
      in \<lparr>sampling_options.prompt = prompt req, sampling_options.width = width req,
          sampling_options.height = height req, sampling_options.num_steps = num_steps req,
          sampling_options.guidance = guidance req, sampling_options.seed = seed2\<rparr>)"

text \<open>Lines 72 and 73: a missing seed is drawn; \<open>drawn\<close> is the unsigned 64-bit value
  that \<^verbatim>\<open>torch.Generator(device="cpu").seed()\<close> returns.\<close>

definition draw_seed :: "sampling_options \<Rightarrow> 64 word \<Rightarrow> world \<Rightarrow> sampling_options \<times> world" where
  "draw_seed opts drawn w =
     (if sampling_options.seed opts = None
      then (opts\<lparr>sampling_options.seed := Some (uint drawn)\<rparr>, emit DrawSeed w)
      else (opts, w))"

text \<open>Line 57 writes the token budget; lines 59 to 73 settle the seed; line 74 puts the
  seed into the text it prints, which converts it to decimal text and can raise; then the
  stages follow.\<close>

definition generate_image :: "env \<Rightarrow> flux_generator \<Rightarrow> request \<Rightarrow> 64 word \<Rightarrow> outcome" where
  "generate_image env g req drawn =
     (let w0 = emit (SetMaxLength (max_sequence_length req))
                 (g\<lparr>t5 := (t5 g)\<lparr>max_length := max_sequence_length req\<rparr>\<rparr>, [])
      in case py_int (int_max_str_digits env) (seed req) of
           Inl e \<Rightarrow> abort e w0
         | Inr seed1 \<Rightarrow>
             (let od = draw_seed (make_options req seed1) drawn w0
              in case py_str (int_max_str_digits env) (sampling_options.seed (fst od)) of
                   Inl e \<Rightarrow> abort e (snd od)
                 | Inr announced \<Rightarrow>
                     (let use_true_cfg = cfg_active (true_cfg req);
                          i = identity_stage env req use_true_cfg (snd od)
                      in sample_stage env req (fst od) use_true_cfg (fst i) (fst (snd i))
                           (snd (snd i)))))"

subsection \<open>A session: start-up, then the requests one after the other\<close>

text \<open>
  Each request comes with the 64 bits that \<^verbatim>\<open>torch.Generator(device="cpu").seed()\<close> would
  draw for it.  \<^verbatim>\<open>create_demo\<close> (line 173) receives the command line's offload flag and
  registers \<^verbatim>\<open>generate_image\<close> as the handler of the button; the handler works on the
  module-level generator built by line 39, which the flag never reaches.
\<close>

fun serve :: "env \<Rightarrow> flux_generator \<Rightarrow> (request \<times> 64 word) list \<Rightarrow> outcome list" where
  "serve env g [] = []"
| "serve env g ((req, drawn) # rest) =
     (let out = generate_image env g req drawn in out # serve env (final out) rest)"

definition create_demo :: "bool \<Rightarrow> env \<Rightarrow> flux_generator \<Rightarrow> (request \<times> 64 word) list \<Rightarrow> outcome list" where
  "create_demo offl env g reqs = serve env g reqs"

definition main :: "bool \<Rightarrow> env \<Rightarrow> (request \<times> 64 word) list \<Rightarrow> event list \<times> outcome list" where
  "main cli_offload env reqs =
     (snd FluxGenerator_init, create_demo cli_offload env (fst FluxGenerator_init) reqs)"

subsection \<open>Reading a trace\<close>

fun prepared_prompts :: "event list \<Rightarrow> string list" where
  "prepared_prompts [] = []"
| "prepared_prompts (Prepare t c x p # es) = p # prepared_prompts es"
| "prepared_prompts (e # es) = prepared_prompts es"

fun noise_seeds :: "event list \<Rightarrow> int option list" where
  "noise_seeds [] = []"
| "noise_seeds (GetNoise n h w d s # es) = s # noise_seeds es"
| "noise_seeds (e # es) = noise_seeds es"

fun loads :: "event list \<Rightarrow> handle_name list" where
  "loads [] = []"
| "loads (Load h d # es) = h # loads es"
| "loads (e # es) = loads es"

text \<open>The relocations and the three stages that read relocated handles, in order.\<close>

datatype mark = Moved handle_name torch_device | Conditioning | Denoising | Decoding

fun marks :: "event list \<Rightarrow> mark list" where
  "marks [] = []"
| "marks (MoveTo h d # es) = Moved h d # marks es"
| "marks (Prepare t c x p # es) = Conditioning # marks es"
| "marks (Denoise m a # es) = Denoising # marks es"
| "marks (Decode a # es) = Decoding # marks es"
| "marks (e # es) = marks es"

text \<open>The collaborators keep a latent where it was put: the noise is created on the device
  asked for, and the packed latent of a conditioning is on the device of the latent it was
  prepared from.\<close>

definition keeps_device :: "env \<Rightarrow> bool" where
  "keeps_device env =
     ((\<forall>n h w d s. tdevice (get_noise env n h w d s) = d) \<and>
      (\<forall>t c x p. tdevice (img (prepare env t c x p)) = tdevice x))"

text \<open>What the offload policy may change in the generator: the placement of the two text
  encoders, of the denoiser and of the decoder.\<close>

definition relocated :: "flux_generator \<Rightarrow> flux_generator \<Rightarrow> bool" where
  "relocated g g' =
     (\<exists>p1 p2 p3 p4.
        g' = g\<lparr>t5 := (t5 g)\<lparr>placement := p1\<rparr>,
               clip := (clip g)\<lparr>placement := p2\<rparr>,
               model := (model g)\<lparr>placement := p3\<rparr>,
               ae := (ae g)\<lparr>decoder_placement := p4\<rparr>\<rparr>)"

text \<open>What a request may change in the generator: those placements, the token budget of
  T5 and the debug images.  Everything else is as before.\<close>

definition frame :: "flux_generator \<Rightarrow> flux_generator \<Rightarrow> bool" where
  "frame g g' =
     (\<exists>p1 p2 p3 p4 n dbg.
        g' = g\<lparr>t5 := (t5 g)\<lparr>placement := p1, max_length := n\<rparr>,
               clip := (clip g)\<lparr>placement := p2\<rparr>,
               model := (model g)\<lparr>placement := p3\<rparr>,
               ae := (ae g)\<lparr>decoder_placement := p4\<rparr>,
               pulid_model := (pulid_model g)\<lparr>debug_img_list := dbg\<rparr>\<rparr>)"

definition placements :: "flux_generator \<Rightarrow> torch_device list" where
  "placements g =
     [placement (t5 g), placement (clip g), placement (model g), placement (ae g),
      decoder_placement (ae g), placement (pulid_model g)]"

subsection \<open>A small concrete instance\<close>

definition demo_env :: env where
  "demo_env =
     \<lparr>get_noise = (\<lambda>n h w d s. \<lparr>tdevice = d, tshape = [1, 1, 2, 2], elems = [1, 2, 3, 4]\<rparr>),
      get_schedule = (\<lambda>n k sh. [1, 1 / 2, 1 / 4]),
      prepare = (\<lambda>t c x p.
         \<lparr>img = x, img_ids = x,
          txt_emb = \<lparr>tdevice = placement t, tshape = [1], elems = [real (length p)]\<rparr>,
          txt_ids = \<lparr>tdevice = placement t, tshape = [1], elems = [0]\<rparr>,
          vec = \<lparr>tdevice = placement c, tshape = [1], elems = [real (length p)]\<rparr>\<rparr>),
      flux_forward = (\<lambda>m c. (m_img c)\<lparr>elems := map (\<lambda>v. v + sum_list (elems (m_txt c)))
                                                     (elems (m_img c))\<rparr>),
      unpack = (\<lambda>x h w. x),
      decode = (\<lambda>a z. \<lparr>tdevice = tdevice z, tshape = [1, 3, 1, 1],
                       elems = [sum_list (elems z) + 16, - 2, 255 / 256]\<rparr>),
      id_encoder = (\<lambda>p im. \<lparr>tdevice = placement p, tshape = [1], elems = [real (rows im)]\<rparr>),
      uncond_id_encoder = (\<lambda>p im. \<lparr>tdevice = placement p, tshape = [1], elems = [0]\<rparr>),
      debug_images = (\<lambda>p im. [im]),
      interpolate = (\<lambda>im h w. []),
      round_float = (\<lambda>v. of_int \<lfloor>v * 128 + 1 / 2\<rfloor> / 128),
      int_max_str_digits = 4300\<rparr>"

definition demo_face :: image where
  "demo_face = \<lparr>rows = 4096, cols = 2048, pixels = []\<rparr>"

definition demo_request :: request where
  "demo_request =
     \<lparr>width = 16, height = 16, num_steps = 2, start_step = 1, guidance = 4,
      seed = SeedStr ''-1'', prompt = ''portrait'', id_image = Some demo_face, id_weight = 1,
      neg_prompt = ''blurry'', true_cfg = 1, timestep_to_start_cfg = 1,
      max_sequence_length = 256\<rparr>"

definition demo_generator :: flux_generator where
  "demo_generator = fst FluxGenerator_init"

definition demo_image :: image where
  "demo_image = \<lparr>rows = 1, cols = 1, pixels = [95, 0, 255]\<rparr>"

definition demo_cfg_request :: request where
  "demo_cfg_request = demo_request\<lparr>true_cfg := 3\<rparr>"

definition demo_plain_request :: request where
  "demo_plain_request = demo_request\<lparr>id_image := None\<rparr>"

definition demo_offload_generator :: flux_generator where
  "demo_offload_generator = demo_generator\<lparr>offload := True\<rparr>"

text \<open>A request with a seed of its own, and one whose seed text is a 7 between two of the
  separators that \<^verbatim>\<open>int\<close> does not skip.\<close>

definition demo_fixed_request :: request where
  "demo_fixed_request = demo_request\<lparr>seed := SeedInt 42\<rparr>"

definition demo_bad_request :: request where
  "demo_bad_request = demo_request\<lparr>seed := SeedStr [CHR 0x1F, CHR ''7'', CHR 0x1C]\<rparr>"

section \<open>Properties\<close>

subsection \<open>The seed text\<close>

lemma digit_val_char: "d < 10 \<Longrightarrow> digit_val (char_of (48 + d)) = Some d"
  by (simp add: digit_val_def Let_def)

lemma not_underscore: "(d::nat) < 10 \<Longrightarrow> char_of (48 + d) \<noteq> CHR ''_''"
proof
  assume d: "d < 10" and e: "char_of (48 + d) = CHR ''_''"
  from e have "of_char (char_of (48 + d) :: char) = (of_char (CHR ''_'') :: nat)" by simp
  with d show False by simp
qed

lemma parse_digits_snoc:
  "d < 10 \<Longrightarrow> parse_digits acc cs = Some k \<Longrightarrow> parse_digits acc (cs @ [char_of (48 + d)]) = Some (k * 10 + d)"
proof (induction acc cs rule: parse_digits.induct)
  case (1 acc)
  then show ?case by (simp add: digit_val_char not_underscore)
next
  case (2 acc c cs)
  show ?case
  proof (cases "c = CHR ''_''")
    case True
    with "2.prems"(2) obtain d0 ds v where cs: "cs = d0 # ds" and v: "digit_val d0 = Some v"
      and p: "parse_digits (acc * 10 + v) ds = Some k"
      by (cases cs; cases "digit_val (hd cs)") auto
    have "parse_digits (acc * 10 + v) (ds @ [char_of (48 + d)]) = Some (k * 10 + d)"
      using "2.IH"(1)[OF True cs v "2.prems"(1) p] .
    with True cs v show ?thesis by simp
  next
    case False
    with "2.prems"(2) obtain v where v: "digit_val c = Some v"
      and p: "parse_digits (acc * 10 + v) cs = Some k"
      by (cases "digit_val c") auto
    have "parse_digits (acc * 10 + v) (cs @ [char_of (48 + d)]) = Some (k * 10 + d)"
      using "2.IH"(2)[OF False v "2.prems"(1) p] .
    with False v show ?thesis by simp
  qed
qed

lemma digits_small: "n < 10 \<Longrightarrow> digits n = [char_of (48 + n)]"
  by (subst digits.simps) simp

lemma digits_large: "\<not> n < 10 \<Longrightarrow> digits n = digits (n div 10) @ [char_of (48 + n mod 10)]"
  by (subst digits.simps) simp

lemma parse_number_digits: "parse_number (digits n) = Some n"
proof (induction n rule: digits.induct)
  case (1 n)
  show ?case
  proof (cases "n < 10")
    case True
    then show ?thesis by (simp add: digits_small parse_number_def digit_val_char)
  next
    case False
    with 1 have ih: "parse_number (digits (n div 10)) = Some (n div 10)" by simp
    obtain c cs where cs: "digits (n div 10) = c # cs"
      using ih by (cases "digits (n div 10)") (auto simp: parse_number_def)
    from ih cs obtain v where v: "digit_val c = Some v" "parse_digits v cs = Some (n div 10)"
      by (cases "digit_val c") (auto simp: parse_number_def)
    have "parse_digits v (cs @ [char_of (48 + n mod 10)]) = Some (n div 10 * 10 + n mod 10)"
      by (rule parse_digits_snoc) (use v in auto)
    with False cs v show ?thesis
      by (simp add: digits_large parse_number_def)
  qed
qed

lemma digits_hd_digit: "\<exists>c cs v. digits n = c # cs \<and> digit_val c = Some v"
proof -
  have "parse_number (digits n) = Some n" by (rule parse_number_digits)
  then show ?thesis
    by (cases "digits n"; cases "digit_val (hd (digits n))") (auto simp: parse_number_def)
qed

lemma digit_char_props:
  "digit_val c = Some v \<Longrightarrow> \<not> is_space c \<and> c \<noteq> CHR ''-'' \<and> c \<noteq> CHR ''+''"
  by (auto simp: digit_val_def is_space_def Let_def split: if_splits)

lemma digits_last: "\<exists>cs (d::nat). digits n = cs @ [char_of (48 + d)] \<and> d < 10"
proof (cases "n < 10")
  case True
  then have "digits n = [] @ [char_of (48 + n)]" by (simp add: digits_small)
  with True show ?thesis by blast
next
  case False
  then have "digits n = digits (n div 10) @ [char_of (48 + n mod 10)]" by (simp add: digits_large)
  moreover have "n mod 10 < 10" by simp
  ultimately show ?thesis by blast
qed

lemma char_digit_not_space: "(d::nat) < 10 \<Longrightarrow> \<not> is_space (char_of (48 + d))"
  by (simp add: is_space_def Let_def)

lemma strip_digits: "strip (digits n) = digits n"
proof -
  obtain c cs v where h: "digits n = c # cs" "digit_val c = Some v" using digits_hd_digit[of n] by blast
  obtain ds and d :: nat where l: "digits n = ds @ [char_of (48 + d)]" "d < 10" using digits_last[of n] by blast
  have 1: "dropWhile is_space (digits n) = digits n" using h digit_char_props[OF h(2)] by simp
  have "dropWhile is_space (rev (ds @ [char_of (48 + d)])) = rev (ds @ [char_of (48 + d)])"
    using char_digit_not_space[OF l(2)] by simp
  then have 2: "dropWhile is_space (rev (digits n)) = rev (digits n)" using l(1) by simp
  show ?thesis unfolding strip_def 1 2 by simp
qed

lemma strip_minus_digits: "strip (CHR ''-'' # digits n) = CHR ''-'' # digits n"
proof -
  obtain ds and d :: nat where l: "digits n = ds @ [char_of (48 + d)]" "d < 10" using digits_last[of n] by blast
  have 1: "dropWhile is_space (CHR ''-'' # digits n) = CHR ''-'' # digits n" by (simp add: is_space_def)
  have "dropWhile is_space (rev (CHR ''-'' # ds @ [char_of (48 + d)])) = rev (CHR ''-'' # ds @ [char_of (48 + d)])"
    using char_digit_not_space[OF l(2)] by simp
  then have 2: "dropWhile is_space (rev (CHR ''-'' # digits n)) = rev (CHR ''-'' # digits n)"
    using l(1) by simp
  show ?thesis unfolding strip_def 1 2 by simp
qed

lemma digits_no_underscore: "filter (\<lambda>c. c \<noteq> CHR ''_'') (digits n) = digits n"
proof (induction n rule: digits.induct)
  case (1 n)
  show ?case
  proof (cases "n < 10")
    case True
    then show ?thesis by (simp add: digits_small not_underscore)
  next
    case False
    have "n mod 10 < 10" by simp
    from not_underscore[OF this] 1[OF False] False show ?thesis by (simp add: digits_large)
  qed
qed

lemma digits_length: "n < 10 ^ k \<Longrightarrow> 0 < k \<Longrightarrow> length (digits n) \<le> k"
proof (induction n arbitrary: k rule: digits.induct)
  case (1 n)
  show ?case
  proof (cases "n < 10")
    case True
    with "1.prems" show ?thesis by (simp add: digits_small)
  next
    case False
    obtain j where k: "k = Suc j" using "1.prems"(2) by (cases k) auto
    have j: "0 < j"
    proof (rule ccontr)
      assume "\<not> 0 < j"
      with k "1.prems"(1) False show False by simp
    qed
    from "1.prems"(1) k have "n div 10 < 10 ^ j" by (simp add: less_mult_imp_div_less mult.commute)
    from "1.IH"[OF False this j] k False show ?thesis by (simp add: digits_large)
  qed
qed

lemma too_many_digits_small: "k \<le> 640 \<Longrightarrow> \<not> too_many_digits dmax k"
  by (simp add: too_many_digits_def)

lemma py_int_decimal:
  assumes "\<not> too_many_digits dmax (length (digits (nat \<bar>r\<bar>)))"
  shows "py_int dmax (SeedStr (decimal r)) = Inr r"
proof (cases "r < 0")
  case True
  then have a: "nat \<bar>r\<bar> = nat (- r)" by simp
  from True assms show ?thesis
    by (simp add: decimal_def strip_minus_digits parse_number_digits digits_no_underscore a)
next
  case False
  then have a: "nat \<bar>r\<bar> = nat r" by simp
  obtain c cs v where h: "digits (nat r) = c # cs" "digit_val c = Some v"
    using digits_hd_digit[of "nat r"] by blast
  have "parse_number (c # cs) = Some (nat r)" using parse_number_digits[of "nat r"] h by simp
  moreover have "strip (c # cs) = c # cs" using strip_digits[of "nat r"] h by simp
  moreover have "filter (\<lambda>c. c \<noteq> CHR ''_'') (c # cs) = c # cs"
    using digits_no_underscore[of "nat r"] h by simp
  moreover have "\<not> too_many_digits dmax (length (c # cs))" using assms a h by simp
  ultimately show ?thesis using False h digit_char_props[OF h(2)]
    by (simp add: decimal_def del: filter.simps list.size)
qed

lemma py_str_int_cases:
  "py_str_int dmax r = Inl ValueError \<and> too_many_digits dmax (length (digits (nat \<bar>r\<bar>)))
   \<or> py_str_int dmax r = Inr (decimal r) \<and> \<not> too_many_digits dmax (length (digits (nat \<bar>r\<bar>)))"
  by (simp add: py_str_int_def)

lemma py_str_int_Inr: "py_str_int dmax r = Inr s \<Longrightarrow> s = decimal r"
  by (simp add: py_str_int_def split: if_splits)

lemma py_int_py_str: "py_str_int dmax r = Inr s \<Longrightarrow> py_int dmax (SeedStr s) = Inr r"
proof -
  assume h: "py_str_int dmax r = Inr s"
  then have "\<not> too_many_digits dmax (length (digits (nat \<bar>r\<bar>)))" "s = decimal r"
    by (simp_all add: py_str_int_def split: if_splits)
  with py_int_decimal[of dmax r] show ?thesis by simp
qed

lemma py_str_int_uint: "py_str_int dmax (uint (d :: 64 word)) = Inr (decimal (uint d))"
proof -
  have "unat d < 2 ^ 64" using unsigned_less[of d, where ?'a = nat] by simp
  then have "nat \<bar>uint d\<bar> < 2 ^ 64" by simp
  also have "(2::nat) ^ 64 < 10 ^ 20" by simp
  finally have "length (digits (nat \<bar>uint d\<bar>)) \<le> 20" by (rule digits_length) simp
  then have "\<not> too_many_digits dmax (length (digits (nat \<bar>uint d\<bar>)))"
    by (intro too_many_digits_small) simp
  then show ?thesis by (simp add: py_str_int_def)
qed

lemma py_str_int_7: "py_str_int 4300 7 = Inr ''7''"
  by (simp add: py_str_int_def decimal_def too_many_digits_def digits.simps[of 7]
      char_of_def bit_0 bit_Suc)

subsection \<open>Conversion to an image\<close>

lemma uint_byte: "0 \<le> r \<Longrightarrow> r \<le> 255 \<Longrightarrow> uint (byte r) = \<lfloor>r\<rfloor>"
proof -
  assume a: "0 \<le> r" "r \<le> 255"
  then have "0 \<le> \<lfloor>r\<rfloor>" "\<lfloor>r\<rfloor> \<le> 255" by (simp_all add: floor_le_iff)
  then have "\<lfloor>r\<rfloor> mod 256 = \<lfloor>r\<rfloor>" by simp
  with a show ?thesis by (simp add: byte_def trunc_def uint_word_of_int take_bit_eq_mod)
qed

lemma rescale_range:
  assumes "rounding rnd" "- 1 \<le> c" "c \<le> 1"
  shows "0 \<le> rescale rnd c \<and> rescale rnd c \<le> 255"
proof -
  from assms(1) have mono: "\<And>x y. x \<le> y \<Longrightarrow> rnd x \<le> rnd y"
    and fx: "rnd 0 = 0" "rnd 2 = 2" "rnd 255 = 255"
    by (simp_all add: rounding_def)
  from assms(2) have "rnd 0 \<le> rnd (c + 1)" by (intro mono) simp
  moreover from assms(3) have "rnd (c + 1) \<le> rnd 2" by (intro mono) simp
  ultimately have r: "0 \<le> rnd (c + 1)" "rnd (c + 1) \<le> 2" using fx by simp_all
  from r(1) have "rnd 0 \<le> rnd (127.5 * rnd (c + 1))" by (intro mono) simp
  moreover from r(2) have "rnd (127.5 * rnd (c + 1)) \<le> rnd 255" by (intro mono) simp
  ultimately show ?thesis using fx by (simp add: rescale_def)
qed

lemma chw_index: "k < c \<Longrightarrow> i < h \<Longrightarrow> j < w \<Longrightarrow> k * h * w + i * w + j < c * h * (w::nat)"
proof -
  assume k: "k < c" and i: "i < h" and j: "j < w"
  have "i * w + j < (i + 1) * w" using j by simp
  also have "\<dots> \<le> h * w" using i by (intro mult_le_mono1) simp
  finally have 1: "k * h * w + i * w + j < k * h * w + h * w" by simp
  have "k * h * w + h * w = (k + 1) * (h * w)" by simp
  also have "\<dots> \<le> c * (h * w)" using k by (intro mult_le_mono1) simp
  finally show ?thesis using 1 by (simp add: mult.assoc)
qed

lemma rearrange_elems:
  assumes "rearrange_chw_hwc x = Inr y" "numel_ok x"
  shows "set (elems y) \<subseteq> set (elems x)"
proof -
  from assms(1) obtain c h w where s: "tshape x = [c, h, w]"
    by (auto simp: rearrange_chw_hwc_def split: list.splits)
  from assms(2) s have len: "length (elems x) = c * h * w" by (simp add: numel_ok_def)
  from assms(1) s have y: "elems y = concat (map (\<lambda>i. concat (map (\<lambda>j. map (\<lambda>k. elems x ! (k * h * w + i * w + j))
                            [0..<c]) [0..<w])) [0..<h])"
    by (auto simp: rearrange_chw_hwc_def)
  show ?thesis
  proof
    fix v assume "v \<in> set (elems y)"
    with y obtain i j k where "i < h" "j < w" "k < c" "v = elems x ! (k * h * w + i * w + j)"
      by auto
    with chw_index[of k c i h j w] len show "v \<in> set (elems x)" by simp
  qed
qed

lemma index0_elems:
  assumes "index0 x = Inr y" "numel_ok x"
  shows "numel_ok y \<and> set (elems y) \<subseteq> set (elems x)"
proof -
  from assms(1) obtain b rest where s: "tshape x = b # rest" "b \<noteq> 0"
    and y: "y = x\<lparr>tshape := rest, elems := take (prod_list rest) (elems x)\<rparr>"
    by (auto simp: index0_def split: list.splits if_splits)
  from assms(2) s have "length (elems x) = b * prod_list rest" by (simp add: numel_ok_def)
  moreover have "prod_list rest \<le> b * prod_list rest" using s(2) by simp
  ultimately have "length (take (prod_list rest) (elems x)) = prod_list rest" by simp
  with y show ?thesis by (auto simp: numel_ok_def dest: in_set_takeD)
qed

lemma fromarray_pixels: "fromarray shp bs = Inr im \<Longrightarrow> pixels im = bs"
  by (auto simp: fromarray_def split: list.splits if_splits)

lemma to_pil_pixels:
  assumes "to_pil rnd x = Inr im" "numel_ok x"
  shows "\<forall>b \<in> set (pixels im). \<exists>v \<in> set (elems x). b = byte (rescale rnd (min (max v (- 1)) 1))"
proof -
  let ?x1 = "clamp (- 1) 1 x"
  from assms(1) obtain x0 x2 where i: "index0 ?x1 = Inr x0" and r: "rearrange_chw_hwc x0 = Inr x2"
    and im: "fromarray (tshape (cpu (affine rnd x2))) (map byte (elems (cpu (affine rnd x2)))) = Inr im"
    by (auto simp: to_pil_def Let_def split: sum.splits)
  have n1: "numel_ok ?x1" using assms(2) by (simp add: numel_ok_def clamp_def)
  from index0_elems[OF i n1] have n0: "numel_ok x0" and s0: "set (elems x0) \<subseteq> set (elems ?x1)" by auto
  from rearrange_elems[OF r n0] have s2: "set (elems x2) \<subseteq> set (elems x0)" .
  have px: "pixels im = map (\<lambda>v. byte (rescale rnd v)) (elems x2)"
    using fromarray_pixels[OF im] by (simp add: cpu_def affine_def)
  show ?thesis
  proof
    fix b assume "b \<in> set (pixels im)"
    with px obtain u where u: "u \<in> set (elems x2)" "b = byte (rescale rnd u)" by auto
    with s2 s0 have "u \<in> set (elems ?x1)" by auto
    then obtain v where "v \<in> set (elems x)" "u = min (max v (- 1)) 1" by (auto simp: clamp_def)
    with u show "\<exists>v \<in> set (elems x). b = byte (rescale rnd (min (max v (- 1)) 1))" by auto
  qed
qed

subsection \<open>The denoising loop\<close>

lemma denoise_step_positive:
  "\<not> cfg_active (denoise_args.true_cfg a) \<Longrightarrow>
   denoise_step env m a i t t' x = positive_step env m a i t t' x"
  by (simp add: denoise_step_def positive_step_def Let_def)

lemma denoise_loop_positive:
  "\<not> cfg_active (denoise_args.true_cfg a) \<Longrightarrow>
   denoise_loop env m a i ts x = positive_loop env m a i ts x"
proof (induction env m a i ts x rule: denoise_loop.induct)
  case (1 env m a i t_curr t_prev ts x)
  then show ?case
    by (cases "positive_step env m a i t_curr t_prev x") (simp_all add: denoise_step_positive)
qed simp_all

lemma denoise_positive_only:
  "\<not> cfg_active (denoise_args.true_cfg a) \<Longrightarrow> denoise env m a = positive_only env m a"
  by (simp add: denoise_def positive_only_def denoise_loop_positive)

lemma identity_at_None [simp]: "identity_at a i None = None"
  by (simp add: identity_at_def)




lemma tzip_device: "tzip f a b = Inr c \<Longrightarrow> tdevice c = tdevice a"
  by (auto simp: tzip_def split: if_splits)

lemma denoise_step_device: "denoise_step env m a i t t' x = Inr y \<Longrightarrow> tdevice y = tdevice x"
  by (auto simp: denoise_step_def Let_def split: sum.splits dest: tzip_device)

lemma denoise_loop_device: "denoise_loop env m a i ts x = Inr y \<Longrightarrow> tdevice y = tdevice x"
proof (induction env m a i ts x rule: denoise_loop.induct)
  case (1 env m a i t_curr t_prev ts x)
  then show ?case
    by (cases "denoise_step env m a i t_curr t_prev x") (auto dest: denoise_step_device)
qed simp_all

lemma denoise_device: "denoise env m a = Inr y \<Longrightarrow> tdevice y = tdevice (img (inp a))"
  by (simp add: denoise_def denoise_loop_device)

subsection \<open>Worlds\<close>

lemma emit_simps [simp]: "fst (emit e w) = fst w" "snd (emit e w) = snd w @ [e]"
  by (simp_all add: emit_def)

lemma move_to_simps [simp]:
  "fst (move_to h d w) = relocate h d (fst w)" "snd (move_to h d w) = snd w @ [MoveTo h d]"
  by (simp_all add: move_to_def)

lemma abort_simps [simp]:
  "final (abort e w) = fst w" "trace (abort e w) = snd w" "result (abort e w) = Inl e"
  by (simp_all add: abort_def)

lemma relocate_flags [simp]:
  "offload (relocate h d g) = offload g" "device (relocate h d g) = device g"
  by (cases h; simp)+

lemma marks_append [simp]: "marks (xs @ ys) = marks xs @ marks ys"
  by (induction xs rule: marks.induct) simp_all

lemma loads_append [simp]: "loads (xs @ ys) = loads xs @ loads ys"
  by (induction xs rule: loads.induct) simp_all

lemma prepared_prompts_append [simp]:
  "prepared_prompts (xs @ ys) = prepared_prompts xs @ prepared_prompts ys"
  by (induction xs rule: prepared_prompts.induct) simp_all

lemma noise_seeds_append [simp]: "noise_seeds (xs @ ys) = noise_seeds xs @ noise_seeds ys"
  by (induction xs rule: noise_seeds.induct) simp_all

lemmas offload_defs = before_denoise_def before_decode_def after_decode_def

subsection \<open>The decoding stage\<close>

lemma decode_stage_flags:
  "offload (final (decode_stage env opts x w)) = offload (fst w)"
  "device (final (decode_stage env opts x w)) = device (fst w)"
  by (simp_all add: decode_stage_def offload_defs Let_def split: sum.splits)

lemma decode_stage_events:
  "e \<in> set (trace (decode_stage env opts x w)) \<Longrightarrow>
   e \<in> set (snd w) \<or> e = Unpack \<or> (\<exists>a. e = Decode a) \<or>
   (offload (fst w) \<and> (e = EmptyCache \<or> (\<exists>h d. e = MoveTo h d)))"
  by (auto simp: decode_stage_def offload_defs Let_def split: sum.splits if_splits)

lemma decode_stage_marks:
  "marks (trace (decode_stage env opts x w)) =
     marks (snd w) @
     (if offload (fst w)
      then [Moved MODEL CPU, Moved AE_DECODER (tdevice x), Decoding, Moved AE_DECODER CPU]
      else [Decoding])"
  by (simp add: decode_stage_def offload_defs Let_def split: sum.splits)

lemma decode_stage_decoder:
  "offload (fst w) \<Longrightarrow> Decode a \<in> set (trace (decode_stage env opts x w)) \<Longrightarrow>
   Decode a \<in> set (snd w) \<or> decoder_placement a = tdevice x"
  by (auto simp: decode_stage_def offload_defs Let_def split: sum.splits)

lemma decode_stage_prompts:
  "prepared_prompts (trace (decode_stage env opts x w)) = prepared_prompts (snd w)"
  "noise_seeds (trace (decode_stage env opts x w)) = noise_seeds (snd w)"
  "loads (trace (decode_stage env opts x w)) = loads (snd w)"
  by (simp_all add: decode_stage_def offload_defs Let_def split: sum.splits)

lemma decode_stage_result:
  "result (decode_stage env opts x w) = Inr (im, s, dbg) \<Longrightarrow>
   py_str (int_max_str_digits env) (sampling_options.seed opts) = Inr s \<and>
   to_pil (round_float env) (decode env (ae (fst (before_decode x w)))
       (unpack env x (sampling_options.height opts) (sampling_options.width opts))) = Inr im"
  by (auto simp: decode_stage_def abort_def Let_def split: sum.splits)

lemma decode_stage_image:
  "\<exists>a. Decode a \<in> set (trace (decode_stage env opts x w)) \<and>
     (case to_pil (round_float env)
             (decode env a (unpack env x (sampling_options.height opts) (sampling_options.width opts))) of
        Inl e \<Rightarrow> result (decode_stage env opts x w) = Inl e
      | Inr im \<Rightarrow>
          (case py_str (int_max_str_digits env) (sampling_options.seed opts) of
             Inl e \<Rightarrow> result (decode_stage env opts x w) = Inl e
           | Inr s \<Rightarrow> \<exists>dbg. result (decode_stage env opts x w) = Inr (im, s, dbg)))"
proof -
  let ?a = "ae (fst (emit Unpack (before_decode x w)))"
  have "Decode ?a \<in> set (trace (decode_stage env opts x w))"
    by (simp add: decode_stage_def offload_defs Let_def split: sum.splits)
  moreover have "case to_pil (round_float env)
             (decode env ?a (unpack env x (sampling_options.height opts) (sampling_options.width opts))) of
        Inl e \<Rightarrow> result (decode_stage env opts x w) = Inl e
      | Inr im \<Rightarrow>
          (case py_str (int_max_str_digits env) (sampling_options.seed opts) of
             Inl e \<Rightarrow> result (decode_stage env opts x w) = Inl e
           | Inr s \<Rightarrow> \<exists>dbg. result (decode_stage env opts x w) = Inr (im, s, dbg))"
    by (simp add: decode_stage_def abort_def Let_def split: sum.splits)
  ultimately show ?thesis by blast
qed

subsection \<open>The denoising stage\<close>

lemma before_denoise_flags [simp]:
  "offload (fst (before_denoise w)) = offload (fst w)"
  "device (fst (before_denoise w)) = device (fst w)"
  by (simp_all add: before_denoise_def)

lemma denoise_stage_flags:
  "offload (final (denoise_stage env opts a w)) = offload (fst w)"
  "device (final (denoise_stage env opts a w)) = device (fst w)"
  by (simp_all add: denoise_stage_def decode_stage_flags Let_def split: sum.splits)

lemma denoise_stage_events:
  "e \<in> set (trace (denoise_stage env opts a w)) \<Longrightarrow>
   e \<in> set (snd w) \<or> e = Unpack \<or> (\<exists>a. e = Decode a) \<or>
   e = Denoise (model (fst (before_denoise w))) a \<or>
   (offload (fst w) \<and> (e = EmptyCache \<or> (\<exists>h d. e = MoveTo h d)))"
  by (auto simp: denoise_stage_def before_denoise_def Let_def split: sum.splits if_splits
      dest!: decode_stage_events)

lemma denoise_stage_model:
  "offload (fst w) \<Longrightarrow> placement (model (fst (before_denoise w))) = device (fst w)"
  by (simp add: before_denoise_def)

lemma denoise_stage_decoder:
  "offload (fst w) \<Longrightarrow> Decode b \<in> set (trace (denoise_stage env opts a w)) \<Longrightarrow>
   Decode b \<in> set (snd w) \<or> decoder_placement b = tdevice (img (inp a))"
proof -
  assume o: "offload (fst w)" and d: "Decode b \<in> set (trace (denoise_stage env opts a w))"
  let ?m = "model (fst (before_denoise w))"
  let ?w2 = "emit (Denoise ?m a) (before_denoise w)"
  show ?thesis
  proof (cases "denoise env ?m a")
    case (Inl e)
    with d o show ?thesis
      by (auto simp: denoise_stage_def before_denoise_def Let_def)
  next
    case (Inr x)
    with d have "Decode b \<in> set (trace (decode_stage env opts x ?w2))"
      by (simp add: denoise_stage_def Let_def)
    moreover have "offload (fst ?w2)" using o by simp
    ultimately have "Decode b \<in> set (snd ?w2) \<or> decoder_placement b = tdevice x"
      by (rule decode_stage_decoder[rotated])
    moreover have "tdevice x = tdevice (img (inp a))" using Inr by (rule denoise_device)
    ultimately show ?thesis using o by (auto simp: before_denoise_def)
  qed
qed

lemma denoise_stage_prompts:
  "prepared_prompts (trace (denoise_stage env opts a w)) = prepared_prompts (snd w)"
  "noise_seeds (trace (denoise_stage env opts a w)) = noise_seeds (snd w)"
  "loads (trace (denoise_stage env opts a w)) = loads (snd w)"
  by (simp_all add: denoise_stage_def before_denoise_def decode_stage_prompts Let_def split: sum.splits)

lemma denoise_stage_marks:
  "offload (fst w) \<Longrightarrow>
   marks (trace (denoise_stage env opts a w)) =
     marks (snd w) @ [Moved T5 CPU, Moved CLIP CPU, Moved MODEL (device (fst w)), Denoising] @
     (case denoise env (model (fst (before_denoise w))) a of
        Inl e \<Rightarrow> []
      | Inr x \<Rightarrow> [Moved MODEL CPU, Moved AE_DECODER (tdevice (img (inp a))), Decoding,
                  Moved AE_DECODER CPU])"
  by (auto simp: denoise_stage_def before_denoise_def decode_stage_marks Let_def
      split: sum.splits dest: denoise_device)

lemma denoise_stage_result:
  "result (denoise_stage env opts a w) = Inr r \<Longrightarrow>
   \<exists>x. denoise env (model (fst (before_denoise w))) a = Inr x"
  by (auto simp: denoise_stage_def Let_def split: sum.splits)

subsection \<open>Conditioning and identity\<close>

lemma prepare_stage_eq:
  "prepare_stage env req opts u x w =
     (let g1 = (if offload (fst w)
                then relocate CLIP (device (fst w)) (relocate T5 (device (fst w)) (fst w))
                else fst w);
          p = sampling_options.prompt opts
      in (prepare env (t5 g1) (clip g1) x p,
          (if u then Some (prepare env (t5 g1) (clip g1) x (neg_prompt req)) else None),
          g1,
          snd w @ (if offload (fst w)
                   then [MoveTo T5 (device (fst w)), MoveTo CLIP (device (fst w))] else []) @
            Prepare (t5 g1) (clip g1) x p #
            (if u then [Prepare (t5 g1) (clip g1) x (neg_prompt req)] else [])))"
  by (simp add: prepare_stage_def emit_def move_to_def Let_def)

lemma identity_stage_eq:
  "identity_stage env req u w =
     (case id_image req of
        None \<Rightarrow> (None, None, w)
      | Some raw \<Rightarrow>
          (let im = resize_numpy_image_long env raw 1024; p = pulid_model (fst w)
           in (Some (id_encoder env p im),
               (if u then Some (uncond_id_encoder env p im) else None),
               (fst w)\<lparr>pulid_model := p\<lparr>debug_img_list := debug_images env p im\<rparr>\<rparr>,
               snd w @ [Resize raw 1024, GetIdEmbedding im u])))"
  by (simp add: identity_stage_def get_id_embedding_def emit_def Let_def split: option.splits)

subsection \<open>The sampling stage\<close>

lemma sample_stage_flags:
  "offload (final (sample_stage env req opts u i ui w)) = offload (fst w)"
  "device (final (sample_stage env req opts u i ui w)) = device (fst w)"
  by (simp_all add: sample_stage_def prepare_stage_eq denoise_stage_flags Let_def split: sum.splits)

lemma sample_stage_events:
  "e \<in> set (trace (sample_stage env req opts u i ui w)) \<Longrightarrow>
   e \<in> set (snd w) \<or> e = Unpack \<or> (\<exists>a. e = Decode a) \<or> (\<exists>m a. e = Denoise m a) \<or>
   (\<exists>t c x p. e = Prepare t c x p) \<or> (\<exists>n k b. e = GetSchedule n k b) \<or>
   (\<exists>n h v d s. e = GetNoise n h v d s) \<or>
   (offload (fst w) \<and> (e = EmptyCache \<or> (\<exists>h d. e = MoveTo h d)))"
proof -
  assume e: "e \<in> set (trace (sample_stage env req opts u i ui w))"
  let ?x = "get_noise env 1 (sampling_options.height opts) (sampling_options.width opts)
                (device (fst w)) (sampling_options.seed opts)"
  show ?thesis
  proof (cases "image_seq_len ?x")
    case (Inl err)
    with e show ?thesis by (auto simp: sample_stage_def Let_def)
  next
    case (Inr n)
    with e show ?thesis
      by (auto simp: sample_stage_def prepare_stage_eq Let_def split: if_splits
          dest!: denoise_stage_events)
  qed
qed

lemma sample_stage_seeds:
  "noise_seeds (trace (sample_stage env req opts u i ui w)) =
     noise_seeds (snd w) @ [sampling_options.seed opts]"
  by (simp add: sample_stage_def prepare_stage_eq denoise_stage_prompts Let_def split: sum.splits)

lemma sample_stage_prompts:
  "prepared_prompts (trace (sample_stage env req opts u i ui w)) = prepared_prompts (snd w) \<and>
     (\<forall>m a. Denoise m a \<in> set (trace (sample_stage env req opts u i ui w)) \<longrightarrow> Denoise m a \<in> set (snd w))
   \<or> prepared_prompts (trace (sample_stage env req opts u i ui w)) =
        prepared_prompts (snd w) @ sampling_options.prompt opts # (if u then [neg_prompt req] else [])"
proof -
  let ?x = "get_noise env 1 (sampling_options.height opts) (sampling_options.width opts)
                (device (fst w)) (sampling_options.seed opts)"
  show ?thesis
  proof (cases "image_seq_len ?x")
    case (Inl err)
    then show ?thesis by (auto simp: sample_stage_def Let_def)
  next
    case (Inr n)
    then show ?thesis
      by (simp add: sample_stage_def prepare_stage_eq denoise_stage_prompts Let_def)
  qed
qed

lemma sample_stage_denoise:
  assumes "Denoise m a \<in> set (trace (sample_stage env req opts u i ui w))"
  shows "Denoise m a \<in> set (snd w) \<or>
    ((\<exists>ts t c x.
       a = denoise_call req opts u i ui ts (prepare env t c x (sampling_options.prompt opts))
             (if u then Some (prepare env t c x (neg_prompt req)) else None)) \<and>
     (offload (fst w) \<longrightarrow> placement m = device (fst w)))"
proof -
  let ?x = "get_noise env 1 (sampling_options.height opts) (sampling_options.width opts)
                (device (fst w)) (sampling_options.seed opts)"
  show ?thesis
  proof (cases "image_seq_len ?x")
    case (Inl err)
    with assms show ?thesis by (auto simp: sample_stage_def Let_def)
  next
    case (Inr n)
    let ?p = "prepare_stage env req opts u ?x
                (emit (GetSchedule (sampling_options.num_steps opts) n True)
                   (emit (GetNoise 1 (sampling_options.height opts) (sampling_options.width opts)
                       (device (fst w)) (sampling_options.seed opts)) w))"
    let ?a = "denoise_call req opts u i ui (get_schedule env (sampling_options.num_steps opts) n True)
                (fst ?p) (fst (snd ?p))"
    from assms Inr have "Denoise m a \<in> set (trace (denoise_stage env opts ?a (snd (snd ?p))))"
      by (simp add: sample_stage_def Let_def)
    from denoise_stage_events[OF this]
    have "Denoise m a \<in> set (snd (snd (snd ?p))) \<or>
          Denoise m a = Denoise (model (fst (before_denoise (snd (snd ?p))))) ?a" by auto
    then show ?thesis
    proof
      assume "Denoise m a \<in> set (snd (snd (snd ?p)))"
      then show ?thesis by (auto simp: prepare_stage_eq Let_def split: if_splits)
    next
      assume "Denoise m a = Denoise (model (fst (before_denoise (snd (snd ?p))))) ?a"
      then have m: "m = model (fst (before_denoise (snd (snd ?p))))" and a: "a = ?a" by simp_all
      have "offload (fst w) \<longrightarrow> placement m = device (fst w)"
        unfolding m by (simp add: before_denoise_def prepare_stage_eq Let_def)
      moreover have "\<exists>ts t c x.
       a = denoise_call req opts u i ui ts (prepare env t c x (sampling_options.prompt opts))
             (if u then Some (prepare env t c x (neg_prompt req)) else None)"
        unfolding a by (simp add: prepare_stage_eq Let_def) blast
      ultimately show ?thesis by blast
    qed
  qed
qed

subsection \<open>The handler\<close>

lemma denoise_stage_decoded:
  "result (denoise_stage env opts a w) = Inr r \<Longrightarrow>
   \<exists>x w'. result (decode_stage env opts x w') = Inr r"
proof (cases "denoise env (model (fst (before_denoise w))) a")
  case (Inl e)
  moreover assume "result (denoise_stage env opts a w) = Inr r"
  ultimately show ?thesis by (simp add: denoise_stage_def Let_def)
next
  case (Inr x)
  moreover assume "result (denoise_stage env opts a w) = Inr r"
  ultimately have "result (decode_stage env opts x
      (emit (Denoise (model (fst (before_denoise w))) a) (before_denoise w))) = Inr r"
    by (simp add: denoise_stage_def Let_def)
  then show ?thesis by blast
qed

lemma sample_stage_decoded:
  "result (sample_stage env req opts u i ui w) = Inr r \<Longrightarrow>
   \<exists>x w'. result (decode_stage env opts x w') = Inr r"
proof -
  assume r: "result (sample_stage env req opts u i ui w) = Inr r"
  let ?x = "get_noise env 1 (sampling_options.height opts) (sampling_options.width opts)
                (device (fst w)) (sampling_options.seed opts)"
  show ?thesis
  proof (cases "image_seq_len ?x")
    case (Inl e)
    with r show ?thesis by (simp add: sample_stage_def Let_def)
  next
    case (Inr n)
    with r obtain a w' where "result (denoise_stage env opts a w') = Inr r"
      by (simp add: sample_stage_def Let_def)
    then show ?thesis by (rule denoise_stage_decoded)
  qed
qed

lemma draw_seed_eq:
  "draw_seed (make_options req n) d w =
     ((make_options req n)\<lparr>sampling_options.seed := Some (if n = - 1 then uint d else n)\<rparr>,
      if n = - 1 then emit DrawSeed w else w)"
  by (simp add: draw_seed_def make_options_def Let_def)

lemma generate_image_Inl:
  "py_int (int_max_str_digits env) (seed req) = Inl e \<Longrightarrow>
   generate_image env g req d =
     \<lparr>result = Inl e, final = g\<lparr>t5 := (t5 g)\<lparr>max_length := max_sequence_length req\<rparr>\<rparr>,
      trace = [SetMaxLength (max_sequence_length req)]\<rparr>"
  by (simp add: generate_image_def abort_def emit_def Let_def)

lemma generate_image_refused:
  assumes "py_int (int_max_str_digits env) (seed req) = Inr n"
    and "py_str_int (int_max_str_digits env) n = Inl e"
  shows "n \<noteq> - 1 \<and> generate_image env g req d =
     \<lparr>result = Inl e, final = g\<lparr>t5 := (t5 g)\<lparr>max_length := max_sequence_length req\<rparr>\<rparr>,
      trace = [SetMaxLength (max_sequence_length req)]\<rparr>"
proof -
  have "py_str_int (int_max_str_digits env) (- 1) = Inr (decimal (- 1))"
    by (simp add: py_str_int_def too_many_digits_def digits_small)
  with assms(2) have n: "n \<noteq> - 1" by auto
  with assms show ?thesis
    by (simp add: generate_image_def draw_seed_eq abort_def emit_def Let_def)
qed

lemma generate_image_Inr:
  "py_int (int_max_str_digits env) (seed req) = Inr n \<Longrightarrow>
   py_str_int (int_max_str_digits env) (if n = - 1 then uint d else n)
     = Inr (decimal (if n = - 1 then uint d else n)) \<Longrightarrow>
   generate_image env g req d =
     (let opts = (make_options req n)\<lparr>sampling_options.seed := Some (if n = - 1 then uint d else n)\<rparr>;
          u = cfg_active (true_cfg req);
          i = identity_stage env req u
                (g\<lparr>t5 := (t5 g)\<lparr>max_length := max_sequence_length req\<rparr>\<rparr>,
                 SetMaxLength (max_sequence_length req) # (if n = - 1 then [DrawSeed] else []))
      in sample_stage env req opts u (fst i) (fst (snd i)) (snd (snd i)))"
  by (simp add: generate_image_def draw_seed_eq emit_def Let_def)

text \<open>A request ends before sampling (the seed is no integer, or too long to print), or it
  reaches sampling with a seed that has a decimal text.\<close>

lemma generate_image_cases [case_names early started]:
  obtains (early) e where
      "generate_image env g req d =
         \<lparr>result = Inl e, final = g\<lparr>t5 := (t5 g)\<lparr>max_length := max_sequence_length req\<rparr>\<rparr>,
          trace = [SetMaxLength (max_sequence_length req)]\<rparr>"
      "py_int (int_max_str_digits env) (seed req) = Inl e \<or>
       (\<exists>n. n \<noteq> - 1 \<and> py_int (int_max_str_digits env) (seed req) = Inr n \<and>
            py_str_int (int_max_str_digits env) n = Inl e)"
  | (started) n where
      "py_int (int_max_str_digits env) (seed req) = Inr n"
      "py_str_int (int_max_str_digits env) (if n = - 1 then uint d else n)
         = Inr (decimal (if n = - 1 then uint d else n))"
proof (cases "py_int (int_max_str_digits env) (seed req)")
  case (Inl e)
  from generate_image_Inl[OF this] Inl early show ?thesis by blast
next
  case (Inr n)
  show ?thesis
  proof (cases "py_str_int (int_max_str_digits env) (if n = - 1 then uint d else n)")
    case refused: (Inl e)
    have n: "n \<noteq> - 1"
    proof
      assume "n = - 1"
      with refused show False by (simp add: py_str_int_uint)
    qed
    with refused have r: "py_str_int (int_max_str_digits env) n = Inl e" by simp
    from generate_image_refused[OF Inr r, of g d] Inr r n early show ?thesis by blast
  next
    case ok: (Inr t)
    from py_str_int_Inr[OF ok] ok started[OF Inr] show ?thesis by simp
  qed
qed

lemma generate_image_decoded:
  assumes "result (generate_image env g req d) = Inr r"
  shows "\<exists>n x w. py_int (int_max_str_digits env) (seed req) = Inr n \<and>
     py_str_int (int_max_str_digits env) (if n = - 1 then uint d else n)
       = Inr (decimal (if n = - 1 then uint d else n)) \<and>
     result (decode_stage env
       ((make_options req n)\<lparr>sampling_options.seed := Some (if n = - 1 then uint d else n)\<rparr>) x w) = Inr r"
proof (cases rule: generate_image_cases[where env = env and g = g and req = req and d = d])
  case (early e)
  with assms show ?thesis by simp
next
  case (started n)
  note Inr = started(1) and ps = started(2)
  let ?opts = "(make_options req n)\<lparr>sampling_options.seed := Some (if n = - 1 then uint d else n)\<rparr>"
  from assms Inr ps obtain u i ui w where "result (sample_stage env req ?opts u i ui w) = Inr r"
    by (simp add: generate_image_Inr Let_def)
  from sample_stage_decoded[OF this] Inr ps show ?thesis by blast
qed


lemma decode_stage_extends: "\<exists>evs. trace (decode_stage env opts x w) = snd w @ evs"
  by (simp add: decode_stage_def offload_defs Let_def split: sum.splits)

lemma denoise_stage_extends: "\<exists>evs. trace (denoise_stage env opts a w) = snd w @ evs"
proof (cases "denoise env (model (fst (before_denoise w))) a")
  case (Inl e)
  then show ?thesis by (simp add: denoise_stage_def before_denoise_def Let_def)
next
  case (Inr x)
  let ?w2 = "emit (Denoise (model (fst (before_denoise w))) a) (before_denoise w)"
  obtain evs where "trace (decode_stage env opts x ?w2) = snd ?w2 @ evs"
    using decode_stage_extends by blast
  with Inr show ?thesis by (simp add: denoise_stage_def before_denoise_def Let_def)
qed

lemma prepare_stage_extends:
  "\<exists>evs. snd (snd (snd (prepare_stage env req opts u x w))) = snd w @ evs"
  by (simp add: prepare_stage_eq Let_def)

lemma sample_stage_extends: "\<exists>evs. trace (sample_stage env req opts u i ui w) = snd w @ evs"
proof -
  let ?x = "get_noise env 1 (sampling_options.height opts) (sampling_options.width opts)
                (device (fst w)) (sampling_options.seed opts)"
  show ?thesis
  proof (cases "image_seq_len ?x")
    case (Inl e)
    then show ?thesis by (simp add: sample_stage_def Let_def)
  next
    case (Inr n)
    let ?w2 = "emit (GetSchedule (sampling_options.num_steps opts) n True)
                   (emit (GetNoise 1 (sampling_options.height opts) (sampling_options.width opts)
                       (device (fst w)) (sampling_options.seed opts)) w)"
    let ?p = "prepare_stage env req opts u ?x ?w2"
    let ?a = "denoise_call req opts u i ui (get_schedule env (sampling_options.num_steps opts) n True)
                (fst ?p) (fst (snd ?p))"
    have tr: "trace (sample_stage env req opts u i ui w) = trace (denoise_stage env opts ?a (snd (snd ?p)))"
      using Inr by (simp add: sample_stage_def Let_def)
    obtain evs1 where 1: "trace (denoise_stage env opts ?a (snd (snd ?p))) = snd (snd (snd ?p)) @ evs1"
      using denoise_stage_extends by blast
    obtain evs2 where 2: "snd (snd (snd ?p)) = snd ?w2 @ evs2"
      using prepare_stage_extends by blast
    have "trace (sample_stage env req opts u i ui w) = snd w @
        ([GetNoise 1 (sampling_options.height opts) (sampling_options.width opts)
            (device (fst w)) (sampling_options.seed opts),
          GetSchedule (sampling_options.num_steps opts) n True] @ evs2 @ evs1)"
      unfolding tr 1 2 by simp
    then show ?thesis by blast
  qed
qed

lemma sample_stage_mono: "e \<in> set (snd w) \<Longrightarrow> e \<in> set (trace (sample_stage env req opts u i ui w))"
  using sample_stage_extends[of env req opts u i ui w] by auto

lemma sample_stage_encoded:
  assumes "Denoise m a \<in> set (trace (sample_stage env req opts u i ui w))"
    and "\<forall>m a. Denoise m a \<notin> set (snd w)"
  shows "\<exists>ts t c x.
       a = denoise_call req opts u i ui ts (prepare env t c x (sampling_options.prompt opts))
             (if u then Some (prepare env t c x (neg_prompt req)) else None) \<and>
       Prepare t c x (sampling_options.prompt opts) \<in> set (trace (sample_stage env req opts u i ui w)) \<and>
       (u \<longrightarrow> Prepare t c x (neg_prompt req) \<in> set (trace (sample_stage env req opts u i ui w)))"
proof -
  let ?x = "get_noise env 1 (sampling_options.height opts) (sampling_options.width opts)
                (device (fst w)) (sampling_options.seed opts)"
  show ?thesis
  proof (cases "image_seq_len ?x")
    case (Inl err)
    with assms show ?thesis by (auto simp: sample_stage_def Let_def)
  next
    case (Inr n)
    let ?p = "prepare_stage env req opts u ?x
                (emit (GetSchedule (sampling_options.num_steps opts) n True)
                   (emit (GetNoise 1 (sampling_options.height opts) (sampling_options.width opts)
                       (device (fst w)) (sampling_options.seed opts)) w))"
    let ?a = "denoise_call req opts u i ui (get_schedule env (sampling_options.num_steps opts) n True)
                (fst ?p) (fst (snd ?p))"
    let ?g1 = "fst (snd (snd ?p))"
    have tr: "trace (sample_stage env req opts u i ui w) = trace (denoise_stage env opts ?a (snd (snd ?p)))"
      using Inr by (simp add: sample_stage_def Let_def)
    with assms(1) have "Denoise m a \<in> set (trace (denoise_stage env opts ?a (snd (snd ?p))))" by simp
    from denoise_stage_events[OF this]
    have "Denoise m a \<in> set (snd (snd (snd ?p))) \<or>
          Denoise m a = Denoise (model (fst (before_denoise (snd (snd ?p))))) ?a" by auto
    moreover have "Denoise m a \<notin> set (snd (snd (snd ?p)))"
      using assms(2) by (auto simp: prepare_stage_eq Let_def split: if_splits)
    ultimately have a: "a = ?a" by simp
    obtain evs where ext: "trace (denoise_stage env opts ?a (snd (snd ?p))) = snd (snd (snd ?p)) @ evs"
      using denoise_stage_extends by blast
    have p1: "Prepare (t5 ?g1) (clip ?g1) ?x (sampling_options.prompt opts) \<in> set (snd (snd (snd ?p)))"
      by (simp add: prepare_stage_eq Let_def)
    have p2: "u \<longrightarrow> Prepare (t5 ?g1) (clip ?g1) ?x (neg_prompt req) \<in> set (snd (snd (snd ?p)))"
      by (simp add: prepare_stage_eq Let_def)
    have a': "a = denoise_call req opts u i ui (get_schedule env (sampling_options.num_steps opts) n True)
         (prepare env (t5 ?g1) (clip ?g1) ?x (sampling_options.prompt opts))
         (if u then Some (prepare env (t5 ?g1) (clip ?g1) ?x (neg_prompt req)) else None)"
      unfolding a by (simp add: prepare_stage_eq Let_def)
    from p1 p2 have "Prepare (t5 ?g1) (clip ?g1) ?x (sampling_options.prompt opts)
          \<in> set (trace (sample_stage env req opts u i ui w))"
      "u \<longrightarrow> Prepare (t5 ?g1) (clip ?g1) ?x (neg_prompt req) \<in> set (trace (sample_stage env req opts u i ui w))"
      unfolding tr ext by auto
    with a' show ?thesis by blast
  qed
qed

text \<open>The world in which sampling starts.\<close>

lemma identity_stage_no_denoise:
  "\<forall>m a. Denoise m a \<notin> set (snd w) \<Longrightarrow>
   \<forall>m a. Denoise m a \<notin> set (snd (snd (snd (identity_stage env req u w))))"
  by (simp add: identity_stage_eq Let_def split: option.splits)

lemma identity_stage_ids:
  "fst (identity_stage env req u w) =
     map_option (\<lambda>raw. id_encoder env (pulid_model (fst w)) (resize_numpy_image_long env raw 1024))
       (id_image req)"
  "fst (snd (identity_stage env req u w)) =
     (if u then map_option (\<lambda>raw. uncond_id_encoder env (pulid_model (fst w))
                                    (resize_numpy_image_long env raw 1024)) (id_image req)
      else None)"
  by (simp_all add: identity_stage_eq Let_def split: option.splits)

lemma make_options_prompt [simp]:
  "sampling_options.prompt ((make_options req n)\<lparr>sampling_options.seed := s\<rparr>) = prompt req"
  "sampling_options.seed ((make_options req n)\<lparr>sampling_options.seed := s\<rparr>) = s"
  by (simp_all add: make_options_def)

lemma generate_image_denoise:
  assumes "Denoise m a \<in> set (trace (generate_image env g req d))"
  shows "\<exists>n ts t c x.
     py_int (int_max_str_digits env) (seed req) = Inr n \<and>
     a = denoise_call req
           ((make_options req n)\<lparr>sampling_options.seed := Some (if n = - 1 then uint d else n)\<rparr>)
           (cfg_active (true_cfg req))
           (map_option (\<lambda>raw. id_encoder env (pulid_model g) (resize_numpy_image_long env raw 1024))
              (id_image req))
           (if cfg_active (true_cfg req)
            then map_option (\<lambda>raw. uncond_id_encoder env (pulid_model g)
                                     (resize_numpy_image_long env raw 1024)) (id_image req)
            else None)
           ts (prepare env t c x (prompt req))
           (if cfg_active (true_cfg req) then Some (prepare env t c x (neg_prompt req)) else None) \<and>
     Prepare t c x (prompt req) \<in> set (trace (generate_image env g req d)) \<and>
     (cfg_active (true_cfg req) \<longrightarrow>
        Prepare t c x (neg_prompt req) \<in> set (trace (generate_image env g req d)))"
proof (cases rule: generate_image_cases[where env = env and g = g and req = req and d = d])
  case (early e)
  with assms show ?thesis by (simp add: generate_image_Inl)
next
  case (started n)
  note Inr = started(1) and ps = started(2)
  let ?opts = "(make_options req n)\<lparr>sampling_options.seed := Some (if n = - 1 then uint d else n)\<rparr>"
  let ?u = "cfg_active (true_cfg req)"
  let ?w = "(g\<lparr>t5 := (t5 g)\<lparr>max_length := max_sequence_length req\<rparr>\<rparr>,
            SetMaxLength (max_sequence_length req) # (if n = - 1 then [DrawSeed] else []))"
  let ?i = "identity_stage env req ?u ?w"
  have eq: "generate_image env g req d
      = sample_stage env req ?opts ?u (fst ?i) (fst (snd ?i)) (snd (snd ?i))"
    using Inr ps by (simp add: generate_image_Inr Let_def)
  have nd: "\<forall>m a. Denoise m a \<notin> set (snd (snd (snd ?i)))"
    by (rule identity_stage_no_denoise) simp
  have ids: "fst ?i = map_option (\<lambda>raw. id_encoder env (pulid_model g)
                  (resize_numpy_image_long env raw 1024)) (id_image req)"
    "fst (snd ?i) = (if ?u then map_option (\<lambda>raw. uncond_id_encoder env (pulid_model g)
                                     (resize_numpy_image_long env raw 1024)) (id_image req)
            else None)"
    by (simp_all add: identity_stage_ids cong: if_cong)
  from sample_stage_encoded[OF assms[unfolded eq] nd] obtain ts t c x where
    "a = denoise_call req ?opts ?u (fst ?i) (fst (snd ?i)) ts
           (prepare env t c x (sampling_options.prompt ?opts))
           (if ?u then Some (prepare env t c x (neg_prompt req)) else None)"
    "Prepare t c x (sampling_options.prompt ?opts) \<in> set (trace (generate_image env g req d))"
    "?u \<longrightarrow> Prepare t c x (neg_prompt req) \<in> set (trace (generate_image env g req d))"
    unfolding eq by blast
  then have "a = denoise_call req ?opts ?u
           (map_option (\<lambda>raw. id_encoder env (pulid_model g) (resize_numpy_image_long env raw 1024))
              (id_image req))
           (if ?u then map_option (\<lambda>raw. uncond_id_encoder env (pulid_model g)
                                     (resize_numpy_image_long env raw 1024)) (id_image req)
            else None)
           ts (prepare env t c x (prompt req))
           (if ?u then Some (prepare env t c x (neg_prompt req)) else None)"
    "Prepare t c x (prompt req) \<in> set (trace (generate_image env g req d))"
    "?u \<longrightarrow> Prepare t c x (neg_prompt req) \<in> set (trace (generate_image env g req d))"
    unfolding ids by (simp_all cong: if_cong)
  with Inr show ?thesis by blast
qed

lemma generate_image_prompts:
  "prepared_prompts (trace (generate_image env g req d)) = [] \<and>
     (\<forall>m a. Denoise m a \<notin> set (trace (generate_image env g req d)))
   \<or> prepared_prompts (trace (generate_image env g req d)) =
        prompt req # (if cfg_active (true_cfg req) then [neg_prompt req] else [])"
proof (cases rule: generate_image_cases[where env = env and g = g and req = req and d = d])
  case (early e)
  then show ?thesis by (simp add: generate_image_Inl)
next
  case (started n)
  note Inr = started(1) and ps = started(2)
  let ?opts = "(make_options req n)\<lparr>sampling_options.seed := Some (if n = - 1 then uint d else n)\<rparr>"
  let ?u = "cfg_active (true_cfg req)"
  let ?w = "(g\<lparr>t5 := (t5 g)\<lparr>max_length := max_sequence_length req\<rparr>\<rparr>,
            SetMaxLength (max_sequence_length req) # (if n = - 1 then [DrawSeed] else []))"
  let ?i = "identity_stage env req ?u ?w"
  have eq: "generate_image env g req d
      = sample_stage env req ?opts ?u (fst ?i) (fst (snd ?i)) (snd (snd ?i))"
    using Inr ps by (simp add: generate_image_Inr Let_def)
  have nd: "\<forall>m a. Denoise m a \<notin> set (snd (snd (snd ?i)))"
    by (rule identity_stage_no_denoise) simp
  have np: "prepared_prompts (snd (snd (snd ?i))) = []"
    by (simp add: identity_stage_eq Let_def split: option.splits)
  from sample_stage_prompts[of env req ?opts ?u "fst ?i" "fst (snd ?i)" "snd (snd ?i)"] nd np
  show ?thesis unfolding eq by auto
qed

lemma generate_image_start:
  assumes "py_int (int_max_str_digits env) (seed req) = Inr n"
    and "py_str_int (int_max_str_digits env) (if n = - 1 then uint d else n)
           = Inr (decimal (if n = - 1 then uint d else n))"
  shows "\<exists>opts u i ui w.
     generate_image env g req d = sample_stage env req opts u i ui w \<and>
     sampling_options.seed opts = Some (if n = - 1 then uint d else n) \<and>
     snd w = SetMaxLength (max_sequence_length req) # (if n = - 1 then [DrawSeed] else []) @
             (case id_image req of
                None \<Rightarrow> []
              | Some raw \<Rightarrow> [Resize raw 1024,
                   GetIdEmbedding (resize_numpy_image_long env raw 1024) (cfg_active (true_cfg req))])"
proof -
  let ?opts = "(make_options req n)\<lparr>sampling_options.seed := Some (if n = - 1 then uint d else n)\<rparr>"
  let ?u = "cfg_active (true_cfg req)"
  let ?w = "(g\<lparr>t5 := (t5 g)\<lparr>max_length := max_sequence_length req\<rparr>\<rparr>,
            SetMaxLength (max_sequence_length req) # (if n = - 1 then [DrawSeed] else []))"
  let ?i = "identity_stage env req ?u ?w"
  have eq: "generate_image env g req d
      = sample_stage env req ?opts ?u (fst ?i) (fst (snd ?i)) (snd (snd ?i))"
    using assms by (simp add: generate_image_Inr Let_def)
  have "snd (snd (snd ?i)) = SetMaxLength (max_sequence_length req) # (if n = - 1 then [DrawSeed] else []) @
             (case id_image req of
                None \<Rightarrow> []
              | Some raw \<Rightarrow> [Resize raw 1024,
                   GetIdEmbedding (resize_numpy_image_long env raw 1024) ?u])"
    by (simp add: identity_stage_eq Let_def split: option.splits)
  moreover have "sampling_options.seed ?opts = Some (if n = - 1 then uint d else n)" by simp
  ultimately show ?thesis using eq by blast
qed

lemma generate_image_seeds:
  assumes Inr: "py_int (int_max_str_digits env) (seed req) = Inr n"
    and ps: "py_str_int (int_max_str_digits env) (if n = - 1 then uint d else n)
           = Inr (decimal (if n = - 1 then uint d else n))"
  shows "noise_seeds (trace (generate_image env g req d)) = [Some (if n = - 1 then uint d else n)]"
proof -
  from generate_image_start[OF Inr ps, of g] obtain opts u i ui w where
    h: "generate_image env g req d = sample_stage env req opts u i ui w"
       "sampling_options.seed opts = Some (if n = - 1 then uint d else n)"
       "snd w = SetMaxLength (max_sequence_length req) # (if n = - 1 then [DrawSeed] else []) @
             (case id_image req of
                None \<Rightarrow> []
              | Some raw \<Rightarrow> [Resize raw 1024,
                   GetIdEmbedding (resize_numpy_image_long env raw 1024) (cfg_active (true_cfg req))])"
    by blast
  have "noise_seeds (snd w) = []" unfolding h(3) by (simp split: option.splits)
  then show ?thesis unfolding h(1) by (simp add: sample_stage_seeds h(2))
qed

lemma generate_image_draw:
  assumes pi: "py_int (int_max_str_digits env) (seed req) = Inr n"
  shows "DrawSeed \<in> set (trace (generate_image env g req d)) \<longleftrightarrow> n = - 1"
proof (cases rule: generate_image_cases[where env = env and g = g and req = req and d = d])
  case (early e)
  from early(2) pi have "n \<noteq> - 1" by auto
  with early(1) show ?thesis by simp
next
  case (started k)
  from started(1) pi have k: "k = n" by simp
  note Inr = pi and ps = started(2)[unfolded k]
  from generate_image_start[OF Inr ps, of g] obtain opts u i ui w where
    h: "generate_image env g req d = sample_stage env req opts u i ui w"
       "snd w = SetMaxLength (max_sequence_length req) # (if n = - 1 then [DrawSeed] else []) @
             (case id_image req of
                None \<Rightarrow> []
              | Some raw \<Rightarrow> [Resize raw 1024,
                   GetIdEmbedding (resize_numpy_image_long env raw 1024) (cfg_active (true_cfg req))])"
    by blast
  have w: "DrawSeed \<in> set (snd w) \<longleftrightarrow> n = - 1" unfolding h(2) by (simp split: option.splits)
  show ?thesis
  proof
    assume "DrawSeed \<in> set (trace (generate_image env g req d))"
    from sample_stage_events[OF this[unfolded h(1)]] w show "n = - 1" by auto
  next
    assume "n = - 1"
    with w sample_stage_mono show "DrawSeed \<in> set (trace (generate_image env g req d))"
      unfolding h(1) by blast
  qed
qed


lemma generate_image_identity_events:
  assumes "GetIdEmbedding im c \<in> set (trace (generate_image env g req d))"
  shows "c = cfg_active (true_cfg req) \<and>
         (\<exists>raw. id_image req = Some raw \<and> im = resize_numpy_image_long env raw 1024)"
proof (cases rule: generate_image_cases[where env = env and g = g and req = req and d = d])
  case (early e)
  with assms show ?thesis by (simp add: generate_image_Inl)
next
  case (started n)
  note Inr = started(1) and ps = started(2)
  from generate_image_start[OF Inr ps, of g] obtain opts u i ui w where
    h: "generate_image env g req d = sample_stage env req opts u i ui w"
       "snd w = SetMaxLength (max_sequence_length req) # (if n = - 1 then [DrawSeed] else []) @
             (case id_image req of
                None \<Rightarrow> []
              | Some raw \<Rightarrow> [Resize raw 1024,
                   GetIdEmbedding (resize_numpy_image_long env raw 1024) (cfg_active (true_cfg req))])"
    by blast
  from sample_stage_events[OF assms[unfolded h(1)]]
  have "GetIdEmbedding im c \<in> set (snd w)" by auto
  then show ?thesis unfolding h(2) by (cases "id_image req") (auto split: if_splits)
qed

lemma generate_image_echo:
  assumes "py_int (int_max_str_digits env) (seed req) = Inr n"
    "result (generate_image env g req d) = Inr (im, s, dbg)"
  shows "py_str_int (int_max_str_digits env) (if n = - 1 then uint d else n) = Inr s"
proof -
  from generate_image_decoded[OF assms(2)] assms(1) obtain x w where
    "result (decode_stage env
       ((make_options req n)\<lparr>sampling_options.seed := Some (if n = - 1 then uint d else n)\<rparr>) x w)
      = Inr (im, s, dbg)" by auto
  from decode_stage_result[OF this] show ?thesis by simp
qed

text \<open>What a request returns is what the conversion to an image makes of the decoded
  output of the denoising loop.\<close>

lemma make_options_size [simp]:
  "sampling_options.height ((make_options req n)\<lparr>sampling_options.seed := s\<rparr>) = height req"
  "sampling_options.width ((make_options req n)\<lparr>sampling_options.seed := s\<rparr>) = width req"
  by (simp_all add: make_options_def)

lemma denoise_stage_logged:
  "Denoise (model (fst (before_denoise w))) a \<in> set (trace (denoise_stage env opts a w))"
proof (cases "denoise env (model (fst (before_denoise w))) a")
  case (Inl e)
  then show ?thesis by (simp add: denoise_stage_def emit_def abort_def Let_def)
next
  case (Inr x)
  let ?w2 = "emit (Denoise (model (fst (before_denoise w))) a) (before_denoise w)"
  obtain evs where "trace (decode_stage env opts x ?w2) = snd ?w2 @ evs"
    using decode_stage_extends by blast
  with Inr show ?thesis by (simp add: denoise_stage_def emit_def Let_def)
qed

lemma denoise_stage_failed:
  "denoise env (model (fst (before_denoise w))) a = Inl e \<Longrightarrow>
   result (denoise_stage env opts a w) = Inl e"
  by (simp add: denoise_stage_def abort_def Let_def)

lemma denoise_stage_image:
  assumes "denoise env (model (fst (before_denoise w))) a = Inr x"
  shows "\<exists>b. Decode b \<in> set (trace (denoise_stage env opts a w)) \<and>
     (case to_pil (round_float env)
             (decode env b (unpack env x (sampling_options.height opts) (sampling_options.width opts))) of
        Inl e \<Rightarrow> result (denoise_stage env opts a w) = Inl e
      | Inr im \<Rightarrow>
          (case py_str (int_max_str_digits env) (sampling_options.seed opts) of
             Inl e \<Rightarrow> result (denoise_stage env opts a w) = Inl e
           | Inr s \<Rightarrow> \<exists>dbg. result (denoise_stage env opts a w) = Inr (im, s, dbg)))"
proof -
  let ?w2 = "emit (Denoise (model (fst (before_denoise w))) a) (before_denoise w)"
  have eq: "denoise_stage env opts a w = decode_stage env opts x ?w2"
    using assms by (simp add: denoise_stage_def Let_def)
  show ?thesis unfolding eq by (rule decode_stage_image)
qed

lemma sample_stage_outcome:
  assumes "Denoise m a \<in> set (trace (sample_stage env req opts u i ui w))"
    and "\<forall>m a. Denoise m a \<notin> set (snd w)"
  shows "(\<forall>e. denoise env m a = Inl e \<longrightarrow> result (sample_stage env req opts u i ui w) = Inl e) \<and>
    (\<forall>x. denoise env m a = Inr x \<longrightarrow>
       (\<exists>b. Decode b \<in> set (trace (sample_stage env req opts u i ui w)) \<and>
          (case to_pil (round_float env)
             (decode env b (unpack env x (sampling_options.height opts) (sampling_options.width opts))) of
             Inl e \<Rightarrow> result (sample_stage env req opts u i ui w) = Inl e
           | Inr im \<Rightarrow>
               (case py_str (int_max_str_digits env) (sampling_options.seed opts) of
                  Inl e \<Rightarrow> result (sample_stage env req opts u i ui w) = Inl e
                | Inr s \<Rightarrow> \<exists>dbg. result (sample_stage env req opts u i ui w) = Inr (im, s, dbg)))))"
proof -
  let ?x = "get_noise env 1 (sampling_options.height opts) (sampling_options.width opts)
                (device (fst w)) (sampling_options.seed opts)"
  show ?thesis
  proof (cases "image_seq_len ?x")
    case (Inl err)
    with assms show ?thesis by (auto simp: sample_stage_def abort_def emit_def Let_def)
  next
    case (Inr n)
    let ?p = "prepare_stage env req opts u ?x
                (emit (GetSchedule (sampling_options.num_steps opts) n True)
                   (emit (GetNoise 1 (sampling_options.height opts) (sampling_options.width opts)
                       (device (fst w)) (sampling_options.seed opts)) w))"
    let ?a = "denoise_call req opts u i ui (get_schedule env (sampling_options.num_steps opts) n True)
                (fst ?p) (fst (snd ?p))"
    let ?m = "model (fst (before_denoise (snd (snd ?p))))"
    have eq: "sample_stage env req opts u i ui w = denoise_stage env opts ?a (snd (snd ?p))"
      using Inr by (simp add: sample_stage_def Let_def)
    with assms(1) have "Denoise m a \<in> set (trace (denoise_stage env opts ?a (snd (snd ?p))))" by simp
    from denoise_stage_events[OF this]
    have "Denoise m a \<in> set (snd (snd (snd ?p))) \<or> Denoise m a = Denoise ?m ?a" by auto
    moreover have "Denoise m a \<notin> set (snd (snd (snd ?p)))"
      using assms(2) by (auto simp: prepare_stage_eq Let_def split: if_splits)
    ultimately have ma: "m = ?m" "a = ?a" by simp_all
    show ?thesis unfolding eq ma
      using denoise_stage_failed[of env "snd (snd ?p)" ?a _ opts]
        denoise_stage_image[of env "snd (snd ?p)" ?a _ opts] by blast
  qed
qed

lemma sample_stage_returns:
  assumes "result (sample_stage env req opts u i ui w) = Inr r"
  shows "\<exists>m a. Denoise m a \<in> set (trace (sample_stage env req opts u i ui w))"
proof -
  let ?x = "get_noise env 1 (sampling_options.height opts) (sampling_options.width opts)
                (device (fst w)) (sampling_options.seed opts)"
  show ?thesis
  proof (cases "image_seq_len ?x")
    case (Inl err)
    with assms show ?thesis by (simp add: sample_stage_def abort_def Let_def)
  next
    case (Inr n)
    then obtain a w' where "sample_stage env req opts u i ui w = denoise_stage env opts a w'"
      by (simp add: sample_stage_def Let_def)
    with denoise_stage_logged[of w' a env opts] show ?thesis by auto
  qed
qed

lemma generate_image_outcome:
  assumes "Denoise m a \<in> set (trace (generate_image env g req d))"
  shows "(\<forall>e. denoise env m a = Inl e \<longrightarrow> result (generate_image env g req d) = Inl e) \<and>
    (\<forall>x. denoise env m a = Inr x \<longrightarrow>
       (\<exists>b. Decode b \<in> set (trace (generate_image env g req d)) \<and>
          (\<forall>e. to_pil (round_float env) (decode env b (unpack env x (height req) (width req))) = Inl e \<longrightarrow>
               result (generate_image env g req d) = Inl e) \<and>
          (\<forall>im. to_pil (round_float env) (decode env b (unpack env x (height req) (width req))) = Inr im \<longrightarrow>
               (\<exists>s dbg. result (generate_image env g req d) = Inr (im, s, dbg)))))"
proof (cases rule: generate_image_cases[where env = env and g = g and req = req and d = d])
  case (early e)
  with assms show ?thesis by simp
next
  case (started n)
  note Inr = started(1) and ps = started(2)
  let ?opts = "(make_options req n)\<lparr>sampling_options.seed := Some (if n = - 1 then uint d else n)\<rparr>"
  let ?u = "cfg_active (true_cfg req)"
  let ?w = "(g\<lparr>t5 := (t5 g)\<lparr>max_length := max_sequence_length req\<rparr>\<rparr>,
            SetMaxLength (max_sequence_length req) # (if n = - 1 then [DrawSeed] else []))"
  let ?i = "identity_stage env req ?u ?w"
  have eq: "generate_image env g req d
      = sample_stage env req ?opts ?u (fst ?i) (fst (snd ?i)) (snd (snd ?i))"
    using Inr ps by (simp add: generate_image_Inr Let_def)
  have nd: "\<forall>m a. Denoise m a \<notin> set (snd (snd (snd ?i)))"
    by (rule identity_stage_no_denoise) simp
  have st: "py_str (int_max_str_digits env) (sampling_options.seed ?opts)
      = Inr (decimal (if n = - 1 then uint d else n))" using ps by simp
  note so = sample_stage_outcome[OF assms[unfolded eq] nd, folded eq, unfolded st make_options_size]
  show ?thesis
  proof (intro conjI allI impI)
    fix e assume "denoise env m a = Inl e"
    with so show "result (generate_image env g req d) = Inl e" by blast
  next
    fix x assume "denoise env m a = Inr x"
    with so obtain b where b: "Decode b \<in> set (trace (generate_image env g req d))"
      "case to_pil (round_float env) (decode env b (unpack env x (height req) (width req))) of
         Inl e \<Rightarrow> result (generate_image env g req d) = Inl e
       | Inr im \<Rightarrow> (case Inr (decimal (if n = - 1 then uint d else n)) :: error + string of
            Inl e \<Rightarrow> result (generate_image env g req d) = Inl e
          | Inr s \<Rightarrow> \<exists>dbg. result (generate_image env g req d) = Inr (im, s, dbg))"
      by blast
    from b(2) have
      "\<forall>e. to_pil (round_float env) (decode env b (unpack env x (height req) (width req))) = Inl e \<longrightarrow>
               result (generate_image env g req d) = Inl e"
      "\<forall>im. to_pil (round_float env) (decode env b (unpack env x (height req) (width req))) = Inr im \<longrightarrow>
               (\<exists>s dbg. result (generate_image env g req d) = Inr (im, s, dbg))"
      by (auto split: sum.splits)
    with b(1) show "\<exists>b. Decode b \<in> set (trace (generate_image env g req d)) \<and>
          (\<forall>e. to_pil (round_float env) (decode env b (unpack env x (height req) (width req))) = Inl e \<longrightarrow>
               result (generate_image env g req d) = Inl e) \<and>
          (\<forall>im. to_pil (round_float env) (decode env b (unpack env x (height req) (width req))) = Inr im \<longrightarrow>
               (\<exists>s dbg. result (generate_image env g req d) = Inr (im, s, dbg)))" by blast
  qed
qed

lemma generate_image_returns:
  assumes "result (generate_image env g req d) = Inr r"
  shows "\<exists>m a. Denoise m a \<in> set (trace (generate_image env g req d))"
proof (cases rule: generate_image_cases[where env = env and g = g and req = req and d = d])
  case (early e)
  with assms show ?thesis by simp
next
  case (started n)
  note Inr = started(1) and ps = started(2)
  from Inr ps obtain opts u i ui w where
    "generate_image env g req d = sample_stage env req opts u i ui w"
    by (simp add: generate_image_Inr Let_def)
  with sample_stage_returns[of env req opts u i ui w r] assms show ?thesis by simp
qed

lemma generate_image_image:
  assumes "result (generate_image env g req d) = Inr (im, s, dbg)"
  shows "\<exists>m a x b. Denoise m a \<in> set (trace (generate_image env g req d)) \<and>
     denoise env m a = Inr x \<and> Decode b \<in> set (trace (generate_image env g req d)) \<and>
     to_pil (round_float env) (decode env b (unpack env x (height req) (width req))) = Inr im"
proof -
  from generate_image_returns[OF assms] obtain m a where
    dn: "Denoise m a \<in> set (trace (generate_image env g req d))" by blast
  note o = generate_image_outcome[OF dn]
  obtain x where x: "denoise env m a = Inr x"
    using o assms by (cases "denoise env m a") auto
  with o obtain b where b: "Decode b \<in> set (trace (generate_image env g req d))"
    "\<forall>e. to_pil (round_float env) (decode env b (unpack env x (height req) (width req))) = Inl e \<longrightarrow>
               result (generate_image env g req d) = Inl e"
    "\<forall>im. to_pil (round_float env) (decode env b (unpack env x (height req) (width req))) = Inr im \<longrightarrow>
               (\<exists>s dbg. result (generate_image env g req d) = Inr (im, s, dbg))"
    by blast
  have "to_pil (round_float env) (decode env b (unpack env x (height req) (width req))) = Inr im"
    using b(2,3) assms
    by (cases "to_pil (round_float env) (decode env b (unpack env x (height req) (width req)))") auto
  with dn x b(1) show ?thesis by blast
qed

text \<open>The events of the identity stage.\<close>

lemma generate_image_resize_events:
  assumes r: "Resize raw k \<in> set (trace (generate_image env g req d))"
  shows "id_image req = Some raw \<and> k = 1024"
proof (cases rule: generate_image_cases[where env = env and g = g and req = req and d = d])
  case (early e)
  with r show ?thesis by simp
next
  case (started n)
  note Inr = started(1) and ps = started(2)
  from generate_image_start[OF Inr ps, of g] obtain opts u i ui w where
    h: "generate_image env g req d = sample_stage env req opts u i ui w"
       "snd w = SetMaxLength (max_sequence_length req) # (if n = - 1 then [DrawSeed] else []) @
         (case id_image req of
            None \<Rightarrow> []
          | Some raw \<Rightarrow> [Resize raw 1024,
               GetIdEmbedding (resize_numpy_image_long env raw 1024) (cfg_active (true_cfg req))])"
    by blast
  from sample_stage_events[OF r[unfolded h(1)]]
  have "Resize raw k \<in> set (snd w)" by auto
  then show ?thesis unfolding h(2) by (cases "id_image req") (auto split: if_splits)
qed

lemma generate_image_extracted:
  assumes Inr: "py_int (int_max_str_digits env) (seed req) = Inr n"
    and ps: "py_str_int (int_max_str_digits env) (if n = - 1 then uint d else n)
           = Inr (decimal (if n = - 1 then uint d else n))"
    and im: "id_image req = Some raw"
  shows "Resize raw 1024 \<in> set (trace (generate_image env g req d)) \<and>
     GetIdEmbedding (resize_numpy_image_long env raw 1024) (cfg_active (true_cfg req))
       \<in> set (trace (generate_image env g req d))"
proof -
  from generate_image_start[OF Inr ps, of g] obtain opts u i ui w where
    h: "generate_image env g req d = sample_stage env req opts u i ui w"
       "snd w = SetMaxLength (max_sequence_length req) # (if n = - 1 then [DrawSeed] else []) @
         (case id_image req of
            None \<Rightarrow> []
          | Some raw \<Rightarrow> [Resize raw 1024,
               GetIdEmbedding (resize_numpy_image_long env raw 1024) (cfg_active (true_cfg req))])"
    by blast
  have "Resize raw 1024 \<in> set (snd w)"
    "GetIdEmbedding (resize_numpy_image_long env raw 1024) (cfg_active (true_cfg req)) \<in> set (snd w)"
    unfolding h(2) using im by simp_all
  then show ?thesis unfolding h(1) using sample_stage_mono by blast
qed

lemma generate_image_denoise_started:
  assumes "Denoise m a \<in> set (trace (generate_image env g req d))"
  shows "\<exists>n. py_int (int_max_str_digits env) (seed req) = Inr n \<and>
     py_str_int (int_max_str_digits env) (if n = - 1 then uint d else n)
       = Inr (decimal (if n = - 1 then uint d else n))"
proof (cases rule: generate_image_cases[where env = env and g = g and req = req and d = d])
  case (early e)
  with assms show ?thesis by simp
next
  case (started n)
  then show ?thesis by blast
qed

lemma resize_bound:
  "rows (resize_numpy_image_long env im n) \<le> n \<and> cols (resize_numpy_image_long env im n) \<le> n"
proof (cases "max (rows im) (cols im) \<le> n")
  case True
  then show ?thesis by (simp add: resize_numpy_image_long_def Let_def)
next
  case False
  let ?m = "max (rows im) (cols im)"
  from False have "n < ?m" by (simp only: not_le)
  then have m: "0 < ?m" by simp
  have "rows im * n \<le> n * ?m" "cols im * n \<le> n * ?m" by (simp_all add: mult.commute)
  then have "rows im * n div ?m \<le> n * ?m div ?m" "cols im * n div ?m \<le> n * ?m div ?m"
    by (simp_all only: div_le_mono)
  moreover have "n * ?m div ?m = n" using m by simp
  ultimately have "rows im * n div ?m \<le> n" "cols im * n div ?m \<le> n" by simp_all
  with False show ?thesis by (simp add: resize_numpy_image_long_def Let_def)
qed



subsection \<open>Independence of the trace\<close>





lemma denoise_call_ids [simp]:
  "id_emb (denoise_call req opts u i ui ts c cn) = i"
  "uncond_id (denoise_call req opts u i ui ts c cn) = ui"
  by (simp_all add: denoise_call_def)


subsection \<open>Without offloading\<close>

lemma decode_stage_plain: "\<not> offload (fst w) \<Longrightarrow> final (decode_stage env opts x w) = fst w"
  by (simp add: decode_stage_def offload_defs Let_def split: sum.splits)

lemma denoise_stage_plain: "\<not> offload (fst w) \<Longrightarrow> final (denoise_stage env opts a w) = fst w"
  by (simp add: denoise_stage_def before_denoise_def decode_stage_plain Let_def split: sum.splits)

lemma sample_stage_plain:
  "\<not> offload (fst w) \<Longrightarrow> final (sample_stage env req opts u i ui w) = fst w"
  by (simp add: sample_stage_def prepare_stage_eq denoise_stage_plain Let_def split: sum.splits)

lemma generate_image_plain:
  "\<not> offload g \<Longrightarrow>
   \<exists>dbg. final (generate_image env g req d) =
     g\<lparr>t5 := (t5 g)\<lparr>max_length := max_sequence_length req\<rparr>,
       pulid_model := (pulid_model g)\<lparr>debug_img_list := dbg\<rparr>\<rparr>"
proof (cases rule: generate_image_cases[where env = env and g = g and req = req and d = d])
  case (early e)
  assume "\<not> offload g"
  have f: "final (generate_image env g req d) = g\<lparr>t5 := (t5 g)\<lparr>max_length := max_sequence_length req\<rparr>\<rparr>"
    using early(1) by simp
  have "g\<lparr>t5 := (t5 g)\<lparr>max_length := max_sequence_length req\<rparr>\<rparr> =
        g\<lparr>t5 := (t5 g)\<lparr>max_length := max_sequence_length req\<rparr>,
          pulid_model := (pulid_model g)\<lparr>debug_img_list := debug_img_list (pulid_model g)\<rparr>\<rparr>"
    by simp
  then show ?thesis unfolding f by blast
next
  case (started n)
  note Inr = started(1) and ps = started(2)
  assume o: "\<not> offload g"
  let ?w = "(g\<lparr>t5 := (t5 g)\<lparr>max_length := max_sequence_length req\<rparr>\<rparr>,
            SetMaxLength (max_sequence_length req) # (if n = - 1 then [DrawSeed] else []))"
  let ?i = "identity_stage env req (cfg_active (true_cfg req)) ?w"
  have "\<not> offload (fst (snd (snd ?i)))" using o
    by (simp add: identity_stage_eq Let_def split: option.splits)
  then have "final (generate_image env g req d) = fst (snd (snd ?i))"
    using Inr ps by (simp add: generate_image_Inr sample_stage_plain Let_def)
  moreover have "\<exists>dbg. fst (snd (snd ?i)) =
     g\<lparr>t5 := (t5 g)\<lparr>max_length := max_sequence_length req\<rparr>,
       pulid_model := (pulid_model g)\<lparr>debug_img_list := dbg\<rparr>\<rparr>"
  proof (cases "id_image req")
    case None
    have "g\<lparr>t5 := (t5 g)\<lparr>max_length := max_sequence_length req\<rparr>\<rparr> =
        g\<lparr>t5 := (t5 g)\<lparr>max_length := max_sequence_length req\<rparr>,
          pulid_model := (pulid_model g)\<lparr>debug_img_list := debug_img_list (pulid_model g)\<rparr>\<rparr>"
      by simp
    with None show ?thesis by (simp only: identity_stage_eq option.case fst_conv snd_conv) blast
  next
    case (Some raw)
    then have "fst (snd (snd ?i)) =
       g\<lparr>t5 := (t5 g)\<lparr>max_length := max_sequence_length req\<rparr>,
         pulid_model := (pulid_model g)\<lparr>debug_img_list :=
            debug_images env (pulid_model g) (resize_numpy_image_long env raw 1024)\<rparr>\<rparr>"
      by (simp add: identity_stage_eq Let_def)
    then show ?thesis by blast
  qed
  ultimately show ?thesis by simp
qed

lemma generate_image_flags:
  "offload (final (generate_image env g req d)) = offload g"
  "device (final (generate_image env g req d)) = device g"
proof -
  have "offload (final (generate_image env g req d)) = offload g \<and>
        device (final (generate_image env g req d)) = device g"
  proof (cases rule: generate_image_cases[where env = env and g = g and req = req and d = d])
    case (early e)
    then show ?thesis by (simp add: generate_image_Inl)
  next
    case (started n)
    note Inr = started(1) and ps = started(2)
    then show ?thesis
      by (simp add: generate_image_Inr sample_stage_flags identity_stage_eq Let_def split: option.splits)
  qed
  then show "offload (final (generate_image env g req d)) = offload g"
    "device (final (generate_image env g req d)) = device g" by simp_all
qed

lemma generate_image_events:
  assumes "e \<in> set (trace (generate_image env g req d))"
  shows "e = SetMaxLength (max_sequence_length req) \<or> e = DrawSeed \<or>
     (\<exists>raw k. e = Resize raw k) \<or> (\<exists>im c. e = GetIdEmbedding im c) \<or>
     e = Unpack \<or> (\<exists>a. e = Decode a) \<or> (\<exists>m a. e = Denoise m a) \<or>
     (\<exists>t c x p. e = Prepare t c x p) \<or> (\<exists>n k b. e = GetSchedule n k b) \<or>
     (\<exists>n h v dv s. e = GetNoise n h v dv s) \<or>
     (offload g \<and> (e = EmptyCache \<or> (\<exists>h dv. e = MoveTo h dv)))"
proof (cases rule: generate_image_cases[where env = env and g = g and req = req and d = d])
  case (early err)
  with assms show ?thesis by (simp add: generate_image_Inl)
next
  case (started n)
  note Inr = started(1) and ps = started(2)
  from generate_image_start[OF Inr ps, of g] obtain opts u i ui w where
    h: "generate_image env g req d = sample_stage env req opts u i ui w"
       "snd w = SetMaxLength (max_sequence_length req) # (if n = - 1 then [DrawSeed] else []) @
             (case id_image req of
                None \<Rightarrow> []
              | Some raw \<Rightarrow> [Resize raw 1024,
                   GetIdEmbedding (resize_numpy_image_long env raw 1024) (cfg_active (true_cfg req))])"
    by blast
  have "offload (fst w) = offload g"
    using sample_stage_flags(1)[of env req opts u i ui w] generate_image_flags(1)[of env g req d]
    unfolding h(1) by simp
  with sample_stage_events[OF assms[unfolded h(1)]]
  have "e \<in> set (snd w) \<or> e = Unpack \<or> (\<exists>a. e = Decode a) \<or> (\<exists>m a. e = Denoise m a) \<or>
     (\<exists>t c x p. e = Prepare t c x p) \<or> (\<exists>n k b. e = GetSchedule n k b) \<or>
     (\<exists>n h v dv s. e = GetNoise n h v dv s) \<or>
     (offload g \<and> (e = EmptyCache \<or> (\<exists>h dv. e = MoveTo h dv)))" by simp
  moreover have "e = SetMaxLength (max_sequence_length req) \<or> e = DrawSeed \<or>
     (\<exists>raw k. e = Resize raw k) \<or> (\<exists>im c. e = GetIdEmbedding im c)" if "e \<in> set (snd w)"
    using that unfolding h(2) by (cases "id_image req") (auto split: if_splits)
  ultimately show ?thesis by blast
qed

lemma serve_plain:
  "\<not> offload g \<Longrightarrow> out \<in> set (serve env g reqs) \<Longrightarrow>
   \<not> offload (final out) \<and> placements (final out) = placements g \<and>
   (\<forall>h dv. MoveTo h dv \<notin> set (trace out)) \<and> EmptyCache \<notin> set (trace out)"
proof (induction reqs arbitrary: g)
  case Nil
  then show ?case by simp
next
  case (Cons r reqs)
  obtain req d where r: "r = (req, d)" by (cases r)
  let ?o = "generate_image env g req d"
  have f: "\<not> offload (final ?o)" using Cons.prems(1) by (simp add: generate_image_flags)
  from generate_image_plain[OF Cons.prems(1), of env req d]
  have p: "placements (final ?o) = placements g" by (auto simp: placements_def)
  have q: "(\<forall>h dv. MoveTo h dv \<notin> set (trace ?o)) \<and> EmptyCache \<notin> set (trace ?o)"
    using generate_image_events[of _ env g req d] Cons.prems(1) by fastforce
  from Cons.prems(2) r have "out = ?o \<or> out \<in> set (serve env (final ?o) reqs)"
    by (simp add: Let_def)
  then show ?case
  proof
    assume "out = ?o"
    with f p q show ?thesis by simp
  next
    assume "out \<in> set (serve env (final ?o) reqs)"
    from Cons.IH[OF f this] p show ?thesis by simp
  qed
qed


subsection \<open>What a request may write\<close>

lemma module_handle_eq:
  "checkpoint h' = checkpoint h \<Longrightarrow> (h' :: module_handle) = h\<lparr>placement := placement h'\<rparr>"
  by (cases h; cases h'; simp)

lemma embedder_eq:
  "checkpoint h' = checkpoint h \<Longrightarrow> max_length h' = max_length h \<Longrightarrow>
   (h' :: embedder) = h\<lparr>placement := placement h'\<rparr>"
  by (cases h; cases h'; simp)

lemma autoencoder_eq:
  "checkpoint h' = checkpoint h \<Longrightarrow> placement h' = placement h \<Longrightarrow>
   (h' :: autoencoder) = h\<lparr>decoder_placement := decoder_placement h'\<rparr>"
  by (cases h; cases h'; simp)

lemma relocated_iff:
  "relocated g g' \<longleftrightarrow>
     device g' = device g \<and> offload g' = offload g \<and> model_name g' = model_name g \<and>
     checkpoint (model g') = checkpoint (model g) \<and>
     checkpoint (ae g') = checkpoint (ae g) \<and> placement (ae g') = placement (ae g) \<and>
     checkpoint (t5 g') = checkpoint (t5 g) \<and> max_length (t5 g') = max_length (t5 g) \<and>
     checkpoint (clip g') = checkpoint (clip g) \<and>
     pulid_model g' = pulid_model g"
proof
  assume "relocated g g'"
  then show "device g' = device g \<and> offload g' = offload g \<and> model_name g' = model_name g \<and>
     checkpoint (model g') = checkpoint (model g) \<and>
     checkpoint (ae g') = checkpoint (ae g) \<and> placement (ae g') = placement (ae g) \<and>
     checkpoint (t5 g') = checkpoint (t5 g) \<and> max_length (t5 g') = max_length (t5 g) \<and>
     checkpoint (clip g') = checkpoint (clip g) \<and>
     pulid_model g' = pulid_model g"
    by (auto simp: relocated_def)
next
  assume a: "device g' = device g \<and> offload g' = offload g \<and> model_name g' = model_name g \<and>
     checkpoint (model g') = checkpoint (model g) \<and>
     checkpoint (ae g') = checkpoint (ae g) \<and> placement (ae g') = placement (ae g) \<and>
     checkpoint (t5 g') = checkpoint (t5 g) \<and> max_length (t5 g') = max_length (t5 g) \<and>
     checkpoint (clip g') = checkpoint (clip g) \<and>
     pulid_model g' = pulid_model g"
  have "g' = g\<lparr>t5 := (t5 g)\<lparr>placement := placement (t5 g')\<rparr>,
               clip := (clip g)\<lparr>placement := placement (clip g')\<rparr>,
               model := (model g)\<lparr>placement := placement (model g')\<rparr>,
               ae := (ae g)\<lparr>decoder_placement := decoder_placement (ae g')\<rparr>\<rparr>"
    using a module_handle_eq[of "model g'" "model g"] module_handle_eq[of "clip g'" "clip g"]
      embedder_eq[of "t5 g'" "t5 g"] autoencoder_eq[of "ae g'" "ae g"]
    by (cases g; cases g'; simp)
  then show "relocated g g'" unfolding relocated_def by blast
qed

lemma relocated_refl: "relocated g g"
  by (simp add: relocated_iff)

lemma relocated_trans: "relocated g g1 \<Longrightarrow> relocated g1 g2 \<Longrightarrow> relocated g g2"
  by (simp add: relocated_iff)

lemma frame_iff:
  "frame g g' \<longleftrightarrow>
     device g' = device g \<and> offload g' = offload g \<and> model_name g' = model_name g \<and>
     checkpoint (model g') = checkpoint (model g) \<and>
     checkpoint (ae g') = checkpoint (ae g) \<and> placement (ae g') = placement (ae g) \<and>
     checkpoint (t5 g') = checkpoint (t5 g) \<and>
     checkpoint (clip g') = checkpoint (clip g) \<and>
     checkpoint (pulid_model g') = checkpoint (pulid_model g) \<and>
     placement (pulid_model g') = placement (pulid_model g)"
proof
  assume "frame g g'"
  then show "device g' = device g \<and> offload g' = offload g \<and> model_name g' = model_name g \<and>
     checkpoint (model g') = checkpoint (model g) \<and>
     checkpoint (ae g') = checkpoint (ae g) \<and> placement (ae g') = placement (ae g) \<and>
     checkpoint (t5 g') = checkpoint (t5 g) \<and>
     checkpoint (clip g') = checkpoint (clip g) \<and>
     checkpoint (pulid_model g') = checkpoint (pulid_model g) \<and>
     placement (pulid_model g') = placement (pulid_model g)"
    by (auto simp: frame_def)
next
  assume a: "device g' = device g \<and> offload g' = offload g \<and> model_name g' = model_name g \<and>
     checkpoint (model g') = checkpoint (model g) \<and>
     checkpoint (ae g') = checkpoint (ae g) \<and> placement (ae g') = placement (ae g) \<and>
     checkpoint (t5 g') = checkpoint (t5 g) \<and>
     checkpoint (clip g') = checkpoint (clip g) \<and>
     checkpoint (pulid_model g') = checkpoint (pulid_model g) \<and>
     placement (pulid_model g') = placement (pulid_model g)"
  have t: "t5 g' = (t5 g)\<lparr>placement := placement (t5 g'), max_length := max_length (t5 g')\<rparr>"
    using a by (cases "t5 g"; cases "t5 g'"; simp)
  have p: "pulid_model g' = (pulid_model g)\<lparr>debug_img_list := debug_img_list (pulid_model g')\<rparr>"
    using a by (cases "pulid_model g"; cases "pulid_model g'"; simp)
  have "g' = g\<lparr>t5 := (t5 g)\<lparr>placement := placement (t5 g'), max_length := max_length (t5 g')\<rparr>,
               clip := (clip g)\<lparr>placement := placement (clip g')\<rparr>,
               model := (model g)\<lparr>placement := placement (model g')\<rparr>,
               ae := (ae g)\<lparr>decoder_placement := decoder_placement (ae g')\<rparr>,
               pulid_model := (pulid_model g)\<lparr>debug_img_list := debug_img_list (pulid_model g')\<rparr>\<rparr>"
    using a module_handle_eq[of "model g'" "model g"] module_handle_eq[of "clip g'" "clip g"]
      autoencoder_eq[of "ae g'" "ae g"] t p
    by (cases g; cases g'; simp)
  then show "frame g g'" unfolding frame_def by blast
qed

lemma frame_trans: "frame g g1 \<Longrightarrow> frame g1 g2 \<Longrightarrow> frame g g2"
  by (simp add: frame_iff)

lemma relocated_frame: "relocated g g' \<Longrightarrow> frame g g'"
  by (simp add: frame_iff relocated_iff)

lemma decode_stage_relocated: "relocated (fst w) (final (decode_stage env opts x w))"
  by (simp add: relocated_iff decode_stage_def offload_defs Let_def split: sum.splits)

lemma denoise_stage_relocated: "relocated (fst w) (final (denoise_stage env opts a w))"
proof (cases "denoise env (model (fst (before_denoise w))) a")
  case (Inl e)
  then show ?thesis by (simp add: relocated_iff denoise_stage_def before_denoise_def Let_def)
next
  case (Inr x)
  let ?w2 = "emit (Denoise (model (fst (before_denoise w))) a) (before_denoise w)"
  have "relocated (fst w) (fst ?w2)" by (simp add: relocated_iff before_denoise_def)
  moreover have "relocated (fst ?w2) (final (decode_stage env opts x ?w2))"
    by (rule decode_stage_relocated)
  ultimately have "relocated (fst w) (final (decode_stage env opts x ?w2))"
    by (rule relocated_trans)
  with Inr show ?thesis by (simp add: denoise_stage_def Let_def)
qed

lemma sample_stage_relocated: "relocated (fst w) (final (sample_stage env req opts u i ui w))"
proof -
  let ?x = "get_noise env 1 (sampling_options.height opts) (sampling_options.width opts)
                (device (fst w)) (sampling_options.seed opts)"
  show ?thesis
  proof (cases "image_seq_len ?x")
    case (Inl e)
    then show ?thesis by (simp add: sample_stage_def relocated_refl Let_def)
  next
    case (Inr n)
    let ?w2 = "emit (GetSchedule (sampling_options.num_steps opts) n True)
                   (emit (GetNoise 1 (sampling_options.height opts) (sampling_options.width opts)
                       (device (fst w)) (sampling_options.seed opts)) w)"
    let ?p = "prepare_stage env req opts u ?x ?w2"
    let ?a = "denoise_call req opts u i ui (get_schedule env (sampling_options.num_steps opts) n True)
                (fst ?p) (fst (snd ?p))"
    have "relocated (fst w) (fst (snd (snd ?p)))"
      by (simp add: relocated_iff prepare_stage_eq Let_def)
    moreover have "relocated (fst (snd (snd ?p))) (final (denoise_stage env opts ?a (snd (snd ?p))))"
      by (rule denoise_stage_relocated)
    ultimately have "relocated (fst w) (final (denoise_stage env opts ?a (snd (snd ?p))))"
      by (rule relocated_trans)
    with Inr show ?thesis by (simp add: sample_stage_def Let_def)
  qed
qed

lemma generate_image_relocated:
  "\<exists>dbg. relocated (g\<lparr>t5 := (t5 g)\<lparr>max_length := max_sequence_length req\<rparr>,
                       pulid_model := (pulid_model g)\<lparr>debug_img_list := dbg\<rparr>\<rparr>)
                  (final (generate_image env g req d))"
proof (cases rule: generate_image_cases[where env = env and g = g and req = req and d = d])
  case (early e)
  have "relocated (g\<lparr>t5 := (t5 g)\<lparr>max_length := max_sequence_length req\<rparr>,
                       pulid_model := (pulid_model g)\<lparr>debug_img_list := debug_img_list (pulid_model g)\<rparr>\<rparr>)
                  (final (generate_image env g req d))"
    using early(1) by (simp add: relocated_iff)
  then show ?thesis by blast
next
  case (started n)
  note Inr = started(1) and ps = started(2)
  let ?w = "(g\<lparr>t5 := (t5 g)\<lparr>max_length := max_sequence_length req\<rparr>\<rparr>,
            SetMaxLength (max_sequence_length req) # (if n = - 1 then [DrawSeed] else []))"
  let ?u = "cfg_active (true_cfg req)"
  let ?i = "identity_stage env req ?u ?w"
  let ?opts = "(make_options req n)\<lparr>sampling_options.seed := Some (if n = - 1 then uint d else n)\<rparr>"
  have eq: "generate_image env g req d
      = sample_stage env req ?opts ?u (fst ?i) (fst (snd ?i)) (snd (snd ?i))"
    using Inr ps by (simp add: generate_image_Inr Let_def)
  have r: "relocated (fst (snd (snd ?i))) (final (generate_image env g req d))"
    unfolding eq by (rule sample_stage_relocated)
  have "fst (snd (snd ?i)) = g\<lparr>t5 := (t5 g)\<lparr>max_length := max_sequence_length req\<rparr>,
          pulid_model := (pulid_model g)\<lparr>debug_img_list :=
             (case id_image req of None \<Rightarrow> debug_img_list (pulid_model g)
              | Some raw \<Rightarrow> debug_images env (pulid_model g) (resize_numpy_image_long env raw 1024))\<rparr>\<rparr>"
    by (simp add: identity_stage_eq Let_def split: option.splits)
  with r show ?thesis by auto
qed

lemma generate_image_frame: "frame g (final (generate_image env g req d))"
proof -
  from generate_image_relocated[of g req env d] obtain dbg where
    "relocated (g\<lparr>t5 := (t5 g)\<lparr>max_length := max_sequence_length req\<rparr>,
                       pulid_model := (pulid_model g)\<lparr>debug_img_list := dbg\<rparr>\<rparr>)
                  (final (generate_image env g req d))" by blast
  then show ?thesis by (simp add: frame_iff relocated_iff)
qed

lemma loads_empty: "(\<forall>h dv. Load h dv \<notin> set tr) \<Longrightarrow> loads tr = []"
  by (induction tr rule: loads.induct) auto

lemma generate_image_loads: "loads (trace (generate_image env g req d)) = []"
proof (rule loads_empty, intro allI notI)
  fix h dv assume "Load h dv \<in> set (trace (generate_image env g req d))"
  from generate_image_events[OF this] show False by simp
qed

lemma serve_frame:
  "out \<in> set (serve env g reqs) \<Longrightarrow> frame g (final out) \<and> loads (trace out) = []"
proof (induction reqs arbitrary: g)
  case Nil
  then show ?case by simp
next
  case (Cons r reqs)
  obtain req d where r: "r = (req, d)" by (cases r)
  let ?o = "generate_image env g req d"
  from Cons.prems r have "out = ?o \<or> out \<in> set (serve env (final ?o) reqs)"
    by (simp add: Let_def)
  then show ?case
  proof
    assume "out = ?o"
    then show ?thesis by (simp add: generate_image_frame generate_image_loads)
  next
    assume "out \<in> set (serve env (final ?o) reqs)"
    from Cons.IH[OF this] generate_image_frame[of g env req d] show ?thesis
      by (blast intro: frame_trans)
  qed
qed


subsection \<open>With offloading\<close>

lemma sample_stage_prepare_handles:
  assumes o: "offload (fst w)"
    and p: "Prepare t c x p \<in> set (trace (sample_stage env req opts u i ui w))"
  shows "Prepare t c x p \<in> set (snd w) \<or>
         (placement t = device (fst w) \<and> placement c = device (fst w))"
proof -
  let ?x = "get_noise env 1 (sampling_options.height opts) (sampling_options.width opts)
                (device (fst w)) (sampling_options.seed opts)"
  show ?thesis
  proof (cases "image_seq_len ?x")
    case (Inl e)
    with p show ?thesis by (auto simp: sample_stage_def Let_def)
  next
    case (Inr n)
    let ?w2 = "emit (GetSchedule (sampling_options.num_steps opts) n True)
                   (emit (GetNoise 1 (sampling_options.height opts) (sampling_options.width opts)
                       (device (fst w)) (sampling_options.seed opts)) w)"
    let ?p = "prepare_stage env req opts u ?x ?w2"
    let ?a = "denoise_call req opts u i ui (get_schedule env (sampling_options.num_steps opts) n True)
                (fst ?p) (fst (snd ?p))"
    from p Inr have "Prepare t c x p \<in> set (trace (denoise_stage env opts ?a (snd (snd ?p))))"
      by (simp add: sample_stage_def Let_def)
    from denoise_stage_events[OF this] have "Prepare t c x p \<in> set (snd (snd (snd ?p)))" by auto
    with o show ?thesis by (auto simp: prepare_stage_eq Let_def split: if_splits)
  qed
qed

lemma sample_stage_decoder:
  assumes o: "offload (fst w)" and k: "keeps_device env"
    and d: "Decode b \<in> set (trace (sample_stage env req opts u i ui w))"
  shows "Decode b \<in> set (snd w) \<or> decoder_placement b = device (fst w)"
proof -
  let ?x = "get_noise env 1 (sampling_options.height opts) (sampling_options.width opts)
                (device (fst w)) (sampling_options.seed opts)"
  show ?thesis
  proof (cases "image_seq_len ?x")
    case (Inl e)
    with d show ?thesis by (auto simp: sample_stage_def Let_def)
  next
    case (Inr n)
    let ?w2 = "emit (GetSchedule (sampling_options.num_steps opts) n True)
                   (emit (GetNoise 1 (sampling_options.height opts) (sampling_options.width opts)
                       (device (fst w)) (sampling_options.seed opts)) w)"
    let ?p = "prepare_stage env req opts u ?x ?w2"
    let ?a = "denoise_call req opts u i ui (get_schedule env (sampling_options.num_steps opts) n True)
                (fst ?p) (fst (snd ?p))"
    have o': "offload (fst (snd (snd ?p)))" using o by (simp add: prepare_stage_eq Let_def)
    from d Inr have "Decode b \<in> set (trace (denoise_stage env opts ?a (snd (snd ?p))))"
      by (simp add: sample_stage_def Let_def)
    from denoise_stage_decoder[OF o' this]
    have "Decode b \<in> set (snd (snd (snd ?p))) \<or> decoder_placement b = tdevice (img (inp ?a))" .
    moreover have "tdevice (img (inp ?a)) = device (fst w)"
      using k by (simp add: denoise_call_def prepare_stage_eq keeps_device_def Let_def)
    moreover have "Decode b \<in> set (snd (snd (snd ?p))) \<Longrightarrow> Decode b \<in> set (snd w)"
      by (auto simp: prepare_stage_eq Let_def split: if_splits)
    ultimately show ?thesis by auto
  qed
qed

lemma sample_stage_marks:
  assumes o: "offload (fst w)" and k: "keeps_device env"
  shows "(\<exists>rest. marks (trace (sample_stage env req opts u i ui w)) @ rest =
            marks (snd w) @
            [Moved T5 (device (fst w)), Moved CLIP (device (fst w)), Conditioning] @
            (if u then [Conditioning] else []) @
            [Moved T5 CPU, Moved CLIP CPU, Moved MODEL (device (fst w)), Denoising,
             Moved MODEL CPU, Moved AE_DECODER (device (fst w)), Decoding, Moved AE_DECODER CPU]) \<and>
         (\<forall>r. result (sample_stage env req opts u i ui w) = Inr r \<longrightarrow>
            marks (trace (sample_stage env req opts u i ui w)) =
            marks (snd w) @
            [Moved T5 (device (fst w)), Moved CLIP (device (fst w)), Conditioning] @
            (if u then [Conditioning] else []) @
            [Moved T5 CPU, Moved CLIP CPU, Moved MODEL (device (fst w)), Denoising,
             Moved MODEL CPU, Moved AE_DECODER (device (fst w)), Decoding, Moved AE_DECODER CPU])"
proof -
  let ?x = "get_noise env 1 (sampling_options.height opts) (sampling_options.width opts)
                (device (fst w)) (sampling_options.seed opts)"
  let ?dv = "device (fst w)"
  show ?thesis
  proof (cases "image_seq_len ?x")
    case (Inl e)
    then show ?thesis by (simp add: sample_stage_def Let_def)
  next
    case (Inr n)
    let ?w2 = "emit (GetSchedule (sampling_options.num_steps opts) n True)
                   (emit (GetNoise 1 (sampling_options.height opts) (sampling_options.width opts)
                       (device (fst w)) (sampling_options.seed opts)) w)"
    let ?p = "prepare_stage env req opts u ?x ?w2"
    let ?a = "denoise_call req opts u i ui (get_schedule env (sampling_options.num_steps opts) n True)
                (fst ?p) (fst (snd ?p))"
    let ?w3 = "snd (snd ?p)"
    have eq: "sample_stage env req opts u i ui w = denoise_stage env opts ?a ?w3"
      using Inr by (simp add: sample_stage_def Let_def)
    have o': "offload (fst ?w3)" and dv: "device (fst ?w3) = ?dv"
      using o by (simp_all add: prepare_stage_eq Let_def)
    have m3: "marks (snd ?w3) = marks (snd w) @ [Moved T5 ?dv, Moved CLIP ?dv, Conditioning] @
            (if u then [Conditioning] else [])"
      using o by (simp add: prepare_stage_eq Let_def)
    have td: "tdevice (img (inp ?a)) = ?dv"
      using k by (simp add: denoise_call_def prepare_stage_eq keeps_device_def Let_def)
    note ms = denoise_stage_marks[OF o', of env opts ?a, unfolded dv td m3]
    show ?thesis
    proof (cases "denoise env (model (fst (before_denoise ?w3))) ?a")
      case (Inl e)
      have "result (denoise_stage env opts ?a ?w3) = Inl e"
        using Inl by (simp add: denoise_stage_def Let_def)
      moreover have "marks (trace (denoise_stage env opts ?a ?w3)) =
          marks (snd w) @ [Moved T5 ?dv, Moved CLIP ?dv, Conditioning] @
            (if u then [Conditioning] else []) @
           [Moved T5 CPU, Moved CLIP CPU, Moved MODEL ?dv, Denoising]"
        using ms Inl by simp
      ultimately show ?thesis unfolding eq by simp
    next
      case (Inr x1)
      have "marks (trace (denoise_stage env opts ?a ?w3)) =
          marks (snd w) @ [Moved T5 ?dv, Moved CLIP ?dv, Conditioning] @
            (if u then [Conditioning] else []) @
           [Moved T5 CPU, Moved CLIP CPU, Moved MODEL ?dv, Denoising,
             Moved MODEL CPU, Moved AE_DECODER ?dv, Decoding, Moved AE_DECODER CPU]"
        using ms Inr by simp
      then show ?thesis unfolding eq by simp
    qed
  qed
qed


subsection \<open>Evaluating the concrete instance\<close>

lemmas run_defs = generate_image_def sample_stage_def denoise_stage_def decode_stage_def
  prepare_stage_def identity_stage_def before_denoise_def before_decode_def after_decode_def
  emit_def move_to_def abort_def draw_seed_def make_options_def denoise_call_def cfg_active_def
  get_id_embedding_def resize_numpy_image_long_def image_seq_len_def
  denoise_def denoise_step_def identity_at_def tzip_def
  to_pil_def clamp_def index0_def rearrange_chw_hwc_def affine_def cpu_def fromarray_def
  rescale_def byte_def trunc_def
  strip_def is_space_def parse_number_def digit_val_def too_many_digits_def
  FluxGenerator_init_def get_models_def load_t5_def load_clip_def load_flow_model_def load_ae_def
  PuLIDPipeline_def

lemmas demo_defs = demo_env_def demo_request_def demo_generator_def demo_face_def demo_image_def

lemma upt_0_3: "[0..<3] = [0, 1, 2]"
  by (simp add: upt_conv_Cons)

lemma demo_result:
  "result (generate_image demo_env demo_generator demo_request 7) =
     Inr (demo_image, ''7'', [\<lparr>rows = 1024, cols = 512, pixels = []\<rparr>])"
  by (simp add: run_defs demo_defs py_str_int_7 upt_0_3 Let_def cong: let_weak_cong)

lemma demo_seed: "py_int (int_max_str_digits demo_env) (seed demo_request) = Inr (- 1)"
  by (simp add: demo_request_def strip_def is_space_def parse_number_def digit_val_def
      too_many_digits_def)

lemma demo_rounding: "rounding (round_float demo_env)"
proof -
  have "\<lfloor>x * 128 + 1 / 2\<rfloor> \<le> \<lfloor>y * 128 + 1 / 2\<rfloor>" if "x \<le> y" for x y :: real
    using that by (intro floor_mono) simp
  then have "real_of_int \<lfloor>x * 128 + 1 / 2\<rfloor> / 128 \<le> real_of_int \<lfloor>y * 128 + 1 / 2\<rfloor> / 128"
    if "x \<le> y" for x y :: real
    using that by (simp add: divide_right_mono)
  then show ?thesis by (simp add: rounding_def demo_env_def)
qed

lemma demo_marks:
  "marks (trace (generate_image demo_env demo_generator demo_request 7)) =
     [Conditioning, Denoising, Decoding]"
  by (simp add: run_defs demo_defs py_str_int_7 Let_def cong: let_weak_cong)

lemma demo_cfg_marks:
  "marks (trace (generate_image demo_env demo_generator demo_cfg_request 7)) =
     [Conditioning, Conditioning, Denoising, Decoding]"
  by (simp add: run_defs demo_defs demo_cfg_request_def py_str_int_7 Let_def cong: let_weak_cong)

lemma marks_denoising: "Denoising \<in> set (marks tr) \<Longrightarrow> \<exists>m a. Denoise m a \<in> set tr"
  by (induction tr rule: marks.induct) auto

lemma demo_denoised:
  "\<exists>m a. Denoise m a \<in> set (trace (generate_image demo_env demo_generator demo_request 7))"
  by (rule marks_denoising) (simp add: demo_marks)

lemma demo_cfg_denoised:
  "\<exists>m a. Denoise m a \<in> set (trace (generate_image demo_env demo_generator demo_cfg_request 7))"
  by (rule marks_denoising) (simp add: demo_cfg_marks)

lemma demo_cfg_inactive: "\<not> cfg_active (true_cfg demo_request)"
  by (simp add: cfg_active_def demo_request_def)

lemma demo_cfg_active: "cfg_active (true_cfg demo_cfg_request)"
  by (simp add: cfg_active_def demo_request_def demo_cfg_request_def)

lemma demo_plain_marks:
  "marks (trace (generate_image demo_env demo_generator demo_plain_request 7)) =
     [Conditioning, Denoising, Decoding]"
  by (simp add: run_defs demo_defs demo_plain_request_def py_str_int_7 Let_def cong: let_weak_cong)

lemma demo_plain_denoised:
  "\<exists>m a. Denoise m a \<in> set (trace (generate_image demo_env demo_generator demo_plain_request 7))"
  by (rule marks_denoising) (simp add: demo_plain_marks)

lemma demo_seeds:
  "py_int (int_max_str_digits demo_env) (seed demo_cfg_request) = Inr (- 1)"
  "py_int (int_max_str_digits demo_env) (seed demo_plain_request) = Inr (- 1)"
  "py_int (int_max_str_digits demo_env) (seed demo_fixed_request) = Inr 42"
  "py_int (int_max_str_digits demo_env) (seed demo_bad_request) = Inl ValueError"
  by (simp_all add: demo_request_def demo_cfg_request_def demo_plain_request_def
      demo_fixed_request_def demo_bad_request_def
      strip_def is_space_def parse_number_def digit_val_def too_many_digits_def)

lemma demo_limit: "int_max_str_digits demo_env = 4300"
  by (simp add: demo_env_def)

lemma py_str_int_42: "py_str_int 4300 42 = Inr ''42''"
  by (simp add: py_str_int_def decimal_def too_many_digits_def digits.simps[of 42] digits.simps[of 4]
      char_of_def bit_0 bit_Suc)

lemma demo_fixed_result:
  "result (generate_image demo_env demo_generator demo_fixed_request 7) =
     Inr (demo_image, ''42'', [\<lparr>rows = 1024, cols = 512, pixels = []\<rparr>])"
  by (simp add: run_defs demo_defs demo_fixed_request_def py_str_int_42 upt_0_3 Let_def
      cong: let_weak_cong)

lemma demo_rescaled: "rescale (round_float demo_env) (255 / 256) = 255"
  by (simp add: rescale_def demo_env_def)

lemma demo_offload_result:
  "result (generate_image demo_env demo_offload_generator demo_cfg_request 7) =
     Inr (\<lparr>rows = 1, cols = 1, pixels = [0, 0, 255]\<rparr>, ''7'',
          [\<lparr>rows = 1024, cols = 512, pixels = []\<rparr>])"
  by (simp add: run_defs demo_defs demo_cfg_request_def demo_offload_generator_def
      py_str_int_7 upt_0_3 Let_def cong: let_weak_cong)

section \<open>The claims\<close>

text \<open>
  C6.  For every request that returns an image: the denoising loop was called and returned
  a latent, a decoder decoded it, and the image is the conversion (lines 144 to 148) of the
  decoded tensor.  Every byte of the image comes from an element \<open>v\<close> of that tensor which
  was first clamped to the interval from -1 to 1 and then rescaled by \<open>127.5 * (x + 1)\<close>,
  each operation rounded to the precision of the tensor; the rescaled value lies in the
  interval from 0 to 255, so the conversion to a byte does not wrap: the byte is the integer
  part of the rescaled value.  The rounding is assumed monotone and to leave 0, 2 and 255
  unchanged, and the decoder to return tensors that hold as many elements as their shape
  says.
\<close>

theorem pixels_clamped_then_rescaled:
  assumes rnd: "rounding (round_float env)"
    and dec: "\<forall>a z. numel_ok (decode env a z)"
    and res: "result (generate_image env g req d) = Inr (im, s, dbg)"
  shows "\<exists>m a x b.
     Denoise m a \<in> set (trace (generate_image env g req d)) \<and> denoise env m a = Inr x \<and>
     Decode b \<in> set (trace (generate_image env g req d)) \<and>
     to_pil (round_float env) (decode env b (unpack env x (height req) (width req))) = Inr im \<and>
     (\<forall>p \<in> set (pixels im).
        \<exists>v \<in> set (elems (decode env b (unpack env x (height req) (width req)))).
         - 1 \<le> min (max v (- 1)) 1 \<and> min (max v (- 1)) 1 \<le> 1 \<and>
         0 \<le> rescale (round_float env) (min (max v (- 1)) 1) \<and>
         rescale (round_float env) (min (max v (- 1)) 1) \<le> 255 \<and>
         p = byte (rescale (round_float env) (min (max v (- 1)) 1)) \<and>
         uint p = \<lfloor>rescale (round_float env) (min (max v (- 1)) 1)\<rfloor>)"
proof -
  from generate_image_image[OF res] obtain m a x b where
    h: "Denoise m a \<in> set (trace (generate_image env g req d))" "denoise env m a = Inr x"
       "Decode b \<in> set (trace (generate_image env g req d))"
    and p: "to_pil (round_float env) (decode env b (unpack env x (height req) (width req))) = Inr im"
    by blast
  let ?z = "decode env b (unpack env x (height req) (width req))"
  have n: "numel_ok ?z" using dec by simp
  have "\<forall>p \<in> set (pixels im). \<exists>v \<in> set (elems ?z).
         - 1 \<le> min (max v (- 1)) 1 \<and> min (max v (- 1)) 1 \<le> 1 \<and>
         0 \<le> rescale (round_float env) (min (max v (- 1)) 1) \<and>
         rescale (round_float env) (min (max v (- 1)) 1) \<le> 255 \<and>
         p = byte (rescale (round_float env) (min (max v (- 1)) 1)) \<and>
         uint p = \<lfloor>rescale (round_float env) (min (max v (- 1)) 1)\<rfloor>"
  proof
    fix q assume "q \<in> set (pixels im)"
    with to_pil_pixels[OF p n] obtain v where v: "v \<in> set (elems ?z)"
      "q = byte (rescale (round_float env) (min (max v (- 1)) 1))" by blast
    let ?c = "min (max v (- 1)) 1"
    have c: "- 1 \<le> ?c" "?c \<le> 1" by simp_all
    from rescale_range[OF rnd c]
    have r: "0 \<le> rescale (round_float env) ?c" "rescale (round_float env) ?c \<le> 255" by simp_all
    from uint_byte[OF r] v(2) have "uint q = \<lfloor>rescale (round_float env) ?c\<rfloor>" by simp
    with v c r show "\<exists>v \<in> set (elems ?z).
         - 1 \<le> min (max v (- 1)) 1 \<and> min (max v (- 1)) 1 \<le> 1 \<and>
         0 \<le> rescale (round_float env) (min (max v (- 1)) 1) \<and>
         rescale (round_float env) (min (max v (- 1)) 1) \<le> 255 \<and>
         q = byte (rescale (round_float env) (min (max v (- 1)) 1)) \<and>
         uint q = \<lfloor>rescale (round_float env) (min (max v (- 1)) 1)\<rfloor>" by blast
  qed
  with h p show ?thesis by blast
qed

theorem pixels_clamped_then_rescaled_witness:
  "rounding (round_float demo_env) \<and>
   (\<forall>a z. numel_ok (decode demo_env a z)) \<and>
   result (generate_image demo_env demo_generator demo_request 7) =
     Inr (demo_image, ''7'', [\<lparr>rows = 1024, cols = 512, pixels = []\<rparr>]) \<and>
   pixels demo_image = [95, 0, 255] \<and>
   rescale (round_float demo_env) (255 / 256) = 255 \<and>
   (\<exists>m a x b.
     Denoise m a \<in> set (trace (generate_image demo_env demo_generator demo_request 7)) \<and>
     denoise demo_env m a = Inr x \<and>
     Decode b \<in> set (trace (generate_image demo_env demo_generator demo_request 7)) \<and>
     to_pil (round_float demo_env)
       (decode demo_env b (unpack demo_env x (height demo_request) (width demo_request)))
       = Inr demo_image \<and>
     (\<forall>p \<in> set (pixels demo_image).
        \<exists>v \<in> set (elems (decode demo_env b
                           (unpack demo_env x (height demo_request) (width demo_request)))).
         - 1 \<le> min (max v (- 1)) 1 \<and> min (max v (- 1)) 1 \<le> 1 \<and>
         0 \<le> rescale (round_float demo_env) (min (max v (- 1)) 1) \<and>
         rescale (round_float demo_env) (min (max v (- 1)) 1) \<le> 255 \<and>
         p = byte (rescale (round_float demo_env) (min (max v (- 1)) 1)) \<and>
         uint p = \<lfloor>rescale (round_float demo_env) (min (max v (- 1)) 1)\<rfloor>))"
proof -
  note h0 = demo_rounding
  have h1: "\<forall>a z. numel_ok (decode demo_env a z)"
    by (simp add: demo_env_def numel_ok_def)
  note h2 = demo_result
  have h3: "pixels demo_image = [95, 0, 255]" by (simp add: demo_image_def)
  from pixels_clamped_then_rescaled[OF h0 h1 h2] h0 h1 h2 h3 demo_rescaled
  show ?thesis by blast
qed

text \<open>
  C1.  True classifier-free guidance is on exactly when \<open>|true_cfg - 1| > 0.01\<close> (line 77).
  When it is on, the prompts encoded are the prompt and then the negative prompt, and every
  call of the denoising loop receives the three parts of the conditioning encoded from the
  negative prompt, together with the start step and the scale of the request.  When it is
  off, the only prompt ever encoded is the prompt, every call of the loop receives no
  negative conditioning at all, the loop returns what the positive-only loop returns, and
  what the request returns is made from it: if the positive-only loop fails the request
  fails with its error, and otherwise the request returns the image that the conversion
  makes of the decoded output of the positive-only loop (or fails with the error of the
  conversion).  In both cases the request's result is determined in this way by what the
  loop returns, and a request that returns has called the loop.
\<close>

theorem true_cfg_gate:
  "(cfg_active (true_cfg req) \<longleftrightarrow> \<bar>true_cfg req - 1.0\<bar> > 0.01) \<and>
   (cfg_active (true_cfg req) \<longrightarrow>
      (prepared_prompts (trace (generate_image env g req d)) = [] \<or>
       prepared_prompts (trace (generate_image env g req d)) = [prompt req, neg_prompt req]) \<and>
      (\<forall>m a. Denoise m a \<in> set (trace (generate_image env g req d)) \<longrightarrow>
         prepared_prompts (trace (generate_image env g req d)) = [prompt req, neg_prompt req] \<and>
         (\<exists>t c x. Prepare t c x (neg_prompt req) \<in> set (trace (generate_image env g req d)) \<and>
            neg_txt a = Some (txt_emb (prepare env t c x (neg_prompt req))) \<and>
            neg_txt_ids a = Some (txt_ids (prepare env t c x (neg_prompt req))) \<and>
            neg_vec a = Some (vec (prepare env t c x (neg_prompt req)))) \<and>
         denoise_args.timestep_to_start_cfg a = timestep_to_start_cfg req \<and>
         denoise_args.true_cfg a = true_cfg req)) \<and>
   (\<not> cfg_active (true_cfg req) \<longrightarrow>
      (prepared_prompts (trace (generate_image env g req d)) = [] \<or>
       prepared_prompts (trace (generate_image env g req d)) = [prompt req]) \<and>
      (\<forall>m a. Denoise m a \<in> set (trace (generate_image env g req d)) \<longrightarrow>
         prepared_prompts (trace (generate_image env g req d)) = [prompt req] \<and>
         neg_txt a = None \<and> neg_txt_ids a = None \<and> neg_vec a = None \<and>
         denoise env m a = positive_only env m a \<and>
         (\<forall>e. positive_only env m a = Inl e \<longrightarrow> result (generate_image env g req d) = Inl e) \<and>
         (\<forall>x. positive_only env m a = Inr x \<longrightarrow>
            (\<exists>b. Decode b \<in> set (trace (generate_image env g req d)) \<and>
               (\<forall>e. to_pil (round_float env) (decode env b (unpack env x (height req) (width req)))
                      = Inl e \<longrightarrow>
                    result (generate_image env g req d) = Inl e) \<and>
               (\<forall>im. to_pil (round_float env) (decode env b (unpack env x (height req) (width req)))
                      = Inr im \<longrightarrow>
                    (\<exists>s dbg. result (generate_image env g req d) = Inr (im, s, dbg))))))) \<and>
   (\<forall>m a. Denoise m a \<in> set (trace (generate_image env g req d)) \<longrightarrow>
      (\<forall>e. denoise env m a = Inl e \<longrightarrow> result (generate_image env g req d) = Inl e) \<and>
      (\<forall>x. denoise env m a = Inr x \<longrightarrow>
         (\<exists>b. Decode b \<in> set (trace (generate_image env g req d)) \<and>
            (\<forall>e. to_pil (round_float env) (decode env b (unpack env x (height req) (width req)))
                   = Inl e \<longrightarrow>
                 result (generate_image env g req d) = Inl e) \<and>
            (\<forall>im. to_pil (round_float env) (decode env b (unpack env x (height req) (width req)))
                   = Inr im \<longrightarrow>
                 (\<exists>s dbg. result (generate_image env g req d) = Inr (im, s, dbg)))))) \<and>
   (\<forall>r. result (generate_image env g req d) = Inr r \<longrightarrow>
      (\<exists>m a. Denoise m a \<in> set (trace (generate_image env g req d))))"
proof -
  let ?tr = "trace (generate_image env g req d)"
  let ?u = "cfg_active (true_cfg req)"
  have 1: "?u \<longleftrightarrow> \<bar>true_cfg req - 1.0\<bar> > 0.01" by (simp add: cfg_active_def)
  have 2: "prepared_prompts ?tr = [] \<or>
           prepared_prompts ?tr = prompt req # (if ?u then [neg_prompt req] else [])"
    using generate_image_prompts[of env g req d] by blast
  have 3: "prepared_prompts ?tr = prompt req # (if ?u then [neg_prompt req] else [])"
    if "Denoise m a \<in> set ?tr" for m a
    using generate_image_prompts[of env g req d] that by blast
  have 4: "\<exists>t c x. Prepare t c x (neg_prompt req) \<in> set ?tr \<and>
            neg_txt a = Some (txt_emb (prepare env t c x (neg_prompt req))) \<and>
            neg_txt_ids a = Some (txt_ids (prepare env t c x (neg_prompt req))) \<and>
            neg_vec a = Some (vec (prepare env t c x (neg_prompt req)))"
    if dn: "Denoise m a \<in> set ?tr" and u: ?u for m a
  proof -
    from generate_image_denoise[OF dn] obtain n ts t c x i ui where
      a: "a = denoise_call req
           ((make_options req n)\<lparr>sampling_options.seed := Some (if n = - 1 then uint d else n)\<rparr>)
           ?u i ui ts (prepare env t c x (prompt req))
           (if ?u then Some (prepare env t c x (neg_prompt req)) else None)"
      and p: "?u \<longrightarrow> Prepare t c x (neg_prompt req) \<in> set ?tr" by blast
    from a u have "neg_txt a = Some (txt_emb (prepare env t c x (neg_prompt req)))"
      "neg_txt_ids a = Some (txt_ids (prepare env t c x (neg_prompt req)))"
      "neg_vec a = Some (vec (prepare env t c x (neg_prompt req)))"
      by (simp_all add: denoise_call_def)
    with p u show ?thesis by blast
  qed
  have 5: "denoise_args.timestep_to_start_cfg a = timestep_to_start_cfg req"
          "denoise_args.true_cfg a = true_cfg req"
    and 6: "\<not> ?u \<Longrightarrow> neg_txt a = None \<and> neg_txt_ids a = None \<and> neg_vec a = None"
    if "Denoise m a \<in> set ?tr" for m a
    using generate_image_denoise[OF that] by (auto simp: denoise_call_def)
  have 7: "denoise env m a = positive_only env m a"
    if "Denoise m a \<in> set ?tr" "\<not> ?u" for m a
    using that 5(2)[OF that(1)] by (simp add: denoise_positive_only)
  have 8: "(\<forall>e. denoise env m a = Inl e \<longrightarrow> result (generate_image env g req d) = Inl e) \<and>
      (\<forall>x. denoise env m a = Inr x \<longrightarrow>
         (\<exists>b. Decode b \<in> set ?tr \<and>
            (\<forall>e. to_pil (round_float env) (decode env b (unpack env x (height req) (width req)))
                   = Inl e \<longrightarrow>
                 result (generate_image env g req d) = Inl e) \<and>
            (\<forall>im. to_pil (round_float env) (decode env b (unpack env x (height req) (width req)))
                   = Inr im \<longrightarrow>
                 (\<exists>s dbg. result (generate_image env g req d) = Inr (im, s, dbg)))))"
    if "Denoise m a \<in> set ?tr" for m a
    using that by (rule generate_image_outcome)
  have 9: "(\<forall>e. positive_only env m a = Inl e \<longrightarrow> result (generate_image env g req d) = Inl e) \<and>
      (\<forall>x. positive_only env m a = Inr x \<longrightarrow>
         (\<exists>b. Decode b \<in> set ?tr \<and>
            (\<forall>e. to_pil (round_float env) (decode env b (unpack env x (height req) (width req)))
                   = Inl e \<longrightarrow>
                 result (generate_image env g req d) = Inl e) \<and>
            (\<forall>im. to_pil (round_float env) (decode env b (unpack env x (height req) (width req)))
                   = Inr im \<longrightarrow>
                 (\<exists>s dbg. result (generate_image env g req d) = Inr (im, s, dbg)))))"
    if "Denoise m a \<in> set ?tr" "\<not> ?u" for m a
    using 8[OF that(1)] unfolding 7[OF that] .
  have 10: "\<forall>r. result (generate_image env g req d) = Inr r \<longrightarrow> (\<exists>m a. Denoise m a \<in> set ?tr)"
    using generate_image_returns by blast
  have on: "?u \<longrightarrow>
      (prepared_prompts ?tr = [] \<or> prepared_prompts ?tr = [prompt req, neg_prompt req]) \<and>
      (\<forall>m a. Denoise m a \<in> set ?tr \<longrightarrow>
         prepared_prompts ?tr = [prompt req, neg_prompt req] \<and>
         (\<exists>t c x. Prepare t c x (neg_prompt req) \<in> set ?tr \<and>
            neg_txt a = Some (txt_emb (prepare env t c x (neg_prompt req))) \<and>
            neg_txt_ids a = Some (txt_ids (prepare env t c x (neg_prompt req))) \<and>
            neg_vec a = Some (vec (prepare env t c x (neg_prompt req)))) \<and>
         denoise_args.timestep_to_start_cfg a = timestep_to_start_cfg req \<and>
         denoise_args.true_cfg a = true_cfg req)"
  proof (intro impI conjI allI)
    assume u: ?u
    from 2 u show "prepared_prompts ?tr = [] \<or> prepared_prompts ?tr = [prompt req, neg_prompt req]"
      by simp
    fix m a assume dn: "Denoise m a \<in> set ?tr"
    from 3[OF dn] u show "prepared_prompts ?tr = [prompt req, neg_prompt req]" by simp
    from 4[OF dn u] show "\<exists>t c x. Prepare t c x (neg_prompt req) \<in> set ?tr \<and>
            neg_txt a = Some (txt_emb (prepare env t c x (neg_prompt req))) \<and>
            neg_txt_ids a = Some (txt_ids (prepare env t c x (neg_prompt req))) \<and>
            neg_vec a = Some (vec (prepare env t c x (neg_prompt req)))" .
    from 5[OF dn] show "denoise_args.timestep_to_start_cfg a = timestep_to_start_cfg req"
      "denoise_args.true_cfg a = true_cfg req" by simp_all
  qed
  have off: "\<not> ?u \<longrightarrow>
      (prepared_prompts ?tr = [] \<or> prepared_prompts ?tr = [prompt req]) \<and>
      (\<forall>m a. Denoise m a \<in> set ?tr \<longrightarrow>
         prepared_prompts ?tr = [prompt req] \<and>
         neg_txt a = None \<and> neg_txt_ids a = None \<and> neg_vec a = None \<and>
         denoise env m a = positive_only env m a \<and>
         (\<forall>e. positive_only env m a = Inl e \<longrightarrow> result (generate_image env g req d) = Inl e) \<and>
         (\<forall>x. positive_only env m a = Inr x \<longrightarrow>
            (\<exists>b. Decode b \<in> set ?tr \<and>
               (\<forall>e. to_pil (round_float env) (decode env b (unpack env x (height req) (width req)))
                      = Inl e \<longrightarrow>
                    result (generate_image env g req d) = Inl e) \<and>
               (\<forall>im. to_pil (round_float env) (decode env b (unpack env x (height req) (width req)))
                      = Inr im \<longrightarrow>
                    (\<exists>s dbg. result (generate_image env g req d) = Inr (im, s, dbg))))))"
  proof (intro impI conjI allI)
    assume nu: "\<not> ?u"
    from 2 nu show "prepared_prompts ?tr = [] \<or> prepared_prompts ?tr = [prompt req]" by simp
    fix m a assume dn: "Denoise m a \<in> set ?tr"
    from 3[OF dn] nu show "prepared_prompts ?tr = [prompt req]" by simp
    from 6[OF dn nu] show "neg_txt a = None" "neg_txt_ids a = None" "neg_vec a = None" by simp_all
    from 7[OF dn nu] show "denoise env m a = positive_only env m a" .
    from 9[OF dn nu] show "\<And>e. positive_only env m a = Inl e \<Longrightarrow> result (generate_image env g req d) = Inl e"
      by blast
    from 9[OF dn nu] show "\<And>x. positive_only env m a = Inr x \<Longrightarrow>
            \<exists>b. Decode b \<in> set ?tr \<and>
               (\<forall>e. to_pil (round_float env) (decode env b (unpack env x (height req) (width req)))
                      = Inl e \<longrightarrow>
                    result (generate_image env g req d) = Inl e) \<and>
               (\<forall>im. to_pil (round_float env) (decode env b (unpack env x (height req) (width req)))
                      = Inr im \<longrightarrow>
                    (\<exists>s dbg. result (generate_image env g req d) = Inr (im, s, dbg)))"
      by blast
  qed
  from 8 have all: "\<forall>m a. Denoise m a \<in> set ?tr \<longrightarrow>
      (\<forall>e. denoise env m a = Inl e \<longrightarrow> result (generate_image env g req d) = Inl e) \<and>
      (\<forall>x. denoise env m a = Inr x \<longrightarrow>
         (\<exists>b. Decode b \<in> set ?tr \<and>
            (\<forall>e. to_pil (round_float env) (decode env b (unpack env x (height req) (width req)))
                   = Inl e \<longrightarrow>
                 result (generate_image env g req d) = Inl e) \<and>
            (\<forall>im. to_pil (round_float env) (decode env b (unpack env x (height req) (width req)))
                   = Inr im \<longrightarrow>
                 (\<exists>s dbg. result (generate_image env g req d) = Inr (im, s, dbg)))))"
    by blast
  show ?thesis by (intro conjI; (rule 1 on off all 10))
qed

theorem true_cfg_gate_witness:
  "\<not> cfg_active (true_cfg demo_request) \<and>
   prepared_prompts (trace (generate_image demo_env demo_generator demo_request 7))
     = [prompt demo_request] \<and>
   result (generate_image demo_env demo_generator demo_request 7) =
     Inr (demo_image, ''7'', [\<lparr>rows = 1024, cols = 512, pixels = []\<rparr>]) \<and>
   (\<exists>m a x b. Denoise m a \<in> set (trace (generate_image demo_env demo_generator demo_request 7)) \<and>
      neg_txt a = None \<and> neg_txt_ids a = None \<and> neg_vec a = None \<and>
      denoise demo_env m a = positive_only demo_env m a \<and>
      positive_only demo_env m a = Inr x \<and>
      Decode b \<in> set (trace (generate_image demo_env demo_generator demo_request 7)) \<and>
      to_pil (round_float demo_env)
        (decode demo_env b (unpack demo_env x (height demo_request) (width demo_request)))
        = Inr demo_image) \<and>
   cfg_active (true_cfg demo_cfg_request) \<and>
   (\<exists>m a. Denoise m a \<in> set (trace (generate_image demo_env demo_generator demo_cfg_request 7))) \<and>
   prepared_prompts (trace (generate_image demo_env demo_generator demo_cfg_request 7))
     = [prompt demo_cfg_request, neg_prompt demo_cfg_request]"
proof -
  let ?G = "generate_image demo_env demo_generator demo_request 7"
  note t1 = true_cfg_gate[of demo_request demo_env demo_generator 7]
  note t2 = true_cfg_gate[of demo_cfg_request demo_env demo_generator 7]
  from demo_denoised obtain m a where dn: "Denoise m a \<in> set (trace ?G)" by blast
  from t1 demo_cfg_inactive dn have
    pp: "prepared_prompts (trace ?G) = [prompt demo_request]"
    and ng: "neg_txt a = None" "neg_txt_ids a = None" "neg_vec a = None"
    and eq: "denoise demo_env m a = positive_only demo_env m a"
    and el: "\<forall>e. positive_only demo_env m a = Inl e \<longrightarrow> result ?G = Inl e"
    and er: "\<forall>x. positive_only demo_env m a = Inr x \<longrightarrow>
            (\<exists>b. Decode b \<in> set (trace ?G) \<and>
               (\<forall>e. to_pil (round_float demo_env)
                       (decode demo_env b (unpack demo_env x (height demo_request) (width demo_request)))
                      = Inl e \<longrightarrow> result ?G = Inl e) \<and>
               (\<forall>im. to_pil (round_float demo_env)
                       (decode demo_env b (unpack demo_env x (height demo_request) (width demo_request)))
                      = Inr im \<longrightarrow> (\<exists>s dbg. result ?G = Inr (im, s, dbg))))"
    by blast+
  obtain x where x: "positive_only demo_env m a = Inr x"
    using el demo_result by (cases "positive_only demo_env m a") auto
  with er obtain b where b: "Decode b \<in> set (trace ?G)"
    "\<forall>e. to_pil (round_float demo_env)
            (decode demo_env b (unpack demo_env x (height demo_request) (width demo_request)))
          = Inl e \<longrightarrow> result ?G = Inl e"
    "\<forall>im. to_pil (round_float demo_env)
            (decode demo_env b (unpack demo_env x (height demo_request) (width demo_request)))
          = Inr im \<longrightarrow> (\<exists>s dbg. result ?G = Inr (im, s, dbg))"
    by blast
  have im: "to_pil (round_float demo_env)
            (decode demo_env b (unpack demo_env x (height demo_request) (width demo_request)))
          = Inr demo_image"
    using b(2,3) demo_result
    by (cases "to_pil (round_float demo_env)
            (decode demo_env b (unpack demo_env x (height demo_request) (width demo_request)))") auto
  from t2 demo_cfg_active demo_cfg_denoised
  have p2: "prepared_prompts (trace (generate_image demo_env demo_generator demo_cfg_request 7))
     = [prompt demo_cfg_request, neg_prompt demo_cfg_request]" by blast
  from dn ng eq x b(1) im
  have "\<exists>m a x b. Denoise m a \<in> set (trace ?G) \<and>
      neg_txt a = None \<and> neg_txt_ids a = None \<and> neg_vec a = None \<and>
      denoise demo_env m a = positive_only demo_env m a \<and>
      positive_only demo_env m a = Inr x \<and>
      Decode b \<in> set (trace ?G) \<and>
      to_pil (round_float demo_env)
        (decode demo_env b (unpack demo_env x (height demo_request) (width demo_request)))
        = Inr demo_image" by blast
  with demo_cfg_inactive pp demo_result demo_cfg_active demo_cfg_denoised p2
  show ?thesis by blast
qed

text \<open>
  C2.  If converting the seed raises, the request ends with that error before any noise is
  drawn.  If the seed is -1, a seed is drawn (a non-negative integer) and it is the seed
  given to the noise generator; otherwise nothing is drawn, and the noise generator gets
  the input seed, unless that integer is too long to be printed (line 74), in which case
  the request ends with that error before any noise is drawn.  In both cases the text
  handed back is the decimal text of the seed given to the noise generator, and reading it
  back gives that seed.
\<close>

theorem seed_resolved_and_echoed:
  "(\<forall>e. py_int (int_max_str_digits env) (seed req) = Inl e \<longrightarrow>
      result (generate_image env g req d) = Inl e \<and>
      noise_seeds (trace (generate_image env g req d)) = []) \<and>
   (py_int (int_max_str_digits env) (seed req) = Inr (- 1) \<longrightarrow>
      0 \<le> uint d \<and> DrawSeed \<in> set (trace (generate_image env g req d)) \<and>
      noise_seeds (trace (generate_image env g req d)) = [Some (uint d)] \<and>
      (\<forall>im s dbg. result (generate_image env g req d) = Inr (im, s, dbg) \<longrightarrow>
         s = decimal (uint d) \<and> py_int (int_max_str_digits env) (SeedStr s) = Inr (uint d))) \<and>
   (\<forall>n. py_int (int_max_str_digits env) (seed req) = Inr n \<and> n \<noteq> - 1 \<longrightarrow>
      DrawSeed \<notin> set (trace (generate_image env g req d)) \<and>
      (\<forall>e. py_str_int (int_max_str_digits env) n = Inl e \<longrightarrow>
         result (generate_image env g req d) = Inl e \<and>
         noise_seeds (trace (generate_image env g req d)) = []) \<and>
      (\<forall>t. py_str_int (int_max_str_digits env) n = Inr t \<longrightarrow>
         noise_seeds (trace (generate_image env g req d)) = [Some n] \<and>
         (\<forall>im s dbg. result (generate_image env g req d) = Inr (im, s, dbg) \<longrightarrow>
            s = t \<and> s = decimal n \<and> py_int (int_max_str_digits env) (SeedStr s) = Inr n)))"
proof (intro conjI allI impI)
  fix e assume "py_int (int_max_str_digits env) (seed req) = Inl e"
  then show "result (generate_image env g req d) = Inl e"
    and "noise_seeds (trace (generate_image env g req d)) = []"
    by (simp_all add: generate_image_Inl)
next
  show "0 \<le> uint d" by simp
next
  assume h: "py_int (int_max_str_digits env) (seed req) = Inr (- 1)"
  have ps: "py_str_int (int_max_str_digits env) (if (- 1 :: int) = - 1 then uint d else - 1)
      = Inr (decimal (if (- 1 :: int) = - 1 then uint d else - 1))"
    by (simp add: py_str_int_uint)
  from generate_image_draw[OF h] show "DrawSeed \<in> set (trace (generate_image env g req d))" by simp
  from generate_image_seeds[OF h ps]
  show "noise_seeds (trace (generate_image env g req d)) = [Some (uint d)]" by simp
  fix im s dbg assume r: "result (generate_image env g req d) = Inr (im, s, dbg)"
  from generate_image_echo[OF h r] have e: "py_str_int (int_max_str_digits env) (uint d) = Inr s"
    by simp
  from py_str_int_Inr[OF e] show "s = decimal (uint d)" .
  from py_int_py_str[OF e] show "py_int (int_max_str_digits env) (SeedStr s) = Inr (uint d)" .
next
  fix n assume "py_int (int_max_str_digits env) (seed req) = Inr n \<and> n \<noteq> - 1"
  then have h: "py_int (int_max_str_digits env) (seed req) = Inr n" and n: "n \<noteq> - 1" by simp_all
  from generate_image_draw[OF h] n show "DrawSeed \<notin> set (trace (generate_image env g req d))" by simp
  {
    fix e assume "py_str_int (int_max_str_digits env) n = Inl e"
    from generate_image_refused[OF h this, of g d]
    show "result (generate_image env g req d) = Inl e"
      and "noise_seeds (trace (generate_image env g req d)) = []" by simp_all
  }
  fix t assume t: "py_str_int (int_max_str_digits env) n = Inr t"
  from py_str_int_Inr[OF t] t n
  have ps: "py_str_int (int_max_str_digits env) (if n = - 1 then uint d else n)
      = Inr (decimal (if n = - 1 then uint d else n))" by simp
  from generate_image_seeds[OF h ps] n
  show "noise_seeds (trace (generate_image env g req d)) = [Some n]" by simp
  fix im s dbg assume r: "result (generate_image env g req d) = Inr (im, s, dbg)"
  from generate_image_echo[OF h r] n have e: "py_str_int (int_max_str_digits env) n = Inr s" by simp
  with t show "s = t" by simp
  from py_str_int_Inr[OF e] show "s = decimal n" .
  from py_int_py_str[OF e] show "py_int (int_max_str_digits env) (SeedStr s) = Inr n" .
qed

theorem seed_resolved_and_echoed_witness:
  "py_int (int_max_str_digits demo_env) (seed demo_request) = Inr (- 1) \<and>
   result (generate_image demo_env demo_generator demo_request 7) =
     Inr (demo_image, ''7'', [\<lparr>rows = 1024, cols = 512, pixels = []\<rparr>]) \<and>
   DrawSeed \<in> set (trace (generate_image demo_env demo_generator demo_request 7)) \<and>
   noise_seeds (trace (generate_image demo_env demo_generator demo_request 7))
     = [Some (uint (7 :: 64 word))] \<and>
   ''7'' = decimal (uint (7 :: 64 word)) \<and>
   py_int (int_max_str_digits demo_env) (SeedStr ''7'') = Inr (uint (7 :: 64 word)) \<and>
   py_int (int_max_str_digits demo_env) (seed demo_fixed_request) = Inr 42 \<and>
   py_str_int (int_max_str_digits demo_env) 42 = Inr ''42'' \<and>
   result (generate_image demo_env demo_generator demo_fixed_request 7) =
     Inr (demo_image, ''42'', [\<lparr>rows = 1024, cols = 512, pixels = []\<rparr>]) \<and>
   DrawSeed \<notin> set (trace (generate_image demo_env demo_generator demo_fixed_request 7)) \<and>
   noise_seeds (trace (generate_image demo_env demo_generator demo_fixed_request 7)) = [Some 42] \<and>
   py_int (int_max_str_digits demo_env) (SeedStr ''42'') = Inr 42 \<and>
   py_int (int_max_str_digits demo_env) (seed demo_bad_request) = Inl ValueError \<and>
   result (generate_image demo_env demo_generator demo_bad_request 7) = Inl ValueError \<and>
   noise_seeds (trace (generate_image demo_env demo_generator demo_bad_request 7)) = []"
proof -
  have p42: "py_str_int (int_max_str_digits demo_env) 42 = Inr ''42''"
    by (simp add: demo_limit py_str_int_42)
  have n42: "(42 :: int) \<noteq> - 1" by simp
  from seed_resolved_and_echoed[of demo_env demo_request demo_generator 7] demo_seed demo_result
  have a: "DrawSeed \<in> set (trace (generate_image demo_env demo_generator demo_request 7))"
    "noise_seeds (trace (generate_image demo_env demo_generator demo_request 7))
       = [Some (uint (7 :: 64 word))]"
    "''7'' = decimal (uint (7 :: 64 word))"
    "py_int (int_max_str_digits demo_env) (SeedStr ''7'') = Inr (uint (7 :: 64 word))"
    by blast+
  from seed_resolved_and_echoed[of demo_env demo_fixed_request demo_generator 7]
    demo_seeds(3) n42 p42 demo_fixed_result
  have b: "DrawSeed \<notin> set (trace (generate_image demo_env demo_generator demo_fixed_request 7))"
    "noise_seeds (trace (generate_image demo_env demo_generator demo_fixed_request 7)) = [Some 42]"
    "py_int (int_max_str_digits demo_env) (SeedStr ''42'') = Inr 42"
    by blast+
  from seed_resolved_and_echoed[of demo_env demo_bad_request demo_generator 7] demo_seeds(4)
  have c: "result (generate_image demo_env demo_generator demo_bad_request 7) = Inl ValueError"
    "noise_seeds (trace (generate_image demo_env demo_generator demo_bad_request 7)) = []"
    by blast+
  from demo_seed demo_result a demo_seeds(3) p42 demo_fixed_result b demo_seeds(4) c
  show ?thesis by blast
qed

text \<open>
  C3.  At every call of the denoising loop the conditional identity embedding is present
  exactly when the request has a reference image; the unconditional one is present only if
  there is a reference image and true guidance is on; without a reference image both are
  None.  With a reference image, the two values the loop receives are exactly the two the
  extractor returns for the resized reference image when asked with \<^verbatim>\<open>cal_uncond\<close> set to
  whether true guidance is on: the first is present, the second is present exactly when
  true guidance is on.  The extractor runs only for a request with a reference image, and
  is asked for the unconditional embedding exactly when true guidance is on; every request
  with a reference image whose seed is accepted resizes the image and runs the extractor
  on it; a request without a reference image neither resizes nor extracts.
\<close>

theorem identity_embeddings_presence:
  "(\<forall>m a. Denoise m a \<in> set (trace (generate_image env g req d)) \<longrightarrow>
      (id_emb a \<noteq> None \<longleftrightarrow> id_image req \<noteq> None) \<and>
      (uncond_id a \<noteq> None \<longrightarrow> id_image req \<noteq> None \<and> cfg_active (true_cfg req)) \<and>
      (id_image req = None \<longrightarrow> id_emb a = None \<and> uncond_id a = None) \<and>
      (\<forall>raw. id_image req = Some raw \<longrightarrow>
         id_emb a = Some (fst (fst (get_id_embedding env (pulid_model g)
                       (resize_numpy_image_long env raw 1024) (cfg_active (true_cfg req))))) \<and>
         uncond_id a = snd (fst (get_id_embedding env (pulid_model g)
                       (resize_numpy_image_long env raw 1024) (cfg_active (true_cfg req)))) \<and>
         (uncond_id a \<noteq> None \<longleftrightarrow> cfg_active (true_cfg req)) \<and>
         GetIdEmbedding (resize_numpy_image_long env raw 1024) (cfg_active (true_cfg req))
           \<in> set (trace (generate_image env g req d)))) \<and>
   (\<forall>im c. GetIdEmbedding im c \<in> set (trace (generate_image env g req d)) \<longrightarrow>
      id_image req \<noteq> None \<and> c = cfg_active (true_cfg req)) \<and>
   (\<forall>n raw. py_int (int_max_str_digits env) (seed req) = Inr n \<and>
        py_str_int (int_max_str_digits env) (if n = - 1 then uint d else n)
          = Inr (decimal (if n = - 1 then uint d else n)) \<and>
        id_image req = Some raw \<longrightarrow>
      Resize raw 1024 \<in> set (trace (generate_image env g req d)) \<and>
      GetIdEmbedding (resize_numpy_image_long env raw 1024) (cfg_active (true_cfg req))
        \<in> set (trace (generate_image env g req d))) \<and>
   (id_image req = None \<longrightarrow>
      (\<forall>im c. GetIdEmbedding im c \<notin> set (trace (generate_image env g req d))) \<and>
      (\<forall>raw k. Resize raw k \<notin> set (trace (generate_image env g req d))))"
proof (intro conjI allI impI)
  fix m a assume dn: "Denoise m a \<in> set (trace (generate_image env g req d))"
  from generate_image_denoise[OF dn]
  have i: "id_emb a = map_option (\<lambda>raw. id_encoder env (pulid_model g)
              (resize_numpy_image_long env raw 1024)) (id_image req)"
    and u: "uncond_id a = (if cfg_active (true_cfg req)
            then map_option (\<lambda>raw. uncond_id_encoder env (pulid_model g)
                                     (resize_numpy_image_long env raw 1024)) (id_image req)
            else None)"
    by (auto simp: denoise_call_def)
  from i show "id_emb a \<noteq> None \<longleftrightarrow> id_image req \<noteq> None" by simp
  from u show "id_image req \<noteq> None" "cfg_active (true_cfg req)" if "uncond_id a \<noteq> None"
    using that by (auto split: if_splits)
  from i u show "id_emb a = None" "uncond_id a = None" if "id_image req = None"
    using that by simp_all
  fix raw assume r: "id_image req = Some raw"
  from i r show "id_emb a = Some (fst (fst (get_id_embedding env (pulid_model g)
                       (resize_numpy_image_long env raw 1024) (cfg_active (true_cfg req)))))"
    by (simp add: get_id_embedding_def)
  from u r show "uncond_id a = snd (fst (get_id_embedding env (pulid_model g)
                       (resize_numpy_image_long env raw 1024) (cfg_active (true_cfg req))))"
    by (simp add: get_id_embedding_def)
  from u r show "uncond_id a \<noteq> None \<longleftrightarrow> cfg_active (true_cfg req)" by simp
  from generate_image_denoise_started[OF dn] generate_image_extracted[OF _ _ r, of env _ d g]
  show "GetIdEmbedding (resize_numpy_image_long env raw 1024) (cfg_active (true_cfg req))
           \<in> set (trace (generate_image env g req d))" by blast
next
  fix im c assume "GetIdEmbedding im c \<in> set (trace (generate_image env g req d))"
  from generate_image_identity_events[OF this]
  show "id_image req \<noteq> None" "c = cfg_active (true_cfg req)" by auto
next
  fix n raw
  assume "py_int (int_max_str_digits env) (seed req) = Inr n \<and>
        py_str_int (int_max_str_digits env) (if n = - 1 then uint d else n)
          = Inr (decimal (if n = - 1 then uint d else n)) \<and>
        id_image req = Some raw"
  then have h: "py_int (int_max_str_digits env) (seed req) = Inr n"
    "py_str_int (int_max_str_digits env) (if n = - 1 then uint d else n)
          = Inr (decimal (if n = - 1 then uint d else n))"
    "id_image req = Some raw" by simp_all
  from generate_image_extracted[OF h, of g]
  show "Resize raw 1024 \<in> set (trace (generate_image env g req d))"
    and "GetIdEmbedding (resize_numpy_image_long env raw 1024) (cfg_active (true_cfg req))
        \<in> set (trace (generate_image env g req d))" by simp_all
next
  fix im c assume "id_image req = None"
  with generate_image_identity_events[of im c env g req d]
  show "GetIdEmbedding im c \<notin> set (trace (generate_image env g req d))" by auto
next
  fix raw k assume "id_image req = None"
  with generate_image_resize_events[of raw k env g req d]
  show "Resize raw k \<notin> set (trace (generate_image env g req d))" by auto
qed

theorem identity_embeddings_presence_witness:
  "id_image demo_request = Some demo_face \<and> \<not> cfg_active (true_cfg demo_request) \<and>
   (\<exists>m a. Denoise m a \<in> set (trace (generate_image demo_env demo_generator demo_request 7)) \<and>
      id_emb a = Some (fst (fst (get_id_embedding demo_env (pulid_model demo_generator)
                    (resize_numpy_image_long demo_env demo_face 1024) False))) \<and>
      uncond_id a = None) \<and>
   Resize demo_face 1024 \<in> set (trace (generate_image demo_env demo_generator demo_request 7)) \<and>
   GetIdEmbedding (resize_numpy_image_long demo_env demo_face 1024) False
     \<in> set (trace (generate_image demo_env demo_generator demo_request 7)) \<and>
   id_image demo_cfg_request = Some demo_face \<and> cfg_active (true_cfg demo_cfg_request) \<and>
   (\<exists>m a. Denoise m a \<in> set (trace (generate_image demo_env demo_generator demo_cfg_request 7)) \<and>
      id_emb a = Some (fst (fst (get_id_embedding demo_env (pulid_model demo_generator)
                    (resize_numpy_image_long demo_env demo_face 1024) True))) \<and>
      uncond_id a = snd (fst (get_id_embedding demo_env (pulid_model demo_generator)
                    (resize_numpy_image_long demo_env demo_face 1024) True)) \<and>
      uncond_id a \<noteq> None) \<and>
   GetIdEmbedding (resize_numpy_image_long demo_env demo_face 1024) True
     \<in> set (trace (generate_image demo_env demo_generator demo_cfg_request 7)) \<and>
   id_image demo_plain_request = None \<and>
   (\<exists>m a. Denoise m a \<in> set (trace (generate_image demo_env demo_generator demo_plain_request 7)) \<and>
      id_emb a = None \<and> uncond_id a = None)"
proof -
  have h1: "id_image demo_request = Some demo_face" by (simp add: demo_request_def)
  have h2: "id_image demo_cfg_request = Some demo_face"
    by (simp add: demo_cfg_request_def demo_request_def)
  have h3: "id_image demo_plain_request = None" by (simp add: demo_plain_request_def)
  have u1: "cfg_active (true_cfg demo_request) = False" using demo_cfg_inactive by simp
  have u2: "cfg_active (true_cfg demo_cfg_request) = True" using demo_cfg_active by simp
  have ps: "py_str_int (int_max_str_digits demo_env) (if (- 1 :: int) = - 1 then uint (7 :: 64 word) else - 1)
      = Inr (decimal (if (- 1 :: int) = - 1 then uint (7 :: 64 word) else - 1))"
    using py_str_int_uint[of "int_max_str_digits demo_env" 7] by simp
  note t1 = identity_embeddings_presence[of demo_env demo_generator demo_request 7, unfolded u1]
  note t2 = identity_embeddings_presence[of demo_env demo_generator demo_cfg_request 7, unfolded u2]
  note t3 = identity_embeddings_presence[of demo_env demo_generator demo_plain_request 7]
  from demo_denoised obtain m1 a1 where
    d1: "Denoise m1 a1 \<in> set (trace (generate_image demo_env demo_generator demo_request 7))" by blast
  from t1 d1 h1 have a1: "id_emb a1 = Some (fst (fst (get_id_embedding demo_env (pulid_model demo_generator)
                    (resize_numpy_image_long demo_env demo_face 1024) False)))"
    "uncond_id a1 = None"
    "GetIdEmbedding (resize_numpy_image_long demo_env demo_face 1024) False
       \<in> set (trace (generate_image demo_env demo_generator demo_request 7))"
    by blast+
  from t1 demo_seed ps h1
  have r1: "Resize demo_face 1024 \<in> set (trace (generate_image demo_env demo_generator demo_request 7))"
    by blast
  from demo_cfg_denoised obtain m2 a2 where
    d2: "Denoise m2 a2 \<in> set (trace (generate_image demo_env demo_generator demo_cfg_request 7))" by blast
  from t2 d2 h2 have a2: "id_emb a2 = Some (fst (fst (get_id_embedding demo_env (pulid_model demo_generator)
                    (resize_numpy_image_long demo_env demo_face 1024) True)))"
    "uncond_id a2 = snd (fst (get_id_embedding demo_env (pulid_model demo_generator)
                    (resize_numpy_image_long demo_env demo_face 1024) True))"
    "uncond_id a2 \<noteq> None"
    "GetIdEmbedding (resize_numpy_image_long demo_env demo_face 1024) True
       \<in> set (trace (generate_image demo_env demo_generator demo_cfg_request 7))"
    by blast+
  from demo_plain_denoised obtain m3 a3 where
    d3: "Denoise m3 a3 \<in> set (trace (generate_image demo_env demo_generator demo_plain_request 7))" by blast
  from t3 d3 h3 have a3: "id_emb a3 = None" "uncond_id a3 = None" by blast+
  from d1 a1(1,2) have e1: "\<exists>m a. Denoise m a \<in> set (trace (generate_image demo_env demo_generator demo_request 7)) \<and>
      id_emb a = Some (fst (fst (get_id_embedding demo_env (pulid_model demo_generator)
                    (resize_numpy_image_long demo_env demo_face 1024) False))) \<and>
      uncond_id a = None" by blast
  from d2 a2(1,2,3) have e2: "\<exists>m a. Denoise m a \<in> set (trace (generate_image demo_env demo_generator demo_cfg_request 7)) \<and>
      id_emb a = Some (fst (fst (get_id_embedding demo_env (pulid_model demo_generator)
                    (resize_numpy_image_long demo_env demo_face 1024) True))) \<and>
      uncond_id a = snd (fst (get_id_embedding demo_env (pulid_model demo_generator)
                    (resize_numpy_image_long demo_env demo_face 1024) True)) \<and>
      uncond_id a \<noteq> None" by blast
  from d3 a3 have e3: "\<exists>m a. Denoise m a \<in> set (trace (generate_image demo_env demo_generator demo_plain_request 7)) \<and>
      id_emb a = None \<and> uncond_id a = None" by blast
  from h1 demo_cfg_inactive e1 r1 a1(3) h2 demo_cfg_active e2 a2(4) h3 e3
  show ?thesis by blast
qed




text \<open>
  C9.  The only image resized is the reference image of the request, with bound 1024; the
  identity extractor is only ever run on that resized image, whose edges are at most 1024;
  and the identity embeddings given to the denoising loop are those of the resized image.
\<close>

theorem reference_image_resized:
  "(\<forall>raw k. Resize raw k \<in> set (trace (generate_image env g req d)) \<longrightarrow>
      id_image req = Some raw \<and> k = 1024) \<and>
   (\<forall>im c. GetIdEmbedding im c \<in> set (trace (generate_image env g req d)) \<longrightarrow>
      (\<exists>raw. id_image req = Some raw \<and> im = resize_numpy_image_long env raw 1024 \<and>
             rows im \<le> 1024 \<and> cols im \<le> 1024)) \<and>
   (\<forall>m a raw. Denoise m a \<in> set (trace (generate_image env g req d)) \<and> id_image req = Some raw \<longrightarrow>
      id_emb a = Some (id_encoder env (pulid_model g) (resize_numpy_image_long env raw 1024)) \<and>
      (uncond_id a = None \<or>
       uncond_id a = Some (uncond_id_encoder env (pulid_model g)
                             (resize_numpy_image_long env raw 1024))))"
proof (intro conjI allI impI)
  fix im c assume "GetIdEmbedding im c \<in> set (trace (generate_image env g req d))"
  from generate_image_identity_events[OF this] resize_bound
  show "\<exists>raw. id_image req = Some raw \<and> im = resize_numpy_image_long env raw 1024 \<and>
             rows im \<le> 1024 \<and> cols im \<le> 1024" by blast
next
  fix m a raw
  assume "Denoise m a \<in> set (trace (generate_image env g req d)) \<and> id_image req = Some raw"
  then have dn: "Denoise m a \<in> set (trace (generate_image env g req d))"
    and r: "id_image req = Some raw" by simp_all
  from generate_image_denoise[OF dn] r
  show "id_emb a = Some (id_encoder env (pulid_model g) (resize_numpy_image_long env raw 1024))"
    and "uncond_id a = None \<or>
       uncond_id a = Some (uncond_id_encoder env (pulid_model g)
                             (resize_numpy_image_long env raw 1024))"
    by (auto simp: denoise_call_def)
next
  fix raw k assume r: "Resize raw k \<in> set (trace (generate_image env g req d))"
  show "id_image req = Some raw" "k = 1024"
  proof -
    have "id_image req = Some raw \<and> k = 1024"
    proof (cases rule: generate_image_cases[where env = env and g = g and req = req and d = d])
      case (early e)
      with r show ?thesis by (simp add: generate_image_Inl)
    next
      case (started n)
      note Inr = started(1) and ps = started(2)
      from generate_image_start[OF Inr ps, of g] obtain opts u i ui w where
        h: "generate_image env g req d = sample_stage env req opts u i ui w"
           "snd w = SetMaxLength (max_sequence_length req) # (if n = - 1 then [DrawSeed] else []) @
             (case id_image req of
                None \<Rightarrow> []
              | Some raw \<Rightarrow> [Resize raw 1024,
                   GetIdEmbedding (resize_numpy_image_long env raw 1024) (cfg_active (true_cfg req))])"
        by blast
      from sample_stage_events[OF r[unfolded h(1)]]
      have "Resize raw k \<in> set (snd w)" by auto
      then show ?thesis unfolding h(2) by (cases "id_image req") (auto split: if_splits)
    qed
    then show "id_image req = Some raw" "k = 1024" by simp_all
  qed
qed

theorem reference_image_resized_witness:
  "id_image demo_request = Some demo_face \<and> rows demo_face = 4096 \<and>
   (\<exists>m a. Denoise m a \<in> set (trace (generate_image demo_env demo_generator demo_request 7)) \<and>
      id_emb a = Some (id_encoder demo_env (pulid_model demo_generator)
                         (resize_numpy_image_long demo_env demo_face 1024)))"
proof -
  have h: "id_image demo_request = Some demo_face" "rows demo_face = 4096"
    by (simp_all add: demo_request_def demo_face_def)
  from reference_image_resized[of demo_env demo_generator demo_request 7] h demo_denoised
  show ?thesis by blast
qed

text \<open>
  C10.  The generator built at start-up has its offload flag False, whatever the command
  line says; after every request of a session the flag is still False, no handle has been
  relocated, no cache has been emptied and every handle is where start-up put it.
\<close>

theorem offload_flag_never_set:
  "offload (fst FluxGenerator_init) = False \<and>
   (\<forall>c. main c env reqs = main cli_offload env reqs) \<and>
   (\<forall>out \<in> set (snd (main cli_offload env reqs)).
      offload (final out) = False \<and>
      (\<forall>h dv. MoveTo h dv \<notin> set (trace out)) \<and> EmptyCache \<notin> set (trace out) \<and>
      placements (final out) = placements (fst FluxGenerator_init))"
proof -
  have i: "\<not> offload (fst FluxGenerator_init)"
    by (simp add: FluxGenerator_init_def get_models_def Let_def)
  have "\<forall>c. main c env reqs = main cli_offload env reqs"
    by (simp add: main_def create_demo_def)
  moreover have "\<forall>out \<in> set (snd (main cli_offload env reqs)).
      offload (final out) = False \<and>
      (\<forall>h dv. MoveTo h dv \<notin> set (trace out)) \<and> EmptyCache \<notin> set (trace out) \<and>
      placements (final out) = placements (fst FluxGenerator_init)"
    using serve_plain[OF i] by (simp add: main_def create_demo_def)
  ultimately show ?thesis using i by simp
qed

theorem offload_flag_never_set_witness:
  "snd (main True demo_env [(demo_request, 7)])
     = [generate_image demo_env demo_generator demo_request 7] \<and>
   offload (final (generate_image demo_env demo_generator demo_request 7)) = False \<and>
   EmptyCache \<notin> set (trace (generate_image demo_env demo_generator demo_request 7)) \<and>
   placements (final (generate_image demo_env demo_generator demo_request 7))
     = placements (fst FluxGenerator_init)"
proof -
  have m: "snd (main True demo_env [(demo_request, 7)])
     = [generate_image demo_env demo_generator demo_request 7]"
    by (simp add: main_def create_demo_def demo_generator_def Let_def)
  from offload_flag_never_set[of demo_env "[(demo_request, 7)]" True] m
  show ?thesis by simp
qed

text \<open>
  C7.  With the offload flag set (and collaborators that keep a latent on its device):
  every encoding of a prompt reads text encoders that are on the accelerator, every call
  of the denoising loop reads a denoiser that is on the accelerator, every decoding reads a
  decoder that is on the accelerator; and relocations and stages happen one after the
  other in this order: text encoders to the accelerator, conditioning, text encoders to
  CPU, denoiser to the accelerator, denoising, denoiser to CPU, decoder to the accelerator,
  decoding (and then the decoder back to CPU, lines 136 to 138).  A request that fails
  stops somewhere along this order; one that returns has gone through all of it.
\<close>

theorem offload_order:
  assumes o: "offload g" and k: "keeps_device env"
  shows "(\<forall>t c x p. Prepare t c x p \<in> set (trace (generate_image env g req d)) \<longrightarrow>
            placement t = device g \<and> placement c = device g) \<and>
         (\<forall>m a. Denoise m a \<in> set (trace (generate_image env g req d)) \<longrightarrow>
            placement m = device g) \<and>
         (\<forall>a. Decode a \<in> set (trace (generate_image env g req d)) \<longrightarrow>
            decoder_placement a = device g) \<and>
         (\<exists>rest. marks (trace (generate_image env g req d)) @ rest =
            [Moved T5 (device g), Moved CLIP (device g), Conditioning] @
            (if cfg_active (true_cfg req) then [Conditioning] else []) @
            [Moved T5 CPU, Moved CLIP CPU, Moved MODEL (device g), Denoising,
             Moved MODEL CPU, Moved AE_DECODER (device g), Decoding, Moved AE_DECODER CPU]) \<and>
         (\<forall>r. result (generate_image env g req d) = Inr r \<longrightarrow>
            marks (trace (generate_image env g req d)) =
            [Moved T5 (device g), Moved CLIP (device g), Conditioning] @
            (if cfg_active (true_cfg req) then [Conditioning] else []) @
            [Moved T5 CPU, Moved CLIP CPU, Moved MODEL (device g), Denoising,
             Moved MODEL CPU, Moved AE_DECODER (device g), Decoding, Moved AE_DECODER CPU])"
proof (cases rule: generate_image_cases[where env = env and g = g and req = req and d = d])
  case (early e)
  then show ?thesis by (simp add: generate_image_Inl)
next
  case (started n)
  note Inr = started(1) and ps = started(2)
  let ?w = "(g\<lparr>t5 := (t5 g)\<lparr>max_length := max_sequence_length req\<rparr>\<rparr>,
            SetMaxLength (max_sequence_length req) # (if n = - 1 then [DrawSeed] else []))"
  let ?u = "cfg_active (true_cfg req)"
  let ?i = "identity_stage env req ?u ?w"
  let ?opts = "(make_options req n)\<lparr>sampling_options.seed := Some (if n = - 1 then uint d else n)\<rparr>"
  let ?w1 = "snd (snd ?i)"
  have eq: "generate_image env g req d = sample_stage env req ?opts ?u (fst ?i) (fst (snd ?i)) ?w1"
    using Inr ps by (simp add: generate_image_Inr Let_def)
  have o1: "offload (fst ?w1)" and d1: "device (fst ?w1) = device g"
    using o by (simp_all add: identity_stage_eq Let_def split: option.splits)
  have m1: "marks (snd ?w1) = []"
    and n1: "\<And>t c x p. Prepare t c x p \<notin> set (snd ?w1)"
      "\<And>m a. Denoise m a \<notin> set (snd ?w1)" "\<And>a. Decode a \<notin> set (snd ?w1)"
    by (simp_all add: identity_stage_eq Let_def split: option.splits)
  have 1: "placement t = device g \<and> placement c = device g"
    if "Prepare t c x p \<in> set (trace (generate_image env g req d))" for t c x p
    using sample_stage_prepare_handles[OF o1 that[unfolded eq]] n1(1) d1 by simp
  have 2: "placement m = device g"
    if "Denoise m a \<in> set (trace (generate_image env g req d))" for m a
    using sample_stage_denoise[OF that[unfolded eq]] n1(2) o1 d1 by simp
  have 3: "decoder_placement a = device g"
    if "Decode a \<in> set (trace (generate_image env g req d))" for a
    using sample_stage_decoder[OF o1 k that[unfolded eq]] n1(3) d1 by simp
  note 4 = sample_stage_marks[OF o1 k, of req ?opts ?u "fst ?i" "fst (snd ?i)",
      unfolded d1 m1 append_Nil, folded eq]
  from 1 2 3 4 show ?thesis by blast
qed

theorem offload_order_witness:
  "offload demo_offload_generator \<and> keeps_device demo_env \<and>
   result (generate_image demo_env demo_offload_generator demo_cfg_request 7) =
     Inr (\<lparr>rows = 1, cols = 1, pixels = [0, 0, 255]\<rparr>, ''7'',
          [\<lparr>rows = 1024, cols = 512, pixels = []\<rparr>]) \<and>
   marks (trace (generate_image demo_env demo_offload_generator demo_cfg_request 7)) =
     [Moved T5 CUDA, Moved CLIP CUDA, Conditioning, Conditioning,
      Moved T5 CPU, Moved CLIP CPU, Moved MODEL CUDA, Denoising,
      Moved MODEL CPU, Moved AE_DECODER CUDA, Decoding, Moved AE_DECODER CPU]"
proof -
  have h1: "offload demo_offload_generator"
    by (simp add: demo_offload_generator_def)
  have h2: "keeps_device demo_env"
    by (simp add: keeps_device_def demo_env_def)
  note h3 = demo_offload_result
  have dv: "device demo_offload_generator = CUDA"
    by (simp add: demo_offload_generator_def demo_generator_def FluxGenerator_init_def
        get_models_def Let_def)
  from offload_order[OF h1 h2, of demo_cfg_request 7] h3
  have "marks (trace (generate_image demo_env demo_offload_generator demo_cfg_request 7)) =
     [Moved T5 (device demo_offload_generator), Moved CLIP (device demo_offload_generator),
      Conditioning] @
     (if cfg_active (true_cfg demo_cfg_request) then [Conditioning] else []) @
     [Moved T5 CPU, Moved CLIP CPU, Moved MODEL (device demo_offload_generator), Denoising,
      Moved MODEL CPU, Moved AE_DECODER (device demo_offload_generator), Decoding,
      Moved AE_DECODER CPU]"
    by blast
  then show ?thesis using h1 h2 h3 demo_cfg_active by (simp add: dv)
qed

text \<open>
  C8, as stated, fails: a request writes the token budget \<^verbatim>\<open>max_length\<close> of the T5 handle
  (line 57), which is not a placement.  Here the budget goes from 128 to 256 while the
  placement stays.
\<close>

theorem handles_written_counterexample:
  "max_length (t5 demo_generator) = 128 \<and>
   max_length (t5 (final (generate_image demo_env demo_generator demo_request 7))) = 256 \<and>
   placement (t5 (final (generate_image demo_env demo_generator demo_request 7)))
     = placement (t5 demo_generator)"
  by (simp add: run_defs demo_defs py_str_int_7 Let_def cong: let_weak_cong)


text \<open>
  C8, amended.  The handles are loaded once, at start-up, and no request loads anything.
  A request leaves the generator as it was except for: the token budget of T5, set to the
  request's \<^verbatim>\<open>max_sequence_length\<close>; the debug images of the identity pipeline; and the
  placements of the text encoders, the denoiser and the decoder, which only the offload
  policy moves (with the flag off they stay).  The same frame holds after any number of
  requests of a session.
\<close>

theorem handles_frame:
  "loads (fst (main c env reqs)) = [T5, CLIP, MODEL, AE, PULID] \<and>
   (\<forall>out \<in> set (snd (main c env reqs)).
      loads (trace out) = [] \<and> frame (fst FluxGenerator_init) (final out)) \<and>
   loads (trace (generate_image env g req d)) = [] \<and>
   (\<exists>dbg. relocated (g\<lparr>t5 := (t5 g)\<lparr>max_length := max_sequence_length req\<rparr>,
                        pulid_model := (pulid_model g)\<lparr>debug_img_list := dbg\<rparr>\<rparr>)
                   (final (generate_image env g req d))) \<and>
   (offload g = False \<longrightarrow>
      (\<exists>dbg. final (generate_image env g req d) =
          g\<lparr>t5 := (t5 g)\<lparr>max_length := max_sequence_length req\<rparr>,
            pulid_model := (pulid_model g)\<lparr>debug_img_list := dbg\<rparr>\<rparr>))"
proof -
  have 1: "loads (fst (main c env reqs)) = [T5, CLIP, MODEL, AE, PULID]"
    by (simp add: main_def FluxGenerator_init_def get_models_def Let_def)
  have 2: "\<forall>out \<in> set (snd (main c env reqs)).
      loads (trace out) = [] \<and> frame (fst FluxGenerator_init) (final out)"
    using serve_frame by (simp add: main_def create_demo_def)
  have 3: "offload g = False \<longrightarrow>
      (\<exists>dbg. final (generate_image env g req d) =
          g\<lparr>t5 := (t5 g)\<lparr>max_length := max_sequence_length req\<rparr>,
            pulid_model := (pulid_model g)\<lparr>debug_img_list := dbg\<rparr>\<rparr>)"
    using generate_image_plain[of g env req d] by simp
  from 1 2 3 generate_image_loads generate_image_relocated show ?thesis by blast
qed

theorem handles_frame_witness:
  "offload demo_generator = False \<and>
   loads (fst (main False demo_env [])) = [T5, CLIP, MODEL, AE, PULID] \<and>
   loads (trace (generate_image demo_env demo_generator demo_request 7)) = [] \<and>
   (\<exists>dbg. final (generate_image demo_env demo_generator demo_request 7) =
      demo_generator\<lparr>t5 := (t5 demo_generator)\<lparr>max_length := max_sequence_length demo_request\<rparr>,
        pulid_model := (pulid_model demo_generator)\<lparr>debug_img_list := dbg\<rparr>\<rparr>)"
proof -
  have h: "offload demo_generator = False"
    by (simp add: demo_generator_def FluxGenerator_init_def get_models_def Let_def)
  from handles_frame[of False demo_env "[]" demo_generator demo_request 7] h
  show ?thesis by blast
qed

end
